theory Spec2Isabelle
  imports Complex_Main "HOL-Library.Word" "HOL-Library.Stream" "HOL-Library.Monad_Syntax"
begin

unbundle bit_operations_syntax

section \<open>Numbers and the random engine\<close>

text \<open>
  A C \<open>double\<close> is modelled by a \<open>real\<close>: arithmetic is exact, there is no rounding, no
  overflow and no NaN. Where the source can divide by zero, index out of bounds or convert
  out of range, that is written out and the function returns \<open>None\<close>. The \<open>uint64_t\<close>
  count of \<open>random_polyagamma_devroye\<close> and the \<open>size_t\<close> index of the alternating series
  are 64-bit words; a \<open>size_t\<close> counter that stays far below \<open>2^64\<close> is a \<open>nat\<close>, which is
  said where it occurs. C's \<open>log\<close> is \<open>ln\<close>; the samplers call it on positive
  arguments only when the parameters are positive and the uniform draws lie in \<open>[0, 1)\<close>
  (HOL's \<open>ln\<close> is \<open>0\<close> at \<open>0\<close>, where C's is \<open>-inf\<close>).

  The engine \<open>bitgen_t\<close> belongs to NumPy. It is modelled by the values it hands out: one
  stream per primitive, consumed from the front. \<open>next_double\<close> and
  \<open>random_standard_uniform\<close> read the same stream (the second is a call of the first).
  \<open>gamma_log\<close> records the shape argument of every \<open>random_standard_gamma\<close> call, most
  recent first.
\<close>

record bitgen =
  uniforms :: "real stream"
  exponentials :: "real stream"
  gammas :: "real stream"
  walds :: "real stream"
  gamma_log :: "real list"

definition next_double :: "bitgen \<Rightarrow> real \<times> bitgen" where
  "next_double g = (shd (uniforms g), g\<lparr>uniforms := stl (uniforms g)\<rparr>)"

definition random_standard_uniform :: "bitgen \<Rightarrow> real \<times> bitgen" where
  "random_standard_uniform g = next_double g"

definition random_standard_exponential :: "bitgen \<Rightarrow> real \<times> bitgen" where
  "random_standard_exponential g =
     (shd (exponentials g), g\<lparr>exponentials := stl (exponentials g)\<rparr>)"

definition random_standard_gamma :: "bitgen \<Rightarrow> real \<Rightarrow> real \<times> bitgen" where
  "random_standard_gamma g h =
     (shd (gammas g), g\<lparr>gammas := stl (gammas g), gamma_log := h # gamma_log g\<rparr>)"

definition random_wald :: "bitgen \<Rightarrow> real \<Rightarrow> real \<Rightarrow> real \<times> bitgen" where
  "random_wald g m l = (shd (walds g), g\<lparr>walds := stl (walds g)\<rparr>)"

text \<open>
  \<open>const_engine u e\<close> is the engine whose uniform draws are all \<open>u\<close> and whose
  exponential draws are all \<open>e\<close>; it is used to trace single runs.
  \<open>exponentials_positive g\<close> says that no exponential draw of \<open>g\<close> is \<open>0\<close>. NumPy's
  \<open>random_standard_exponential\<close> can return \<open>0.0\<close>, so this is an assumption on the
  engine, not a property of it.
\<close>

definition const_engine :: "real \<Rightarrow> real \<Rightarrow> bitgen" where
  "const_engine u e =
     \<lparr>uniforms = sconst u, exponentials = sconst e, gammas = sconst 1, walds = sconst 1,
      gamma_log = []\<rparr>"

definition exponentials_positive :: "bitgen \<Rightarrow> bool" where
  "exponentials_positive g \<longleftrightarrow> (\<forall>n. 0 < exponentials g !! n)"

subsection \<open>Constants of \<open>pgm_common.h\<close> and \<open>float.h\<close>\<close>

definition PGM_PI2 :: real where "PGM_PI2 = 9.869604401089358"
definition PGM_PI2_8 :: real where "PGM_PI2_8 = 1.233700550136169"
definition PGM_LOGPI_2 :: real where "PGM_LOGPI_2 = 0.4515827052894548"
definition PGM_LS2PI :: real where "PGM_LS2PI = 0.9189385332046727"
definition PGM_1_SQRTPI :: real where "PGM_1_SQRTPI = 0.5641895835477563"

text \<open>IEEE-754 binary64: the smallest positive normal number and the machine epsilon.\<close>

definition DBL_MIN :: real where "DBL_MIN = 1 / 2 ^ 1022"
definition DBL_EPSILON :: real where "DBL_EPSILON = 1 / 2 ^ 52"

section \<open>Special functions (\<open>pgm_common.h\<close>)\<close>

subsection \<open>\<open>pgm_erfc\<close>\<close>

definition erfc_big_val :: real where "erfc_big_val = 26.615717509251258"
definition erfc_small_val :: real where "erfc_small_val = - 6.003636680306125"

text \<open>
  The three rational approximations of \<open>pgm_erfc\<close>, one per band, in Horner form. The
  source writes coefficients in scientific notation (\<open>3.20937758913846947e+03\<close>); here
  and in \<open>pgm_lgamma\<close> they are the same numbers written as plain decimals.
\<close>

definition erfc_band1 :: "real \<Rightarrow> real" where
  "erfc_band1 x =
     (let p0 = 3209.37758913846947; p1 = 377.485237685302021;
          p2 = 113.864154151050156; p3 = 3.16112374387056560;
          p4 = 0.185777706184603153;
          q0 = 2844.23683343917062; q1 = 1282.61652607737228;
          q2 = 244.024637934444173; q3 = 23.6012909523441209;
          z = x * x
      in 1 - x * ((((p4 * z + p3) * z + p2) * z + p1) * z + p0) /
                 ((((z + q3) * z + q2) * z + q1) * z + q0))"

definition erfc_band2 :: "real \<Rightarrow> real" where
  "erfc_band2 x =
     (let p0 = 7.3738883116; p1 = 6.8650184849; p2 = 3.0317993362;
          p3 = 0.56316961891; p4 = 0.000043187787405;
          q0 = 7.3739608908; q1 = 15.184908190; q2 = 12.795529509;
          q3 = 5.3542167949
      in exp (- x * x) * ((((p4 * x + p3) * x + p2) * x + p1) * x + p0) /
                         ((((x + q3) * x + q2) * x + q1) * x + q0))"

definition erfc_band3 :: "real \<Rightarrow> real" where
  "erfc_band3 x =
     (let z = x * x; y = exp (- z)
      in if x * DBL_MIN > y * PGM_1_SQRTPI then 0
         else
           (let p0 = - 0.0425799643553; p1 = - 0.196068973726;
                p2 = - 0.0516882262185;
                q0 = 0.150942070545; q1 = 0.921452411694;
                z1 = 1 / z;
                z2 = z1 * (((p2 * z1 + p1) * z1 + p0) / ((z1 + q1) * z1 + q0))
            in y * (PGM_1_SQRTPI + z2) / x))"

function pgm_erfc :: "real \<Rightarrow> real" where
  "pgm_erfc x =
     (if x < erfc_small_val then 2
      else if x < - DBL_EPSILON then 2 - pgm_erfc (- x)
      else if x < DBL_EPSILON then 1
      else if x < 0.5 then erfc_band1 x
      else if x < 4 then erfc_band2 x
      else if x < erfc_big_val then erfc_band3 x
      else 0)"
  by pat_completeness auto
termination
  by (relation "measure (\<lambda>x. if x < - DBL_EPSILON then 1 else 0)")
     (auto simp: DBL_EPSILON_def)

declare pgm_erfc.simps [simp del]

subsection \<open>\<open>inverse_gaussian_cdf\<close>\<close>

definition inverse_gaussian_cdf :: "real \<Rightarrow> real \<Rightarrow> real \<Rightarrow> real" where
  "inverse_gaussian_cdf x mu lambda =
     (let a = sqrt (0.5 * lambda / x);
          b = a * (x / mu);
          c = exp (lambda / mu)
      in 0.5 * (pgm_erfc (a - b) + c * pgm_erfc (b + a) * c))"

subsection \<open>\<open>pgm_lgamma\<close>\<close>

text \<open>
  \<open>(size_t)z\<close> for a \<open>double z\<close> drops the fraction; it is undefined when the result
  does not fit, that is unless \<open>-1 < z < 2^64\<close>. The value is kept as a \<open>nat\<close> below
  \<open>2^64\<close>, and the one wrap-around that can happen, \<open>zz - 1\<close> at \<open>zz = 0\<close>, is written
  out where it occurs.
\<close>

definition size_t_of_double :: "real \<Rightarrow> nat option" where
  "size_t_of_double z = (if - 1 < z \<and> z < 2 ^ 64 then Some (nat \<lfloor>z\<rfloor>) else None)"

definition logfactorial :: "real list" where
  "logfactorial = [
     0.000000000000000, 0.0000000000000000, 0.69314718055994529, 1.791759469228055,
     3.1780538303479458, 4.7874917427820458, 6.5792512120101012, 8.5251613610654147,
     10.604602902745251, 12.801827480081469, 15.104412573075516, 17.502307845873887,
     19.987214495661885, 22.552163853123425, 25.19122118273868, 27.89927138384089,
     30.671860106080672, 33.505073450136891, 36.395445208033053, 39.339884187199495,
     42.335616460753485, 45.380138898476908, 48.471181351835227, 51.606675567764377,
     54.784729398112319, 58.003605222980518, 61.261701761002001, 64.557538627006338,
     67.88974313718154, 71.257038967168015, 74.658236348830158, 78.092223553315307,
     81.557959456115043, 85.054467017581516, 88.580827542197682, 92.136175603687093,
     95.719694542143202, 99.330612454787428, 102.96819861451381, 106.63176026064346,
     110.32063971475739, 114.03421178146171, 117.77188139974507, 121.53308151543864,
     125.3172711493569, 129.12393363912722, 132.95257503561632, 136.80272263732635,
     140.67392364823425, 144.5657439463449, 148.47776695177302, 152.40959258449735,
     156.3608363030788, 160.3311282166309, 164.32011226319517, 168.32744544842765,
     172.35279713916279, 176.39584840699735, 180.45629141754378, 184.53382886144948,
     188.6281734236716, 192.7390472878449, 196.86618167289001, 201.00931639928152,
     205.1681994826412, 209.34258675253685, 213.53224149456327, 217.73693411395422,
     221.95644181913033, 226.1905483237276, 230.43904356577696, 234.70172344281826,
     238.97838956183432, 243.26884900298271, 247.57291409618688, 251.89040220972319,
     256.22113555000954, 260.56494097186322, 264.92164979855278, 269.29109765101981,
     273.67312428569369, 278.06757344036612, 282.4742926876304, 286.89313329542699,
     291.32395009427029, 295.76660135076065, 300.22094864701415, 304.68685676566872,
     309.1641935801469, 313.65282994987905, 318.1526396202093, 322.66349912672615,
     327.1852877037752, 331.71788719692847, 336.26118197919845, 340.81505887079902,
     345.37940706226686, 349.95411804077025, 354.53908551944079, 359.1342053695754,
     363.73937555556347, 368.35449607240474, 372.97946888568902, 377.61419787391867,
     382.25858877306001, 386.91254912321756, 391.57598821732961, 396.24881705179155,
     400.93094827891576, 405.6222961611449, 410.32277652693733, 415.03230672824964,
     419.75080559954472, 424.47819341825709, 429.21439186665157, 433.95932399501481,
     438.71291418612117, 443.47508812091894, 448.24577274538461, 453.02489623849613,
     457.81238798127816, 462.60817852687489, 467.4121995716082, 472.22438392698058,
     477.04466549258564, 481.87297922988796
  ]"

definition lgamma_stirling :: "real \<Rightarrow> real" where
  "lgamma_stirling z =
     (let a1 = 0.08333333333333333; a2 = 0.002777777777777778;
          a3 = 0.0007936507936507937;
          z2 = z * z;
          out = (z - 0.5) * ln z - z + PGM_LS2PI
      in out + (a1 / z - a2 / (z2 * z) + a3 / (z2 * z2 * z)))"

definition lgamma_rat_4_12 :: "real \<Rightarrow> real" where
  "lgamma_rat_4_12 z =
     (let p0 = - 212159.572323; p1 = 230661.510616; p2 = 27464.7644705;
          p3 = - 40262.1119975; p4 = - 2296.60729780;
          q0 = - 116328.495004; q1 = - 146025.937511;
          q2 = - 24235.7409629; q3 = - 570.691009324
      in ((((p4 * z + p3) * z + p2) * z + p1) * z + p0) /
         ((((z + q3) * z + q2) * z + q1) * z + q0))"

definition lgamma_rat_15_4 :: "real \<Rightarrow> real" where
  "lgamma_rat_15_4 z =
     (let p0 = - 78.3359299449; p1 = - 142.046296688; p2 = 137.519416416;
          p3 = 78.6994924154; p4 = 4.16438922228;
          q0 = 47.0668766060; q1 = 313.399215894; q2 = 263.505074721;
          q3 = 43.3400022514
      in (z - 2) * ((((p4 * z + p3) * z + p2) * z + p1) * z + p0) /
                   ((((z + q3) * z + q2) * z + q1) * z + q0))"

text \<open>
  The last band shares one set of coefficients between its two rational forms:
  \<open>lgamma_rat_low f z\<close> is \<open>f * P(z) / Q(z)\<close>.
\<close>

definition lgamma_rat_low :: "real \<Rightarrow> real \<Rightarrow> real" where
  "lgamma_rat_low f z =
     (let p0 = - 2.66685511495; p1 = - 24.4387534237; p2 = - 21.9698958928;
          p3 = 11.1667541262; p4 = 3.13060547623;
          q0 = 0.607771387771; q1 = 11.9400905721; q2 = 31.4690115749;
          q3 = 15.2346874070
      in f * ((((p4 * z + p3) * z + p2) * z + p1) * z + p0) /
             ((((z + q3) * z + q2) * z + q1) * z + q0))"

definition pgm_lgamma :: "real \<Rightarrow> real option" where
  "pgm_lgamma z =
     (case size_t_of_double z of
        None \<Rightarrow> None
      | Some zz \<Rightarrow>
          if z < 127 \<and> z = real zz then
            (if zz = 0 then None \<comment> \<open>index \<open>zz - 1\<close> wraps to \<open>SIZE_MAX\<close>: out of bounds\<close>
             else if zz - 1 < length logfactorial then Some (logfactorial ! (zz - 1))
             else None)
          else if z > 12 then Some (lgamma_stirling z)
          else if z \<ge> 4 then Some (lgamma_rat_4_12 z)
          else if z > 1.5 then Some (lgamma_rat_15_4 z)
          else if z \<ge> 0.5 then Some (lgamma_rat_low (z - 1) z)
          else if z > DBL_EPSILON then Some (lgamma_rat_low z (z + 1) - ln z)
          else if z > DBL_MIN then Some (- ln z)
          else Some 708.3964202663686)"

text \<open>
  The exact logarithms the table is compared with: \<open>ln_nat m\<close> is \<open>ln m\<close> and
  \<open>ln_fact m\<close> is \<open>ln (m!)\<close>.
\<close>

definition ln_nat :: "nat \<Rightarrow> real" where "ln_nat m = ln (real m)"

definition ln_fact :: "nat \<Rightarrow> real" where "ln_fact m = ln (fact m)"

subsection \<open>\<open>pgm_gammaq\<close>\<close>

text \<open>
  The two finite sums of \<open>pgm_gammaq\<close>. The counter \<open>k\<close> runs from 1 to below a bound that
  is less than 31, so it is a \<open>nat\<close>. \<open>sum += (a *= x / k)\<close> first updates \<open>a\<close>, then adds
  the new \<open>a\<close>; the source's \<open>sum\<close> is \<open>acc\<close> here.
\<close>

function gammaq_int_loop :: "nat \<Rightarrow> nat \<Rightarrow> real \<Rightarrow> real \<Rightarrow> real \<Rightarrow> real" where
  "gammaq_int_loop k ss x a acc =
     (if k < ss then (let a' = a * (x / real k) in gammaq_int_loop (k + 1) ss x a' (acc + a'))
      else acc)"
  by pat_completeness auto
termination
  by (relation "measure (\<lambda>(k, ss, x, a, acc). ss - k)") auto

declare gammaq_int_loop.simps [simp del]

function gammaq_half_loop :: "nat \<Rightarrow> nat \<Rightarrow> real \<Rightarrow> real \<Rightarrow> real \<Rightarrow> real" where
  "gammaq_half_loop k ss x a acc =
     (if k < ss + 1 then
        (let a' = a * (x / (real k - 0.5)) in gammaq_half_loop (k + 1) ss x a' (acc + a'))
      else acc)"
  by pat_completeness auto
termination
  by (relation "measure (\<lambda>(k, ss, x, a, acc). ss + 1 - k)") auto

declare gammaq_half_loop.simps [simp del]

text \<open>
  \<open>kf_gammaq\<close> comes from \<open>pgm_igammaq.h\<close>, which is not among the sources: it is a
  parameter. In the half-integer branch the source divides by \<open>sqrt(x)\<close>: at \<open>x = 0\<close> this
  is \<open>0.0 / 0.0\<close> (the sum is 0 there) and the result is NaN; for \<open>x < 0\<close> the square
  root itself is NaN. Both are \<open>None\<close>.
\<close>

definition pgm_gammaq :: "(real \<Rightarrow> real \<Rightarrow> real) \<Rightarrow> real \<Rightarrow> real \<Rightarrow> real option" where
  "pgm_gammaq kf_gammaq s x =
     (let one_sqrtpi = 0.5641895835477563 in
      case size_t_of_double s of
        None \<Rightarrow> None
      | Some ss \<Rightarrow>
          if s = real ss \<and> s < 30 then
            Some (exp (- x) * gammaq_int_loop 1 ss x 1 1)
          else if s = real ss + 0.5 \<and> s < 30 then
            (let sqrt_x = sqrt x;
                 acc = gammaq_half_loop 1 ss x 1 0
             in if x < 0 \<or> sqrt_x = 0 then None
                else Some (pgm_erfc sqrt_x + exp (- x) * one_sqrtpi * acc / sqrt_x))
          else Some (kf_gammaq s x))"

section \<open>Truncated samplers (\<open>pgm_common.h\<close>)\<close>

text \<open>
  A rejection loop may run forever, so each one is a partial function into \<open>option\<close>:
  \<open>None\<close> is the loop that never accepts. A sampler returns its value together with
  the engine after its draws.
\<close>

subsection \<open>\<open>random_left_bounded_gamma\<close>\<close>

partial_function (option) lbg_loop_gt1 ::
  "bitgen \<Rightarrow> real \<Rightarrow> real \<Rightarrow> real \<Rightarrow> real \<Rightarrow> (real \<times> bitgen) option" where
  "lbg_loop_gt1 g a_minus_1 b c0 one_minus_c0 =
     (let (e, g1) = random_standard_exponential g;
          x = b + e / c0;
          log_rho = a_minus_1 * ln x - x * one_minus_c0;
          log_m = a_minus_1 * ln (a_minus_1 / one_minus_c0) - a_minus_1;
          (u, g2) = random_standard_uniform g1
      in if ln (1 - u) > log_rho - log_m then lbg_loop_gt1 g2 a_minus_1 b c0 one_minus_c0
         else Some (x, g2))"

partial_function (option) lbg_loop_lt1 ::
  "bitgen \<Rightarrow> real \<Rightarrow> real \<Rightarrow> real \<Rightarrow> (real \<times> bitgen) option" where
  "lbg_loop_lt1 g a b t =
     (let (e, g1) = random_standard_exponential g;
          x = 1 + e / (t * b);
          (u, g2) = random_standard_uniform g1
      in if ln (1 - u) > (a - 1) * ln x then lbg_loop_lt1 g2 a b t
         else Some (x, g2))"

text \<open>The source overwrites \<open>b\<close> with \<open>t * b\<close> in the first branch; that value is \<open>b'\<close>.\<close>

definition random_left_bounded_gamma ::
  "bitgen \<Rightarrow> real \<Rightarrow> real \<Rightarrow> real \<Rightarrow> (real \<times> bitgen) option" where
  "random_left_bounded_gamma g a b t =
     (if a > 1 then
        (let b' = t * b;
             a_minus_1 = a - 1;
             b_minus_a = b' - a;
             c0 = 0.5 * (b_minus_a + sqrt (b_minus_a * b_minus_a + 4 * b')) / b';
             one_minus_c0 = 1 - c0
         in map_option (\<lambda>(x, g'). (t * (x / b'), g'))
              (lbg_loop_gt1 g a_minus_1 b' c0 one_minus_c0))
      else if a = 1 then
        (let (e, g') = random_standard_exponential g in Some (t + e / b, g'))
      else map_option (\<lambda>(x, g'). (t * x, g')) (lbg_loop_lt1 g a b t))"

text \<open>
  The round of the \<open>a > 1\<close> branch as the specification words it: the envelope rate is
  \<open>0.5 * ((b' - a + 1) + sqrt ((b' - a + 1)^2 + 4 * b')) / b'\<close>, the proposal is
  \<open>x = b' + Exp / c0\<close>, it is accepted when
  \<open>log (1 - U) \<le> (a - 1) * log x - x * (1 - c0) - ((a - 1) * log ((a - 1) / (1 - c0)) - (a - 1))\<close>
  and then \<open>t * x / b'\<close> is returned; otherwise the sampler tries again.
\<close>

definition lbg_gt1_round_claimed ::
  "bitgen \<Rightarrow> real \<Rightarrow> real \<Rightarrow> real \<Rightarrow> (real \<times> bitgen) option" where
  "lbg_gt1_round_claimed g a b t =
     (let b' = t * b;
          c0 = 0.5 * ((b' - a + 1) + sqrt ((b' - a + 1)\<^sup>2 + 4 * b')) / b';
          x = b' + shd (exponentials g) / c0;
          u = shd (uniforms g);
          g' = g\<lparr>exponentials := stl (exponentials g), uniforms := stl (uniforms g)\<rparr>
      in if ln (1 - u) \<le> (a - 1) * ln x - x * (1 - c0) - ((a - 1) * ln ((a - 1) / (1 - c0)) - (a - 1))
         then Some (t * x / b', g')
         else random_left_bounded_gamma g' a b t)"

subsection \<open>\<open>random_right_bounded_inverse_gaussian\<close>\<close>

partial_function (option) rbig_pair_loop :: "bitgen \<Rightarrow> real \<Rightarrow> (real \<times> bitgen) option" where
  "rbig_pair_loop g t =
     (let (e1, g1) = random_standard_exponential g;
          (e2, g2) = random_standard_exponential g1
      in if e1 * e1 > 2 * e2 / t then rbig_pair_loop g2 t else Some (e1, g2))"

text \<open>
  The loop test is \<open>a > 0 && log(1 - U) >= half_lambda * a * x\<close>: the uniform is drawn
  only when \<open>a > 0\<close>.
\<close>

partial_function (option) rbig_loop ::
  "bitgen \<Rightarrow> real \<Rightarrow> real \<Rightarrow> real \<Rightarrow> (real \<times> bitgen) option" where
  "rbig_loop g a half_lambda t =
     (case rbig_pair_loop g t of
        None \<Rightarrow> None
      | Some (e1, g1) \<Rightarrow>
          (let x0 = 1 + t * e1;
               x = t / (x0 * x0)
           in if a > 0 then
                (let (u, g2) = random_standard_uniform g1
                 in if ln (1 - u) \<ge> half_lambda * a * x then rbig_loop g2 a half_lambda t
                    else Some (x, g2))
              else Some (x, g1)))"

partial_function (option) rbig_wald_loop ::
  "bitgen \<Rightarrow> real \<Rightarrow> real \<Rightarrow> real \<Rightarrow> (real \<times> bitgen) option" where
  "rbig_wald_loop g mu lambda t =
     (let (x, g1) = random_wald g mu lambda
      in if x \<ge> t then rbig_wald_loop g1 mu lambda t else Some (x, g1))"

definition random_right_bounded_inverse_gaussian ::
  "bitgen \<Rightarrow> real \<Rightarrow> real \<Rightarrow> real \<Rightarrow> (real \<times> bitgen) option" where
  "random_right_bounded_inverse_gaussian g mu lambda t =
     (if t < mu then
        (let a = 1 / (mu * mu);
             half_lambda = - 0.5 * lambda
         in rbig_loop g a half_lambda t)
      else rbig_wald_loop g mu lambda t)"

section \<open>The gamma convolution sampler (\<open>pgm_devroye.c\<close>)\<close>

definition PGM_GAMMA_LIMIT :: nat where "PGM_GAMMA_LIMIT = 200"

text \<open>
  \<open>for (size_t n = PGM_GAMMA_LIMIT; n--; )\<close>: the test reads \<open>n\<close> and then decrements it, so
  the body sees \<open>n - 1\<close>. The counter stays in \<open>0..200\<close> while the body runs, so it is a
  \<open>nat\<close> here.
\<close>

fun gamma_conv_loop :: "nat \<Rightarrow> bitgen \<Rightarrow> real \<Rightarrow> real \<Rightarrow> real \<Rightarrow> real \<times> bitgen" where
  "gamma_conv_loop 0 g h z2 out = (out, g)"
| "gamma_conv_loop (Suc n) g h z2 out =
     (let c = real n + 0.5;
          (r, g') = random_standard_gamma g h
      in gamma_conv_loop n g' h z2 (out + r / (PGM_PI2 * c * c + z2)))"

definition random_polyagamma_gamma_conv :: "bitgen \<Rightarrow> real \<Rightarrow> real \<Rightarrow> real \<times> bitgen" where
  "random_polyagamma_gamma_conv g h z =
     (let z2 = z * z;
          (out, g') = gamma_conv_loop PGM_GAMMA_LIMIT g h z2 0
      in (0.5 * out, g'))"


section \<open>The Devroye sampler (\<open>pgm_devroye.c\<close>)\<close>

text \<open>
  Modelled from the spec: NumPy's macros \<open>NPY_PI\<close>, \<open>NPY_PI_2\<close> and \<open>NPY_2_PI\<close> are not
  among the sources. They are the numbers \<open>pi\<close>, \<open>pi / 2\<close> and \<open>2 / pi\<close>; the truncation
  point \<open>T\<close> of the sampler is \<open>2 / pi\<close>.
\<close>

definition NPY_PI :: real where "NPY_PI = pi"
definition NPY_PI_2 :: real where "NPY_PI_2 = pi / 2"
definition NPY_2_PI :: real where "NPY_2_PI = 2 / pi"
definition T :: real where "T = NPY_2_PI"

text \<open>\<open>struct config\<close>; the field \<open>x\<close> of the source is \<open>cfg_x\<close>, and so on.\<close>

record config =
  cfg_mu :: real
  cfg_k :: real
  cfg_half_mu2 :: real
  cfg_ratio :: real
  cfg_x :: real
  cfg_logx :: real

definition piecewise_coef :: "64 word \<Rightarrow> config \<Rightarrow> real" where
  "piecewise_coef n cfg =
     (let n_plus_half = real (unat n) + 0.5;
          n_plus_half2 = n_plus_half * n_plus_half;
          n_plus_halfpi = NPY_PI * n_plus_half;
          x = cfg_x cfg
      in if x > T then n_plus_halfpi * exp (- 0.5 * x * n_plus_halfpi * n_plus_halfpi)
         else if x > 0 then
           n_plus_halfpi * exp (- 1.5 * (PGM_LOGPI_2 + cfg_logx cfg) - 2 * n_plus_half2 / x)
         else 0)"

subsection \<open>\<open>random_jacobi_0\<close>\<close>

text \<open>
  The inner \<open>for (i = 1;; ++i)\<close> of both Jacobi samplers draws nothing: it returns
  \<open>True\<close> when the candidate is accepted (the source returns \<open>cfg->x\<close>) and \<open>False\<close>
  when it is rejected (the source breaks out to the outer loop).
\<close>

partial_function (option) jacobi_0_series ::
  "64 word \<Rightarrow> real \<Rightarrow> real \<Rightarrow> config \<Rightarrow> bool option" where
  "jacobi_0_series i s u cfg =
     (if i AND 1 \<noteq> 0 then
        (let s' = s - piecewise_coef i cfg
         in if u < s' then Some True else jacobi_0_series (i + 1) s' u cfg)
      else
        (let s' = s + piecewise_coef i cfg
         in if u > s' then Some False else jacobi_0_series (i + 1) s' u cfg))"

partial_function (option) jacobi_0_pair_loop :: "bitgen \<Rightarrow> (real \<times> bitgen) option" where
  "jacobi_0_pair_loop g =
     (let (e1, g1) = random_standard_exponential g;
          (e2, g2) = random_standard_exponential g1
      in if e1 * e1 > NPY_PI * e2 then jacobi_0_pair_loop g2 else Some (e1, g2))"

definition jacobi_0_ratio :: real where
  "jacobi_0_ratio = (let p = 0.422599094; q = 0.57810262346829443 in p / (p + q))"

partial_function (option) random_jacobi_0 ::
  "bitgen \<Rightarrow> config \<Rightarrow> (real \<times> config \<times> bitgen) option" where
  "random_jacobi_0 g cfg =
     (let (d, g1) = next_double g
      in case (if d < jacobi_0_ratio then
                 (case jacobi_0_pair_loop g1 of
                    None \<Rightarrow> None
                  | Some (e1, g2) \<Rightarrow>
                      (let cfg1 = cfg\<lparr>cfg_x := 1 + T * e1\<rparr>
                       in Some (cfg1\<lparr>cfg_x := T / (cfg_x cfg1 * cfg_x cfg1)\<rparr>, g2)))
               else
                 (let (e, g2) = random_standard_exponential g1
                  in Some (cfg\<lparr>cfg_x := T + 8 * e / PGM_PI2\<rparr>, g2)))
         of None \<Rightarrow> None
          | Some (cfg2, g3) \<Rightarrow>
              (let cfg3 = cfg2\<lparr>cfg_logx := ln (cfg_x cfg2)\<rparr>;
                   s = piecewise_coef 0 cfg3;
                   (d2, g4) = next_double g3;
                   u = d2 * s
               in case jacobi_0_series 1 s u cfg3 of
                    None \<Rightarrow> None
                  | Some accepted \<Rightarrow>
                      if accepted then Some (cfg_x cfg3, cfg3, g4)
                      else random_jacobi_0 g4 cfg3))"

subsection \<open>\<open>random_jacobi\<close>\<close>

definition initialize_config :: "config \<Rightarrow> real \<Rightarrow> config" where
  "initialize_config cfg z =
     (let cfg1 = cfg\<lparr>cfg_mu := 1 / z\<rparr>;
          cfg2 = cfg1\<lparr>cfg_k := PGM_PI2_8 + 0.5 * z * z\<rparr>
      in cfg2\<lparr>cfg_half_mu2 := - 0.5 / (cfg_mu cfg2 * cfg_mu cfg2)\<rparr>)"

partial_function (option) jacobi_series ::
  "64 word \<Rightarrow> real \<Rightarrow> real \<Rightarrow> config \<Rightarrow> bool option" where
  "jacobi_series i s u cfg =
     (if i AND 1 \<noteq> 0 then
        (let s' = s - piecewise_coef i cfg
         in if u \<le> s' then Some True else jacobi_series (i + 1) s' u cfg)
      else
        (let s' = s + piecewise_coef i cfg
         in if u > s' then Some False else jacobi_series (i + 1) s' u cfg))"

partial_function (option) random_jacobi ::
  "bitgen \<Rightarrow> config \<Rightarrow> (real \<times> config \<times> bitgen) option" where
  "random_jacobi g cfg =
     (let (d, g1) = next_double g
      in case (if d < cfg_ratio cfg then
                 (case random_right_bounded_inverse_gaussian g1 (cfg_mu cfg) 1 T of
                    None \<Rightarrow> None
                  | Some (v, g2) \<Rightarrow> Some (cfg\<lparr>cfg_x := v\<rparr>, g2))
               else
                 (let (e, g2) = random_standard_exponential g1
                  in Some (cfg\<lparr>cfg_x := T + e / cfg_k cfg\<rparr>, g2)))
         of None \<Rightarrow> None
          | Some (cfg2, g3) \<Rightarrow>
              (let cfg3 = cfg2\<lparr>cfg_logx := ln (cfg_x cfg2)\<rparr>;
                   s = piecewise_coef 0 cfg3;
                   (d2, g4) = next_double g3;
                   u = d2 * s
               in case jacobi_series 1 s u cfg3 of
                    None \<Rightarrow> None
                  | Some accepted \<Rightarrow>
                      if accepted then Some (cfg_x cfg3, cfg3, g4)
                      else random_jacobi g4 cfg3))"

subsection \<open>\<open>random_polyagamma_devroye\<close>\<close>

text \<open>
  The two \<open>do { out += sampler(...); n--; } while (n);\<close> loops, with \<open>n\<close> a \<open>uint64_t\<close>:
  the body runs before the first test, and \<open>n - 1\<close> wraps at \<open>n = 0\<close>. Given that the
  sampler returns, the loop ends: the decremented counter strictly decreases until it is 0.
\<close>

function devroye_loop_0 ::
  "bitgen \<Rightarrow> config \<Rightarrow> 64 word \<Rightarrow> real \<Rightarrow> (real \<times> bitgen) option" where
  "devroye_loop_0 g cfg n out =
     (case random_jacobi_0 g cfg of
        None \<Rightarrow> None
      | Some (v, cfg', g') \<Rightarrow>
          (let out' = out + v;
               n' = n - 1
           in if n' \<noteq> 0 then devroye_loop_0 g' cfg' n' out' else Some (out', g')))"
  by pat_completeness auto
termination
proof (relation "measure (\<lambda>(g, cfg, n, out). unat (n - 1))", goal_cases)
  case 1
  show ?case by simp
next
  case (2 g cfg n out r v rest cfg' g' out' n')
  from \<open>n' \<noteq> 0\<close> have "unat (n' - 1) < unat n'"
    by (simp add: unat_minus_one unat_gt_0)
  with \<open>n' = n - 1\<close> show ?case by simp
qed

declare devroye_loop_0.simps [simp del]

function devroye_loop ::
  "bitgen \<Rightarrow> config \<Rightarrow> 64 word \<Rightarrow> real \<Rightarrow> (real \<times> bitgen) option" where
  "devroye_loop g cfg n out =
     (case random_jacobi g cfg of
        None \<Rightarrow> None
      | Some (v, cfg', g') \<Rightarrow>
          (let out' = out + v;
               n' = n - 1
           in if n' \<noteq> 0 then devroye_loop g' cfg' n' out' else Some (out', g')))"
  by pat_completeness auto
termination
proof (relation "measure (\<lambda>(g, cfg, n, out). unat (n - 1))", goal_cases)
  case 1
  show ?case by simp
next
  case (2 g cfg n out r v rest cfg' g' out' n')
  from \<open>n' \<noteq> 0\<close> have "unat (n' - 1) < unat n'"
    by (simp add: unat_minus_one unat_gt_0)
  with \<open>n' = n - 1\<close> show ?case by simp
qed

declare devroye_loop.simps [simp del]

text \<open>
  \<open>struct config cfg;\<close> is declared without an initialiser. Every field is written before
  it is read on both paths (\<open>x\<close> and \<open>logx\<close> by the samplers, the rest by
  \<open>initialize_config\<close> and the assignment of \<open>ratio\<close>), so the initial contents do not
  reach the result; \<open>config_uninit\<close> stands for them.
\<close>

definition config_uninit :: config where
  "config_uninit = \<lparr>cfg_mu = 0, cfg_k = 0, cfg_half_mu2 = 0, cfg_ratio = 0, cfg_x = 0, cfg_logx = 0\<rparr>"

definition devroye_config :: "real \<Rightarrow> config" where
  "devroye_config z =
     (let cfg = initialize_config config_uninit z;
          q = NPY_PI_2 * exp (- cfg_k cfg * T) / cfg_k cfg;
          p = 2 * exp (- z) * inverse_gaussian_cdf T (cfg_mu cfg) 1
      in cfg\<lparr>cfg_ratio := p / (p + q)\<rparr>)"

definition random_polyagamma_devroye ::
  "bitgen \<Rightarrow> 64 word \<Rightarrow> real \<Rightarrow> (real \<times> bitgen) option" where
  "random_polyagamma_devroye g n z =
     (if z = 0 then
        map_option (\<lambda>(out, g'). (0.25 * out, g')) (devroye_loop_0 g config_uninit n 0)
      else
        map_option (\<lambda>(out, g'). (0.25 * out, g')) (devroye_loop g (devroye_config z) n 0))"

subsection \<open>A sampler run \<open>m\<close> times\<close>

text \<open>
  The reading of "the component sampler runs \<open>m\<close> times": \<open>component_draws f m g cfg\<close>
  calls \<open>f\<close> exactly \<open>m\<close> times in sequence, each call on the engine and the
  configuration the previous one left, and collects the \<open>m\<close> values in order. It is
  \<open>None\<close> as soon as one call does not return.
\<close>

fun component_draws ::
  "(bitgen \<Rightarrow> config \<Rightarrow> (real \<times> config \<times> bitgen) option) \<Rightarrow> nat \<Rightarrow> bitgen \<Rightarrow> config
     \<Rightarrow> (real list \<times> bitgen) option" where
  "component_draws f 0 g cfg = Some ([], g)"
| "component_draws f (Suc m) g cfg =
     (case f g cfg of
        None \<Rightarrow> None
      | Some (v, cfg', g') \<Rightarrow>
          (case component_draws f m g' cfg' of
             None \<Rightarrow> None
           | Some (vs, g'') \<Rightarrow> Some (v # vs, g'')))"

section \<open>Properties of the special functions\<close>

subsection \<open>\<open>inverse_gaussian_cdf\<close>\<close>

lemma pgm_erfc_0: "pgm_erfc 0 = 1"
  by (subst pgm_erfc.simps) (simp add: erfc_small_val_def DBL_EPSILON_def)

text \<open>
  C3. For \<open>x > 0\<close>, \<open>mu > 0\<close>, \<open>lambda > 0\<close>, \<open>inverse_gaussian_cdf x mu lambda\<close> is
  \<open>0.5 * (erfc (a - b) + c * erfc (a + b) * c)\<close> with \<open>a = sqrt (0.5 * lambda / x)\<close>,
  \<open>b = a * (x / mu)\<close>, \<open>c = exp (lambda / mu)\<close> and \<open>erfc\<close> the source's \<open>pgm_erfc\<close>:
  the second term carries \<open>c\<close> twice, that is the factor \<open>(exp (lambda / mu))^2\<close>.
\<close>

theorem inverse_gaussian_cdf_formula:
  assumes "x > 0" "mu > 0" "lambda > 0"
  shows "inverse_gaussian_cdf x mu lambda =
     (let a = sqrt (0.5 * lambda / x);
          b = a * (x / mu);
          c = exp (lambda / mu)
      in 0.5 * (pgm_erfc (a - b) + c * pgm_erfc (a + b) * c))
   \<and> inverse_gaussian_cdf x mu lambda =
     (let a = sqrt (0.5 * lambda / x);
          b = a * (x / mu)
      in 0.5 * (pgm_erfc (a - b) + (exp (lambda / mu))\<^sup>2 * pgm_erfc (a + b)))"
  by (simp add: inverse_gaussian_cdf_def Let_def add.commute power2_eq_square
      mult.commute mult.left_commute)

theorem inverse_gaussian_cdf_formula_witness:
  "(1::real) > 0 \<and> (1::real) > 0 \<and> (2::real) > 0 \<and>
   inverse_gaussian_cdf 1 1 2 = 0.5 * (1 + exp 2 * pgm_erfc 2 * exp 2)"
  using inverse_gaussian_cdf_formula [of 1 1 2] by (simp add: Let_def pgm_erfc_0)

subsection \<open>\<open>pgm_lgamma\<close>: the branches\<close>

lemma size_t_of_double_nat: "n < 2 ^ 64 \<Longrightarrow> size_t_of_double (real n) = Some n"
proof -
  assume "n < 2 ^ 64"
  then have "real n < real (2 ^ 64)" by (simp only: of_nat_less_iff)
  then show ?thesis by (simp add: size_t_of_double_def)
qed

lemma size_t_of_double_half: "n < 2 ^ 63 \<Longrightarrow> size_t_of_double (real n + 1 / 2) = Some n"
proof -
  assume "n < 2 ^ 63"
  then have "real n < real (2 ^ 63)" by (simp only: of_nat_less_iff)
  moreover have "\<lfloor>real n + 1 / 2\<rfloor> = int n" by (simp add: floor_eq_iff)
  ultimately show ?thesis by (simp add: size_t_of_double_def)
qed

lemma length_logfactorial: "length logfactorial = 126"
  by (simp add: logfactorial_def)

lemma lgamma_lookup:
  assumes "1 \<le> k" "k \<le> 126"
  shows "pgm_lgamma (real k) = Some (logfactorial ! (k - 1))"
proof -
  have "size_t_of_double (real k) = Some k"
    using assms by (intro size_t_of_double_nat) simp
  then show ?thesis
    using assms by (simp add: pgm_lgamma_def length_logfactorial)
qed

text \<open>
  Partial sums of the exponential series bound \<open>exp\<close> from below on the non-negative
  reals; twelve terms at \<open>0.693147181\<close> give \<open>ln 2 < 0.693147181\<close>.
\<close>

lemma exp_partial_sum_le:
  fixes x :: real
  assumes "0 \<le> x"
  shows "(\<Sum>k<n. x ^ k / fact k) \<le> exp x"
proof -
  have s: "(\<lambda>k. x ^ k / fact k) sums exp x"
    using exp_converges [of x] by (simp add: field_simps scaleR_conv_of_real)
  have "(\<Sum>k<n. x ^ k / fact k) \<le> (\<Sum>k. x ^ k / fact k)"
    by (rule sum_le_suminf) (use s assms in \<open>auto simp: sums_iff\<close>)
  then show ?thesis using s by (simp add: sums_iff)
qed

lemma exp_horner_12:
  fixes x :: real
  shows "(\<Sum>k<12. x ^ k / fact k) =
    1 + x * (1 + x / 2 * (1 + x / 3 * (1 + x / 4 * (1 + x / 5 * (1 + x / 6 * (1 + x / 7 *
      (1 + x / 8 * (1 + x / 9 * (1 + x / 10 * (1 + x / 11))))))))))"
  by (simp add: lessThan_nat_numeral sum.lessThan_Suc fact_numeral power_eq_if algebra_simps)

lemma ln_2_upper: "ln (2::real) < 693147181 / 10 ^ 9"
proof -
  let ?q = "693147181 / 10 ^ 9 :: real"
  have "2 < (\<Sum>k<12. ?q ^ k / fact k)"
    unfolding exp_horner_12 by simp
  also have "\<dots> \<le> exp ?q" by (rule exp_partial_sum_le) simp
  finally have "exp (ln 2) < exp ?q" by simp
  then show ?thesis by (simp only: exp_less_cancel_iff)
qed

lemma lgamma_tiny:
  assumes "0 < z" "z \<le> DBL_MIN"
  shows "pgm_lgamma z = Some 708.3964202663686"
proof -
  have small: "DBL_MIN < 1 / 2 ^ 52" by (simp add: DBL_MIN_def)
  have "\<lfloor>z\<rfloor> = 0" using assms small by (simp add: floor_eq_iff)
  then have "size_t_of_double z = Some 0"
    using assms small by (simp add: size_t_of_double_def)
  then show ?thesis
    using assms small by (simp add: pgm_lgamma_def DBL_EPSILON_def)
qed

text \<open>
  C9. For \<open>0 < z \<le> DBL_MIN\<close> the last branch of \<open>pgm_lgamma\<close> is taken
  (\<open>lgamma_tiny\<close>) and returns the literal \<open>708.3964202663686\<close>, which the source
  comments as \<open>-log(DBL_MIN)\<close>. The literal is not that number: at \<open>z = DBL_MIN\<close> the
  returned value exceeds \<open>- ln DBL_MIN = 1022 * ln 2\<close> by more than \<open>10^-6\<close>.
\<close>

theorem lgamma_tiny_constant_off:
  "pgm_lgamma DBL_MIN = Some 708.3964202663686 \<and>
   708.3964202663686 > - ln DBL_MIN + 1 / 10 ^ 6"
proof -
  have "ln ((2::real) ^ 1022) = real 1022 * ln 2"
    by (rule ln_realpow)
  moreover have "ln (1 / (2::real) ^ 1022) = ln 1 - ln (2 ^ 1022)"
    by (rule ln_divide_pos) simp_all
  ultimately have "- ln DBL_MIN = 1022 * ln (2::real)"
    unfolding DBL_MIN_def by (simp only: ln_one of_nat_numeral)
  moreover have "1022 * ln (2::real) < 1022 * (693147181 / 10 ^ 9)"
    using ln_2_upper by simp
  ultimately have "708.3964202663686 > - ln DBL_MIN + 1 / 10 ^ 6" by simp
  moreover have "pgm_lgamma DBL_MIN = Some 708.3964202663686"
    by (rule lgamma_tiny) (simp_all add: DBL_MIN_def)
  ultimately show ?thesis by simp
qed

subsection \<open>\<open>pgm_lgamma\<close>: the accuracy of the lookup table\<close>

text \<open>
  The table entries are decimal literals, so they cannot be \<open>ln (m!)\<close> exactly. They
  are compared with it through rational enclosures: the alternating series of
  \<open>ln (1 + y)\<close> encloses the logarithm of a ratio \<open>(m + 1) / m\<close> between two consecutive
  partial sums, the logarithms of the primes up to 113 follow from such ratios, those
  of the other numbers up to 125 from their factors, and \<open>ln (m!)\<close> by summation. All
  enclosures are written with 26 decimals.
\<close>

lemma ln_nat_mult: "0 < a \<Longrightarrow> 0 < b \<Longrightarrow> ln_nat (a * b) = ln_nat a + ln_nat b"
  by (simp add: ln_nat_def ln_mult_pos)

lemma ln_fact_Suc: "ln_fact (Suc m) = ln_nat (Suc m) + ln_fact m"
  by (simp add: ln_nat_def ln_fact_def ln_mult_pos add_pos_nonneg del: of_nat_Suc)

lemma ln_fact_0: "ln_fact 0 = 0"
  by (simp add: ln_fact_def)

lemma ln_nat_1: "ln_nat 1 = 0"
  by (simp add: ln_nat_def)

lemma ln_nat_succ: "0 < m \<Longrightarrow> ln (1 + 1 / real m) = ln_nat (Suc m) - ln_nat m"
proof -
  assume "0 < m"
  then have "1 + 1 / real m = real (Suc m) / real m" by (simp add: field_simps)
  then show ?thesis using \<open>0 < m\<close> by (simp add: ln_nat_def ln_divide_pos del: of_nat_Suc)
qed

lemma ln_alt_bounds:
  fixes y :: real
  assumes "0 \<le> y" "y < 1"
  shows "(\<Sum>i<2 * n. (- 1) ^ i * (1 / real (i + 1)) * y ^ Suc i) \<le> ln (1 + y)"
    and "ln (1 + y) \<le> (\<Sum>i<2 * n + 1. (- 1) ^ i * (1 / real (i + 1)) * y ^ Suc i)"
proof -
  let ?a = "\<lambda>i. 1 / real (i + 1) * y ^ Suc i"
  have lim: "?a \<longlonglongrightarrow> 0"
  proof -
    have "(\<lambda>i. inverse (real (Suc i))) \<longlonglongrightarrow> 0" by (rule LIMSEQ_inverse_real_of_nat)
    moreover have "(\<lambda>i. y ^ Suc i) \<longlonglongrightarrow> 0"
      using assms by (intro LIMSEQ_Suc LIMSEQ_power_zero) simp
    ultimately have "(\<lambda>i. inverse (real (Suc i)) * y ^ Suc i) \<longlonglongrightarrow> 0 * 0"
      by (rule tendsto_mult)
    then show ?thesis by (simp add: inverse_eq_divide)
  qed
  have nonneg: "0 \<le> ?a i" for i using assms by simp
  have mono: "?a (Suc i) \<le> ?a i" for i
  proof -
    have "y ^ Suc (Suc i) \<le> y ^ Suc i"
      using assms by (intro power_decreasing) simp_all
    moreover have "1 / real (Suc i + 1) \<le> 1 / real (i + 1)"
      by (simp add: field_simps)
    ultimately show ?thesis
      using assms by (intro mult_mono) simp_all
  qed
  have series: "ln (1 + y) = (\<Sum>i. (- 1) ^ i * ?a i)"
    using ln_series [of "1 + y"] assms by (simp add: mult.assoc)
  show "(\<Sum>i<2 * n. (- 1) ^ i * (1 / real (i + 1)) * y ^ Suc i) \<le> ln (1 + y)"
    using summable_Leibniz'(2) [OF lim nonneg mono, of n] series by (simp add: mult.assoc)
  show "ln (1 + y) \<le> (\<Sum>i<2 * n + 1. (- 1) ^ i * (1 / real (i + 1)) * y ^ Suc i)"
    using summable_Leibniz'(4) [OF lim nonneg mono, of n] series by (simp add: mult.assoc)
qed

lemma ln_fact_step: "m = Suc n \<Longrightarrow> ln_fact m = ln_nat m + ln_fact n"
  using ln_fact_Suc [of n] by simp

lemma ln_ratio_15:
  "0.06453852113757117167292391 \<le> ln_nat 16 - ln_nat 15"
  "ln_nat 16 - ln_nat 15 \<le> 0.06453852113757117167292392"
proof -
  have eq: "ln (1 + 1 / 15) = ln_nat 16 - ln_nat 15"
    using ln_nat_succ [of 15] by simp
  show "0.06453852113757117167292391 \<le> ln_nat 16 - ln_nat 15"
    using ln_alt_bounds(1) [of "1 / 15" 11] unfolding eq
    by (simp add: lessThan_nat_numeral sum.lessThan_Suc power_divide)
  show "ln_nat 16 - ln_nat 15 \<le> 0.06453852113757117167292392"
    using ln_alt_bounds(2) [of "1 / 15" 11] unfolding eq
    by (simp add: lessThan_nat_numeral sum.lessThan_Suc power_divide)
qed

lemma ln_ratio_24:
  "0.04082199452025512955457706 \<le> ln_nat 25 - ln_nat 24"
  "ln_nat 25 - ln_nat 24 \<le> 0.04082199452025512955457707"
proof -
  have eq: "ln (1 + 1 / 24) = ln_nat 25 - ln_nat 24"
    using ln_nat_succ [of 24] by simp
  show "0.04082199452025512955457706 \<le> ln_nat 25 - ln_nat 24"
    using ln_alt_bounds(1) [of "1 / 24" 9] unfolding eq
    by (simp add: lessThan_nat_numeral sum.lessThan_Suc power_divide)
  show "ln_nat 25 - ln_nat 24 \<le> 0.04082199452025512955457707"
    using ln_alt_bounds(2) [of "1 / 24" 9] unfolding eq
    by (simp add: lessThan_nat_numeral sum.lessThan_Suc power_divide)
qed

lemma ln_ratio_80:
  "0.01242251999855715331129312 \<le> ln_nat 81 - ln_nat 80"
  "ln_nat 81 - ln_nat 80 \<le> 0.01242251999855715331129313"
proof -
  have eq: "ln (1 + 1 / 80) = ln_nat 81 - ln_nat 80"
    using ln_nat_succ [of 80] by simp
  show "0.01242251999855715331129312 \<le> ln_nat 81 - ln_nat 80"
    using ln_alt_bounds(1) [of "1 / 80" 7] unfolding eq
    by (simp add: lessThan_nat_numeral sum.lessThan_Suc power_divide)
  show "ln_nat 81 - ln_nat 80 \<le> 0.01242251999855715331129313"
    using ln_alt_bounds(2) [of "1 / 80" 7] unfolding eq
    by (simp add: lessThan_nat_numeral sum.lessThan_Suc power_divide)
qed

text \<open>
  The logarithms of 2, 3 and 5 come from the three ratios \<open>16/15\<close>, \<open>25/24\<close> and
  \<open>81/80\<close>: \<open>ln 2 = 7 A + 5 B + 3 C\<close>, \<open>ln 3 = 11 A + 8 B + 5 C\<close> and
  \<open>ln 5 = 16 A + 12 B + 7 C\<close>.
\<close>

lemma ln_nat_2_3_5:
  "0.69314718055994530941723203 \<le> ln_nat 2" "ln_nat 2 \<le> 0.69314718055994530941723218"
  "1.09861228866810969139524509 \<le> ln_nat 3" "ln_nat 3 \<le> 1.09861228866810969139524533"
  "1.60943791243410037460075912 \<le> ln_nat 5" "ln_nat 5 \<le> 1.60943791243410037460075947"
proof -
  have e16: "ln_nat 16 = ln_nat 2 + ln_nat 8" using ln_nat_mult [of 2 8] by simp
  have e8: "ln_nat 8 = ln_nat 2 + ln_nat 4" using ln_nat_mult [of 2 4] by simp
  have e4: "ln_nat 4 = ln_nat 2 + ln_nat 2" using ln_nat_mult [of 2 2] by simp
  have e15: "ln_nat 15 = ln_nat 3 + ln_nat 5" using ln_nat_mult [of 3 5] by simp
  have e25: "ln_nat 25 = ln_nat 5 + ln_nat 5" using ln_nat_mult [of 5 5] by simp
  have e24: "ln_nat 24 = ln_nat 2 + ln_nat 12" using ln_nat_mult [of 2 12] by simp
  have e12: "ln_nat 12 = ln_nat 2 + ln_nat 6" using ln_nat_mult [of 2 6] by simp
  have e6: "ln_nat 6 = ln_nat 2 + ln_nat 3" using ln_nat_mult [of 2 3] by simp
  have e81: "ln_nat 81 = ln_nat 3 + ln_nat 27" using ln_nat_mult [of 3 27] by simp
  have e27: "ln_nat 27 = ln_nat 3 + ln_nat 9" using ln_nat_mult [of 3 9] by simp
  have e9: "ln_nat 9 = ln_nat 3 + ln_nat 3" using ln_nat_mult [of 3 3] by simp
  have e80: "ln_nat 80 = ln_nat 2 + ln_nat 40" using ln_nat_mult [of 2 40] by simp
  have e40: "ln_nat 40 = ln_nat 2 + ln_nat 20" using ln_nat_mult [of 2 20] by simp
  have e20: "ln_nat 20 = ln_nat 2 + ln_nat 10" using ln_nat_mult [of 2 10] by simp
  have e10: "ln_nat 10 = ln_nat 2 + ln_nat 5" using ln_nat_mult [of 2 5] by simp
  note facts = ln_ratio_15 ln_ratio_24 ln_ratio_80 e16 e8 e4 e15 e25 e24 e12 e6 e81 e27 e9 e80 e40 e20 e10
  show "0.69314718055994530941723203 \<le> ln_nat 2" using facts by linarith
  show "ln_nat 2 \<le> 0.69314718055994530941723218" using facts by linarith
  show "1.09861228866810969139524509 \<le> ln_nat 3" using facts by linarith
  show "ln_nat 3 \<le> 1.09861228866810969139524533" using facts by linarith
  show "1.60943791243410037460075912 \<le> ln_nat 5" using facts by linarith
  show "ln_nat 5 \<le> 1.60943791243410037460075947" using facts by linarith
qed

text \<open>
  A prime \<open>p \<ge> 7\<close> is reached through \<open>p\<^sup>2 = (p\<^sup>2 - 1) * (1 + 1 / (p\<^sup>2 - 1))\<close>, where
  \<open>p\<^sup>2 - 1\<close> is a product of smaller primes.
\<close>

lemma ln_ratio_48:
  "0.02061928720273568114653176 \<le> ln_nat 49 - ln_nat 48"
  "ln_nat 49 - ln_nat 48 \<le> 0.02061928720273568114653177"
proof -
  have eq: "ln (1 + 1 / 48) = ln_nat 49 - ln_nat 48"
    using ln_nat_succ [of 48] by simp
  show "0.02061928720273568114653176 \<le> ln_nat 49 - ln_nat 48"
    using ln_alt_bounds(1) [of "1 / 48" 8] unfolding eq
    by (simp add: lessThan_nat_numeral sum.lessThan_Suc power_divide)
  show "ln_nat 49 - ln_nat 48 \<le> 0.02061928720273568114653177"
    using ln_alt_bounds(2) [of "1 / 48" 8] unfolding eq
    by (simp add: lessThan_nat_numeral sum.lessThan_Suc power_divide)
qed

lemma ln_nat_7:
  "1.94591014905531330510535248 \<le> ln_nat 7" "ln_nat 7 \<le> 1.94591014905531330510535291"
proof -
  have sq: "ln_nat 49 = 2 * ln_nat 7" using ln_nat_mult [of 7 7] by simp
  have pr: "ln_nat 48 = 4 * ln_nat 2 + ln_nat 3"
    using ln_nat_mult [of 2 24] ln_nat_mult [of 2 12] ln_nat_mult [of 2 6] ln_nat_mult [of 2 3] by simp
  note facts = ln_ratio_48 sq pr ln_nat_2_3_5
  show "1.94591014905531330510535248 \<le> ln_nat 7" using facts by linarith
  show "ln_nat 7 \<le> 1.94591014905531330510535291" using facts by linarith
qed

lemma ln_ratio_120:
  "0.00829880281469509387618622 \<le> ln_nat 121 - ln_nat 120"
  "ln_nat 121 - ln_nat 120 \<le> 0.00829880281469509387618623"
proof -
  have eq: "ln (1 + 1 / 120) = ln_nat 121 - ln_nat 120"
    using ln_nat_succ [of 120] by simp
  show "0.00829880281469509387618622 \<le> ln_nat 121 - ln_nat 120"
    using ln_alt_bounds(1) [of "1 / 120" 6] unfolding eq
    by (simp add: lessThan_nat_numeral sum.lessThan_Suc power_divide)
  show "ln_nat 121 - ln_nat 120 \<le> 0.00829880281469509387618623"
    using ln_alt_bounds(2) [of "1 / 120" 6] unfolding eq
    by (simp add: lessThan_nat_numeral sum.lessThan_Suc power_divide)
qed

lemma ln_nat_11:
  "2.39789527279837054406194326 \<le> ln_nat 11" "ln_nat 11 \<le> 2.39789527279837054406194379"
proof -
  have sq: "ln_nat 121 = 2 * ln_nat 11" using ln_nat_mult [of 11 11] by simp
  have pr: "ln_nat 120 = 3 * ln_nat 2 + ln_nat 3 + ln_nat 5"
    using ln_nat_mult [of 2 60] ln_nat_mult [of 2 30] ln_nat_mult [of 2 15] ln_nat_mult [of 3 5] by simp
  note facts = ln_ratio_120 sq pr ln_nat_2_3_5
  show "2.39789527279837054406194326 \<le> ln_nat 11" using facts by linarith
  show "ln_nat 11 \<le> 2.39789527279837054406194379" using facts by linarith
qed

lemma ln_ratio_168:
  "0.00593473551981454735468053 \<le> ln_nat 169 - ln_nat 168"
  "ln_nat 169 - ln_nat 168 \<le> 0.00593473551981454735468054"
proof -
  have eq: "ln (1 + 1 / 168) = ln_nat 169 - ln_nat 168"
    using ln_nat_succ [of 168] by simp
  show "0.00593473551981454735468053 \<le> ln_nat 169 - ln_nat 168"
    using ln_alt_bounds(1) [of "1 / 168" 6] unfolding eq
    by (simp add: lessThan_nat_numeral sum.lessThan_Suc power_divide)
  show "ln_nat 169 - ln_nat 168 \<le> 0.00593473551981454735468054"
    using ln_alt_bounds(2) [of "1 / 168" 6] unfolding eq
    by (simp add: lessThan_nat_numeral sum.lessThan_Suc power_divide)
qed

lemma ln_nat_13:
  "2.56494935746153673605348709 \<le> ln_nat 13" "ln_nat 13 \<le> 2.56494935746153673605348766"
proof -
  have sq: "ln_nat 169 = 2 * ln_nat 13" using ln_nat_mult [of 13 13] by simp
  have pr: "ln_nat 168 = 3 * ln_nat 2 + ln_nat 3 + ln_nat 7"
    using ln_nat_mult [of 2 84] ln_nat_mult [of 2 42] ln_nat_mult [of 2 21] ln_nat_mult [of 3 7] by simp
  note facts = ln_ratio_168 sq pr ln_nat_2_3_5 ln_nat_7
  show "2.56494935746153673605348709 \<le> ln_nat 13" using facts by linarith
  show "ln_nat 13 \<le> 2.56494935746153673605348766" using facts by linarith
qed

lemma ln_ratio_288:
  "0.00346620797648623062241815 \<le> ln_nat 289 - ln_nat 288"
  "ln_nat 289 - ln_nat 288 \<le> 0.00346620797648623062241816"
proof -
  have eq: "ln (1 + 1 / 288) = ln_nat 289 - ln_nat 288"
    using ln_nat_succ [of 288] by simp
  show "0.00346620797648623062241815 \<le> ln_nat 289 - ln_nat 288"
    using ln_alt_bounds(1) [of "1 / 288" 5] unfolding eq
    by (simp add: lessThan_nat_numeral sum.lessThan_Suc power_divide)
  show "ln_nat 289 - ln_nat 288 \<le> 0.00346620797648623062241816"
    using ln_alt_bounds(2) [of "1 / 288" 5] unfolding eq
    by (simp add: lessThan_nat_numeral sum.lessThan_Suc power_divide)
qed

lemma ln_nat_17:
  "2.83321334405621608024953424 \<le> ln_nat 17" "ln_nat 17 \<le> 2.83321334405621608024953486"
proof -
  have sq: "ln_nat 289 = 2 * ln_nat 17" using ln_nat_mult [of 17 17] by simp
  have pr: "ln_nat 288 = 5 * ln_nat 2 + 2 * ln_nat 3"
    using ln_nat_mult [of 2 144] ln_nat_mult [of 2 72] ln_nat_mult [of 2 36] ln_nat_mult [of 2 18] ln_nat_mult [of 2 9] ln_nat_mult [of 3 3] by simp
  note facts = ln_ratio_288 sq pr ln_nat_2_3_5
  show "2.83321334405621608024953424 \<le> ln_nat 17" using facts by linarith
  show "ln_nat 17 \<le> 2.83321334405621608024953486" using facts by linarith
qed

lemma ln_ratio_360:
  "0.00277392688272523437510869 \<le> ln_nat 361 - ln_nat 360"
  "ln_nat 361 - ln_nat 360 \<le> 0.00277392688272523437510870"
proof -
  have eq: "ln (1 + 1 / 360) = ln_nat 361 - ln_nat 360"
    using ln_nat_succ [of 360] by simp
  show "0.00277392688272523437510869 \<le> ln_nat 361 - ln_nat 360"
    using ln_alt_bounds(1) [of "1 / 360" 5] unfolding eq
    by (simp add: lessThan_nat_numeral sum.lessThan_Suc power_divide)
  show "ln_nat 361 - ln_nat 360 \<le> 0.00277392688272523437510870"
    using ln_alt_bounds(2) [of "1 / 360" 5] unfolding eq
    by (simp add: lessThan_nat_numeral sum.lessThan_Suc power_divide)
qed

lemma ln_nat_19:
  "2.94443897916644046000902704 \<le> ln_nat 19" "ln_nat 19 \<le> 2.94443897916644046000902769"
proof -
  have sq: "ln_nat 361 = 2 * ln_nat 19" using ln_nat_mult [of 19 19] by simp
  have pr: "ln_nat 360 = 3 * ln_nat 2 + 2 * ln_nat 3 + ln_nat 5"
    using ln_nat_mult [of 2 180] ln_nat_mult [of 2 90] ln_nat_mult [of 2 45] ln_nat_mult [of 3 15] ln_nat_mult [of 3 5] by simp
  note facts = ln_ratio_360 sq pr ln_nat_2_3_5
  show "2.94443897916644046000902704 \<le> ln_nat 19" using facts by linarith
  show "ln_nat 19 \<le> 2.94443897916644046000902769" using facts by linarith
qed

lemma ln_ratio_528:
  "0.00189214815203790848738836 \<le> ln_nat 529 - ln_nat 528"
  "ln_nat 529 - ln_nat 528 \<le> 0.00189214815203790848738837"
proof -
  have eq: "ln (1 + 1 / 528) = ln_nat 529 - ln_nat 528"
    using ln_nat_succ [of 528] by simp
  show "0.00189214815203790848738836 \<le> ln_nat 529 - ln_nat 528"
    using ln_alt_bounds(1) [of "1 / 528" 5] unfolding eq
    by (simp add: lessThan_nat_numeral sum.lessThan_Suc power_divide)
  show "ln_nat 529 - ln_nat 528 \<le> 0.00189214815203790848738837"
    using ln_alt_bounds(2) [of "1 / 528" 5] unfolding eq
    by (simp add: lessThan_nat_numeral sum.lessThan_Suc power_divide)
qed

lemma ln_nat_23:
  "3.13549421592914969080675241 \<le> ln_nat 23" "ln_nat 23 \<le> 3.13549421592914969080675311"
proof -
  have sq: "ln_nat 529 = 2 * ln_nat 23" using ln_nat_mult [of 23 23] by simp
  have pr: "ln_nat 528 = 4 * ln_nat 2 + ln_nat 3 + ln_nat 11"
    using ln_nat_mult [of 2 264] ln_nat_mult [of 2 132] ln_nat_mult [of 2 66] ln_nat_mult [of 2 33] ln_nat_mult [of 3 11] by simp
  note facts = ln_ratio_528 sq pr ln_nat_11 ln_nat_2_3_5
  show "3.13549421592914969080675241 \<le> ln_nat 23" using facts by linarith
  show "ln_nat 23 \<le> 3.13549421592914969080675311" using facts by linarith
qed

lemma ln_ratio_840:
  "0.00118976813558875501349038 \<le> ln_nat 841 - ln_nat 840"
  "ln_nat 841 - ln_nat 840 \<le> 0.00118976813558875501349039"
proof -
  have eq: "ln (1 + 1 / 840) = ln_nat 841 - ln_nat 840"
    using ln_nat_succ [of 840] by simp
  show "0.00118976813558875501349038 \<le> ln_nat 841 - ln_nat 840"
    using ln_alt_bounds(1) [of "1 / 840" 4] unfolding eq
    by (simp add: lessThan_nat_numeral sum.lessThan_Suc power_divide)
  show "ln_nat 841 - ln_nat 840 \<le> 0.00118976813558875501349039"
    using ln_alt_bounds(2) [of "1 / 840" 4] unfolding eq
    by (simp add: lessThan_nat_numeral sum.lessThan_Suc power_divide)
qed

lemma ln_nat_29:
  "3.36729582998647402718327158 \<le> ln_nat 29" "ln_nat 29 \<le> 3.36729582998647402718327232"
proof -
  have sq: "ln_nat 841 = 2 * ln_nat 29" using ln_nat_mult [of 29 29] by simp
  have pr: "ln_nat 840 = 3 * ln_nat 2 + ln_nat 3 + ln_nat 5 + ln_nat 7"
    using ln_nat_mult [of 2 420] ln_nat_mult [of 2 210] ln_nat_mult [of 2 105] ln_nat_mult [of 3 35] ln_nat_mult [of 5 7] by simp
  note facts = ln_ratio_840 sq pr ln_nat_2_3_5 ln_nat_7
  show "3.36729582998647402718327158 \<le> ln_nat 29" using facts by linarith
  show "ln_nat 29 \<le> 3.36729582998647402718327232" using facts by linarith
qed

lemma ln_ratio_960:
  "0.00104112450841056935893135 \<le> ln_nat 961 - ln_nat 960"
  "ln_nat 961 - ln_nat 960 \<le> 0.00104112450841056935893136"
proof -
  have eq: "ln (1 + 1 / 960) = ln_nat 961 - ln_nat 960"
    using ln_nat_succ [of 960] by simp
  show "0.00104112450841056935893135 \<le> ln_nat 961 - ln_nat 960"
    using ln_alt_bounds(1) [of "1 / 960" 4] unfolding eq
    by (simp add: lessThan_nat_numeral sum.lessThan_Suc power_divide)
  show "ln_nat 961 - ln_nat 960 \<le> 0.00104112450841056935893136"
    using ln_alt_bounds(2) [of "1 / 960" 4] unfolding eq
    by (simp add: lessThan_nat_numeral sum.lessThan_Suc power_divide)
qed

lemma ln_nat_31:
  "3.43398720448514624592916387 \<le> ln_nat 31" "ln_nat 31 \<le> 3.43398720448514624592916462"
proof -
  have sq: "ln_nat 961 = 2 * ln_nat 31" using ln_nat_mult [of 31 31] by simp
  have pr: "ln_nat 960 = 6 * ln_nat 2 + ln_nat 3 + ln_nat 5"
    using ln_nat_mult [of 2 480] ln_nat_mult [of 2 240] ln_nat_mult [of 2 120] ln_nat_mult [of 2 60] ln_nat_mult [of 2 30] ln_nat_mult [of 2 15] ln_nat_mult [of 3 5] by simp
  note facts = ln_ratio_960 sq pr ln_nat_2_3_5
  show "3.43398720448514624592916387 \<le> ln_nat 31" using facts by linarith
  show "ln_nat 31 \<le> 3.43398720448514624592916462" using facts by linarith
qed

lemma ln_ratio_1368:
  "0.00073072710595311768497707 \<le> ln_nat 1369 - ln_nat 1368"
  "ln_nat 1369 - ln_nat 1368 \<le> 0.00073072710595311768497708"
proof -
  have eq: "ln (1 + 1 / 1368) = ln_nat 1369 - ln_nat 1368"
    using ln_nat_succ [of 1368] by simp
  show "0.00073072710595311768497707 \<le> ln_nat 1369 - ln_nat 1368"
    using ln_alt_bounds(1) [of "1 / 1368" 4] unfolding eq
    by (simp add: lessThan_nat_numeral sum.lessThan_Suc power_divide)
  show "ln_nat 1369 - ln_nat 1368 \<le> 0.00073072710595311768497708"
    using ln_alt_bounds(2) [of "1 / 1368" 4] unfolding eq
    by (simp add: lessThan_nat_numeral sum.lessThan_Suc power_divide)
qed

lemma ln_nat_37:
  "3.61091791264422444436809519 \<le> ln_nat 37" "ln_nat 37 \<le> 3.61091791264422444436809599"
proof -
  have sq: "ln_nat 1369 = 2 * ln_nat 37" using ln_nat_mult [of 37 37] by simp
  have pr: "ln_nat 1368 = 3 * ln_nat 2 + 2 * ln_nat 3 + ln_nat 19"
    using ln_nat_mult [of 2 684] ln_nat_mult [of 2 342] ln_nat_mult [of 2 171] ln_nat_mult [of 3 57] ln_nat_mult [of 3 19] by simp
  note facts = ln_ratio_1368 sq pr ln_nat_19 ln_nat_2_3_5
  show "3.61091791264422444436809519 \<le> ln_nat 37" using facts by linarith
  show "ln_nat 37 \<le> 3.61091791264422444436809599" using facts by linarith
qed

lemma ln_ratio_1680:
  "0.00059506101131099896324094 \<le> ln_nat 1681 - ln_nat 1680"
  "ln_nat 1681 - ln_nat 1680 \<le> 0.00059506101131099896324095"
proof -
  have eq: "ln (1 + 1 / 1680) = ln_nat 1681 - ln_nat 1680"
    using ln_nat_succ [of 1680] by simp
  show "0.00059506101131099896324094 \<le> ln_nat 1681 - ln_nat 1680"
    using ln_alt_bounds(1) [of "1 / 1680" 4] unfolding eq
    by (simp add: lessThan_nat_numeral sum.lessThan_Suc power_divide)
  show "ln_nat 1681 - ln_nat 1680 \<le> 0.00059506101131099896324095"
    using ln_alt_bounds(2) [of "1 / 1680" 4] unfolding eq
    by (simp add: lessThan_nat_numeral sum.lessThan_Suc power_divide)
qed

lemma ln_nat_41:
  "3.71357206670430780386676287 \<le> ln_nat 41" "ln_nat 41 \<le> 3.71357206670430780386676369"
proof -
  have sq: "ln_nat 1681 = 2 * ln_nat 41" using ln_nat_mult [of 41 41] by simp
  have pr: "ln_nat 1680 = 4 * ln_nat 2 + ln_nat 3 + ln_nat 5 + ln_nat 7"
    using ln_nat_mult [of 2 840] ln_nat_mult [of 2 420] ln_nat_mult [of 2 210] ln_nat_mult [of 2 105] ln_nat_mult [of 3 35] ln_nat_mult [of 5 7] by simp
  note facts = ln_ratio_1680 sq pr ln_nat_2_3_5 ln_nat_7
  show "3.71357206670430780386676287 \<le> ln_nat 41" using facts by linarith
  show "ln_nat 41 \<le> 3.71357206670430780386676369" using facts by linarith
qed

lemma ln_ratio_1848:
  "0.00054097918549537813144710 \<le> ln_nat 1849 - ln_nat 1848"
  "ln_nat 1849 - ln_nat 1848 \<le> 0.00054097918549537813144711"
proof -
  have eq: "ln (1 + 1 / 1848) = ln_nat 1849 - ln_nat 1848"
    using ln_nat_succ [of 1848] by simp
  show "0.00054097918549537813144710 \<le> ln_nat 1849 - ln_nat 1848"
    using ln_alt_bounds(1) [of "1 / 1848" 4] unfolding eq
    by (simp add: lessThan_nat_numeral sum.lessThan_Suc power_divide)
  show "ln_nat 1849 - ln_nat 1848 \<le> 0.00054097918549537813144711"
    using ln_alt_bounds(2) [of "1 / 1848" 4] unfolding eq
    by (simp add: lessThan_nat_numeral sum.lessThan_Suc power_divide)
qed

lemma ln_nat_43:
  "3.76120011569356242347284201 \<le> ln_nat 43" "ln_nat 43 \<le> 3.76120011569356242347284284"
proof -
  have sq: "ln_nat 1849 = 2 * ln_nat 43" using ln_nat_mult [of 43 43] by simp
  have pr: "ln_nat 1848 = 3 * ln_nat 2 + ln_nat 3 + ln_nat 7 + ln_nat 11"
    using ln_nat_mult [of 2 924] ln_nat_mult [of 2 462] ln_nat_mult [of 2 231] ln_nat_mult [of 3 77] ln_nat_mult [of 7 11] by simp
  note facts = ln_ratio_1848 sq pr ln_nat_11 ln_nat_2_3_5 ln_nat_7
  show "3.76120011569356242347284201 \<le> ln_nat 43" using facts by linarith
  show "ln_nat 43 \<le> 3.76120011569356242347284284" using facts by linarith
qed

lemma ln_ratio_2208:
  "0.00045279602313124435374266 \<le> ln_nat 2209 - ln_nat 2208"
  "ln_nat 2209 - ln_nat 2208 \<le> 0.00045279602313124435374267"
proof -
  have eq: "ln (1 + 1 / 2208) = ln_nat 2209 - ln_nat 2208"
    using ln_nat_succ [of 2208] by simp
  show "0.00045279602313124435374266 \<le> ln_nat 2209 - ln_nat 2208"
    using ln_alt_bounds(1) [of "1 / 2208" 4] unfolding eq
    by (simp add: lessThan_nat_numeral sum.lessThan_Suc power_divide)
  show "ln_nat 2209 - ln_nat 2208 \<le> 0.00045279602313124435374267"
    using ln_alt_bounds(2) [of "1 / 2208" 4] unfolding eq
    by (simp add: lessThan_nat_numeral sum.lessThan_Suc power_divide)
qed

lemma ln_nat_47:
  "3.85014760171005858682095015 \<le> ln_nat 47" "ln_nat 47 \<le> 3.85014760171005858682095101"
proof -
  have sq: "ln_nat 2209 = 2 * ln_nat 47" using ln_nat_mult [of 47 47] by simp
  have pr: "ln_nat 2208 = 5 * ln_nat 2 + ln_nat 3 + ln_nat 23"
    using ln_nat_mult [of 2 1104] ln_nat_mult [of 2 552] ln_nat_mult [of 2 276] ln_nat_mult [of 2 138] ln_nat_mult [of 2 69] ln_nat_mult [of 3 23] by simp
  note facts = ln_ratio_2208 sq pr ln_nat_23 ln_nat_2_3_5
  show "3.85014760171005858682095015 \<le> ln_nat 47" using facts by linarith
  show "ln_nat 47 \<le> 3.85014760171005858682095101" using facts by linarith
qed

lemma ln_ratio_2808:
  "0.00035606195854192979801876 \<le> ln_nat 2809 - ln_nat 2808"
  "ln_nat 2809 - ln_nat 2808 \<le> 0.00035606195854192979801877"
proof -
  have eq: "ln (1 + 1 / 2808) = ln_nat 2809 - ln_nat 2808"
    using ln_nat_succ [of 2808] by simp
  show "0.00035606195854192979801876 \<le> ln_nat 2809 - ln_nat 2808"
    using ln_alt_bounds(1) [of "1 / 2808" 4] unfolding eq
    by (simp add: lessThan_nat_numeral sum.lessThan_Suc power_divide)
  show "ln_nat 2809 - ln_nat 2808 \<le> 0.00035606195854192979801877"
    using ln_alt_bounds(2) [of "1 / 2808" 4] unfolding eq
    by (simp add: lessThan_nat_numeral sum.lessThan_Suc power_divide)
qed

lemma ln_nat_53:
  "3.97029191355212183414446860 \<le> ln_nat 53" "ln_nat 53 \<le> 3.97029191355212183414446948"
proof -
  have sq: "ln_nat 2809 = 2 * ln_nat 53" using ln_nat_mult [of 53 53] by simp
  have pr: "ln_nat 2808 = 3 * ln_nat 2 + 3 * ln_nat 3 + ln_nat 13"
    using ln_nat_mult [of 2 1404] ln_nat_mult [of 2 702] ln_nat_mult [of 2 351] ln_nat_mult [of 3 117] ln_nat_mult [of 3 39] ln_nat_mult [of 3 13] by simp
  note facts = ln_ratio_2808 sq pr ln_nat_13 ln_nat_2_3_5
  show "3.97029191355212183414446860 \<le> ln_nat 53" using facts by linarith
  show "ln_nat 53 \<le> 3.97029191355212183414446948" using facts by linarith
qed

lemma ln_ratio_3480:
  "0.00028731504291887980112778 \<le> ln_nat 3481 - ln_nat 3480"
  "ln_nat 3481 - ln_nat 3480 \<le> 0.00028731504291887980112779"
proof -
  have eq: "ln (1 + 1 / 3480) = ln_nat 3481 - ln_nat 3480"
    using ln_nat_succ [of 3480] by simp
  show "0.00028731504291887980112778 \<le> ln_nat 3481 - ln_nat 3480"
    using ln_alt_bounds(1) [of "1 / 3480" 4] unfolding eq
    by (simp add: lessThan_nat_numeral sum.lessThan_Suc power_divide)
  show "ln_nat 3481 - ln_nat 3480 \<le> 0.00028731504291887980112779"
    using ln_alt_bounds(2) [of "1 / 3480" 4] unfolding eq
    by (simp add: lessThan_nat_numeral sum.lessThan_Suc power_divide)
qed

lemma ln_nat_59:
  "4.07753744390571945061604983 \<le> ln_nat 59" "ln_nat 59 \<le> 4.07753744390571945061605073"
proof -
  have sq: "ln_nat 3481 = 2 * ln_nat 59" using ln_nat_mult [of 59 59] by simp
  have pr: "ln_nat 3480 = 3 * ln_nat 2 + ln_nat 3 + ln_nat 5 + ln_nat 29"
    using ln_nat_mult [of 2 1740] ln_nat_mult [of 2 870] ln_nat_mult [of 2 435] ln_nat_mult [of 3 145] ln_nat_mult [of 5 29] by simp
  note facts = ln_ratio_3480 sq pr ln_nat_29 ln_nat_2_3_5
  show "4.07753744390571945061604983 \<le> ln_nat 59" using facts by linarith
  show "ln_nat 59 \<le> 4.07753744390571945061605073" using facts by linarith
qed

lemma ln_ratio_3720:
  "0.00026878107943025732591294 \<le> ln_nat 3721 - ln_nat 3720"
  "ln_nat 3721 - ln_nat 3720 \<le> 0.00026878107943025732591295"
proof -
  have eq: "ln (1 + 1 / 3720) = ln_nat 3721 - ln_nat 3720"
    using ln_nat_succ [of 3720] by simp
  show "0.00026878107943025732591294 \<le> ln_nat 3721 - ln_nat 3720"
    using ln_alt_bounds(1) [of "1 / 3720" 4] unfolding eq
    by (simp add: lessThan_nat_numeral sum.lessThan_Suc power_divide)
  show "ln_nat 3721 - ln_nat 3720 \<le> 0.00026878107943025732591295"
    using ln_alt_bounds(2) [of "1 / 3720" 4] unfolding eq
    by (simp add: lessThan_nat_numeral sum.lessThan_Suc power_divide)
qed

lemma ln_nat_61:
  "4.11087386417331124875138855 \<le> ln_nat 61" "ln_nat 61 \<le> 4.11087386417331124875138946"
proof -
  have sq: "ln_nat 3721 = 2 * ln_nat 61" using ln_nat_mult [of 61 61] by simp
  have pr: "ln_nat 3720 = 3 * ln_nat 2 + ln_nat 3 + ln_nat 5 + ln_nat 31"
    using ln_nat_mult [of 2 1860] ln_nat_mult [of 2 930] ln_nat_mult [of 2 465] ln_nat_mult [of 3 155] ln_nat_mult [of 5 31] by simp
  note facts = ln_ratio_3720 sq pr ln_nat_2_3_5 ln_nat_31
  show "4.11087386417331124875138855 \<le> ln_nat 61" using facts by linarith
  show "ln_nat 61 \<le> 4.11087386417331124875138946" using facts by linarith
qed

lemma ln_ratio_4488:
  "0.00022279157939987538172419 \<le> ln_nat 4489 - ln_nat 4488"
  "ln_nat 4489 - ln_nat 4488 \<le> 0.00022279157939987538172420"
proof -
  have eq: "ln (1 + 1 / 4488) = ln_nat 4489 - ln_nat 4488"
    using ln_nat_succ [of 4488] by simp
  show "0.00022279157939987538172419 \<le> ln_nat 4489 - ln_nat 4488"
    using ln_alt_bounds(1) [of "1 / 4488" 4] unfolding eq
    by (simp add: lessThan_nat_numeral sum.lessThan_Suc power_divide)
  show "ln_nat 4489 - ln_nat 4488 \<le> 0.00022279157939987538172420"
    using ln_alt_bounds(2) [of "1 / 4488" 4] unfolding eq
    by (simp add: lessThan_nat_numeral sum.lessThan_Suc power_divide)
qed

lemma ln_nat_67:
  "4.20469261939096605967007143 \<le> ln_nat 67" "ln_nat 67 \<le> 4.20469261939096605967007236"
proof -
  have sq: "ln_nat 4489 = 2 * ln_nat 67" using ln_nat_mult [of 67 67] by simp
  have pr: "ln_nat 4488 = 3 * ln_nat 2 + ln_nat 3 + ln_nat 11 + ln_nat 17"
    using ln_nat_mult [of 2 2244] ln_nat_mult [of 2 1122] ln_nat_mult [of 2 561] ln_nat_mult [of 3 187] ln_nat_mult [of 11 17] by simp
  note facts = ln_ratio_4488 sq pr ln_nat_11 ln_nat_17 ln_nat_2_3_5
  show "4.20469261939096605967007143 \<le> ln_nat 67" using facts by linarith
  show "ln_nat 67 \<le> 4.20469261939096605967007236" using facts by linarith
qed

lemma ln_ratio_5040:
  "0.00019839301721654249337802 \<le> ln_nat 5041 - ln_nat 5040"
  "ln_nat 5041 - ln_nat 5040 \<le> 0.00019839301721654249337803"
proof -
  have eq: "ln (1 + 1 / 5040) = ln_nat 5041 - ln_nat 5040"
    using ln_nat_succ [of 5040] by simp
  show "0.00019839301721654249337802 \<le> ln_nat 5041 - ln_nat 5040"
    using ln_alt_bounds(1) [of "1 / 5040" 4] unfolding eq
    by (simp add: lessThan_nat_numeral sum.lessThan_Suc power_divide)
  show "ln_nat 5041 - ln_nat 5040 \<le> 0.00019839301721654249337803"
    using ln_alt_bounds(2) [of "1 / 5040" 4] unfolding eq
    by (simp add: lessThan_nat_numeral sum.lessThan_Suc power_divide)
qed

lemma ln_nat_71:
  "4.26267987704131542132945396 \<le> ln_nat 71" "ln_nat 71 \<le> 4.26267987704131542132945490"
proof -
  have sq: "ln_nat 5041 = 2 * ln_nat 71" using ln_nat_mult [of 71 71] by simp
  have pr: "ln_nat 5040 = 4 * ln_nat 2 + 2 * ln_nat 3 + ln_nat 5 + ln_nat 7"
    using ln_nat_mult [of 2 2520] ln_nat_mult [of 2 1260] ln_nat_mult [of 2 630] ln_nat_mult [of 2 315] ln_nat_mult [of 3 105] ln_nat_mult [of 3 35] ln_nat_mult [of 5 7] by simp
  note facts = ln_ratio_5040 sq pr ln_nat_2_3_5 ln_nat_7
  show "4.26267987704131542132945396 \<le> ln_nat 71" using facts by linarith
  show "ln_nat 71 \<le> 4.26267987704131542132945490" using facts by linarith
qed

lemma ln_ratio_5328:
  "0.00018767007655719335670308 \<le> ln_nat 5329 - ln_nat 5328"
  "ln_nat 5329 - ln_nat 5328 \<le> 0.00018767007655719335670309"
proof -
  have eq: "ln (1 + 1 / 5328) = ln_nat 5329 - ln_nat 5328"
    using ln_nat_succ [of 5328] by simp
  show "0.00018767007655719335670308 \<le> ln_nat 5329 - ln_nat 5328"
    using ln_alt_bounds(1) [of "1 / 5328" 4] unfolding eq
    by (simp add: lessThan_nat_numeral sum.lessThan_Suc power_divide)
  show "ln_nat 5329 - ln_nat 5328 \<le> 0.00018767007655719335670309"
    using ln_alt_bounds(2) [of "1 / 5328" 4] unfolding eq
    by (simp add: lessThan_nat_numeral sum.lessThan_Suc power_divide)
qed

lemma ln_nat_73:
  "4.29045944114839112909210828 \<le> ln_nat 73" "ln_nat 73 \<le> 4.29045944114839112909210923"
proof -
  have sq: "ln_nat 5329 = 2 * ln_nat 73" using ln_nat_mult [of 73 73] by simp
  have pr: "ln_nat 5328 = 4 * ln_nat 2 + 2 * ln_nat 3 + ln_nat 37"
    using ln_nat_mult [of 2 2664] ln_nat_mult [of 2 1332] ln_nat_mult [of 2 666] ln_nat_mult [of 2 333] ln_nat_mult [of 3 111] ln_nat_mult [of 3 37] by simp
  note facts = ln_ratio_5328 sq pr ln_nat_2_3_5 ln_nat_37
  show "4.29045944114839112909210828 \<le> ln_nat 73" using facts by linarith
  show "ln_nat 73 \<le> 4.29045944114839112909210923" using facts by linarith
qed

lemma ln_ratio_6240:
  "0.00016024357056963921023846 \<le> ln_nat 6241 - ln_nat 6240"
  "ln_nat 6241 - ln_nat 6240 \<le> 0.00016024357056963921023847"
proof -
  have eq: "ln (1 + 1 / 6240) = ln_nat 6241 - ln_nat 6240"
    using ln_nat_succ [of 6240] by simp
  show "0.00016024357056963921023846 \<le> ln_nat 6241 - ln_nat 6240"
    using ln_alt_bounds(1) [of "1 / 6240" 3] unfolding eq
    by (simp add: lessThan_nat_numeral sum.lessThan_Suc power_divide)
  show "ln_nat 6241 - ln_nat 6240 \<le> 0.00016024357056963921023847"
    using ln_alt_bounds(2) [of "1 / 6240" 3] unfolding eq
    by (simp add: lessThan_nat_numeral sum.lessThan_Suc power_divide)
qed

lemma ln_nat_79:
  "4.36944785246702149417294495 \<le> ln_nat 79" "ln_nat 79 \<le> 4.36944785246702149417294592"
proof -
  have sq: "ln_nat 6241 = 2 * ln_nat 79" using ln_nat_mult [of 79 79] by simp
  have pr: "ln_nat 6240 = 5 * ln_nat 2 + ln_nat 3 + ln_nat 5 + ln_nat 13"
    using ln_nat_mult [of 2 3120] ln_nat_mult [of 2 1560] ln_nat_mult [of 2 780] ln_nat_mult [of 2 390] ln_nat_mult [of 2 195] ln_nat_mult [of 3 65] ln_nat_mult [of 5 13] by simp
  note facts = ln_ratio_6240 sq pr ln_nat_13 ln_nat_2_3_5
  show "4.36944785246702149417294495 \<le> ln_nat 79" using facts by linarith
  show "ln_nat 79 \<le> 4.36944785246702149417294592" using facts by linarith
qed

lemma ln_ratio_6888:
  "0.00014516948562911833188672 \<le> ln_nat 6889 - ln_nat 6888"
  "ln_nat 6889 - ln_nat 6888 \<le> 0.00014516948562911833188673"
proof -
  have eq: "ln (1 + 1 / 6888) = ln_nat 6889 - ln_nat 6888"
    using ln_nat_succ [of 6888] by simp
  show "0.00014516948562911833188672 \<le> ln_nat 6889 - ln_nat 6888"
    using ln_alt_bounds(1) [of "1 / 6888" 3] unfolding eq
    by (simp add: lessThan_nat_numeral sum.lessThan_Suc power_divide)
  show "ln_nat 6889 - ln_nat 6888 \<le> 0.00014516948562911833188673"
    using ln_alt_bounds(2) [of "1 / 6888" 3] unfolding eq
    by (simp add: lessThan_nat_numeral sum.lessThan_Suc power_divide)
qed

lemma ln_nat_83:
  "4.41884060779659792347547162 \<le> ln_nat 83" "ln_nat 83 \<le> 4.41884060779659792347547260"
proof -
  have sq: "ln_nat 6889 = 2 * ln_nat 83" using ln_nat_mult [of 83 83] by simp
  have pr: "ln_nat 6888 = 3 * ln_nat 2 + ln_nat 3 + ln_nat 7 + ln_nat 41"
    using ln_nat_mult [of 2 3444] ln_nat_mult [of 2 1722] ln_nat_mult [of 2 861] ln_nat_mult [of 3 287] ln_nat_mult [of 7 41] by simp
  note facts = ln_ratio_6888 sq pr ln_nat_2_3_5 ln_nat_41 ln_nat_7
  show "4.41884060779659792347547162 \<le> ln_nat 83" using facts by linarith
  show "ln_nat 83 \<le> 4.41884060779659792347547260" using facts by linarith
qed

lemma ln_ratio_7920:
  "0.00012625465580813751350921 \<le> ln_nat 7921 - ln_nat 7920"
  "ln_nat 7921 - ln_nat 7920 \<le> 0.00012625465580813751350922"
proof -
  have eq: "ln (1 + 1 / 7920) = ln_nat 7921 - ln_nat 7920"
    using ln_nat_succ [of 7920] by simp
  show "0.00012625465580813751350921 \<le> ln_nat 7921 - ln_nat 7920"
    using ln_alt_bounds(1) [of "1 / 7920" 3] unfolding eq
    by (simp add: lessThan_nat_numeral sum.lessThan_Suc power_divide)
  show "ln_nat 7921 - ln_nat 7920 \<le> 0.00012625465580813751350922"
    using ln_alt_bounds(2) [of "1 / 7920" 3] unfolding eq
    by (simp add: lessThan_nat_numeral sum.lessThan_Suc power_divide)
qed

lemma ln_nat_89:
  "4.48863636973213983831781494 \<le> ln_nat 89" "ln_nat 89 \<le> 4.48863636973213983831781593"
proof -
  have sq: "ln_nat 7921 = 2 * ln_nat 89" using ln_nat_mult [of 89 89] by simp
  have pr: "ln_nat 7920 = 4 * ln_nat 2 + 2 * ln_nat 3 + ln_nat 5 + ln_nat 11"
    using ln_nat_mult [of 2 3960] ln_nat_mult [of 2 1980] ln_nat_mult [of 2 990] ln_nat_mult [of 2 495] ln_nat_mult [of 3 165] ln_nat_mult [of 3 55] ln_nat_mult [of 5 11] by simp
  note facts = ln_ratio_7920 sq pr ln_nat_11 ln_nat_2_3_5
  show "4.48863636973213983831781494 \<le> ln_nat 89" using facts by linarith
  show "ln_nat 89 \<le> 4.48863636973213983831781593" using facts by linarith
qed

lemma ln_ratio_9408:
  "0.00010628686835748612409979 \<le> ln_nat 9409 - ln_nat 9408"
  "ln_nat 9409 - ln_nat 9408 \<le> 0.00010628686835748612409980"
proof -
  have eq: "ln (1 + 1 / 9408) = ln_nat 9409 - ln_nat 9408"
    using ln_nat_succ [of 9408] by simp
  show "0.00010628686835748612409979 \<le> ln_nat 9409 - ln_nat 9408"
    using ln_alt_bounds(1) [of "1 / 9408" 3] unfolding eq
    by (simp add: lessThan_nat_numeral sum.lessThan_Suc power_divide)
  show "ln_nat 9409 - ln_nat 9408 \<le> 0.00010628686835748612409980"
    using ln_alt_bounds(2) [of "1 / 9408" 3] unfolding eq
    by (simp add: lessThan_nat_numeral sum.lessThan_Suc power_divide)
qed

lemma ln_nat_97:
  "4.57471097850338282211672101 \<le> ln_nat 97" "ln_nat 97 \<le> 4.57471097850338282211672202"
proof -
  have sq: "ln_nat 9409 = 2 * ln_nat 97" using ln_nat_mult [of 97 97] by simp
  have pr: "ln_nat 9408 = 6 * ln_nat 2 + ln_nat 3 + 2 * ln_nat 7"
    using ln_nat_mult [of 2 4704] ln_nat_mult [of 2 2352] ln_nat_mult [of 2 1176] ln_nat_mult [of 2 588] ln_nat_mult [of 2 294] ln_nat_mult [of 2 147] ln_nat_mult [of 3 49] ln_nat_mult [of 7 7] by simp
  note facts = ln_ratio_9408 sq pr ln_nat_2_3_5 ln_nat_7
  show "4.57471097850338282211672101 \<le> ln_nat 97" using facts by linarith
  show "ln_nat 97 \<le> 4.57471097850338282211672202" using facts by linarith
qed

lemma ln_ratio_10200:
  "0.00009803441015645267040164 \<le> ln_nat 10201 - ln_nat 10200"
  "ln_nat 10201 - ln_nat 10200 \<le> 0.00009803441015645267040165"
proof -
  have eq: "ln (1 + 1 / 10200) = ln_nat 10201 - ln_nat 10200"
    using ln_nat_succ [of 10200] by simp
  show "0.00009803441015645267040164 \<le> ln_nat 10201 - ln_nat 10200"
    using ln_alt_bounds(1) [of "1 / 10200" 3] unfolding eq
    by (simp add: lessThan_nat_numeral sum.lessThan_Suc power_divide)
  show "ln_nat 10201 - ln_nat 10200 \<le> 0.00009803441015645267040165"
    using ln_alt_bounds(2) [of "1 / 10200" 3] unfolding eq
    by (simp add: lessThan_nat_numeral sum.lessThan_Suc power_divide)
qed

lemma ln_nat_101:
  "4.61512051684125945088419765 \<le> ln_nat 101" "ln_nat 101 \<le> 4.61512051684125945088419866"
proof -
  have sq: "ln_nat 10201 = 2 * ln_nat 101" using ln_nat_mult [of 101 101] by simp
  have pr: "ln_nat 10200 = 3 * ln_nat 2 + ln_nat 3 + 2 * ln_nat 5 + ln_nat 17"
    using ln_nat_mult [of 2 5100] ln_nat_mult [of 2 2550] ln_nat_mult [of 2 1275] ln_nat_mult [of 3 425] ln_nat_mult [of 5 85] ln_nat_mult [of 5 17] by simp
  note facts = ln_ratio_10200 sq pr ln_nat_17 ln_nat_2_3_5
  show "4.61512051684125945088419765 \<le> ln_nat 101" using facts by linarith
  show "ln_nat 101 \<le> 4.61512051684125945088419866" using facts by linarith
qed

lemma ln_ratio_10608:
  "0.00009426403362779617000884 \<le> ln_nat 10609 - ln_nat 10608"
  "ln_nat 10609 - ln_nat 10608 \<le> 0.00009426403362779617000885"
proof -
  have eq: "ln (1 + 1 / 10608) = ln_nat 10609 - ln_nat 10608"
    using ln_nat_succ [of 10608] by simp
  show "0.00009426403362779617000884 \<le> ln_nat 10609 - ln_nat 10608"
    using ln_alt_bounds(1) [of "1 / 10608" 3] unfolding eq
    by (simp add: lessThan_nat_numeral sum.lessThan_Suc power_divide)
  show "ln_nat 10609 - ln_nat 10608 \<le> 0.00009426403362779617000885"
    using ln_alt_bounds(2) [of "1 / 10608" 3] unfolding eq
    by (simp add: lessThan_nat_numeral sum.lessThan_Suc power_divide)
qed

lemma ln_nat_103:
  "4.63472898822963577076860169 \<le> ln_nat 103" "ln_nat 103 \<le> 4.63472898822963577076860271"
proof -
  have sq: "ln_nat 10609 = 2 * ln_nat 103" using ln_nat_mult [of 103 103] by simp
  have pr: "ln_nat 10608 = 4 * ln_nat 2 + ln_nat 3 + ln_nat 13 + ln_nat 17"
    using ln_nat_mult [of 2 5304] ln_nat_mult [of 2 2652] ln_nat_mult [of 2 1326] ln_nat_mult [of 2 663] ln_nat_mult [of 3 221] ln_nat_mult [of 13 17] by simp
  note facts = ln_ratio_10608 sq pr ln_nat_13 ln_nat_17 ln_nat_2_3_5
  show "4.63472898822963577076860169 \<le> ln_nat 103" using facts by linarith
  show "ln_nat 103 \<le> 4.63472898822963577076860271" using facts by linarith
qed

lemma ln_ratio_11448:
  "0.00008734768752551002689641 \<le> ln_nat 11449 - ln_nat 11448"
  "ln_nat 11449 - ln_nat 11448 \<le> 0.00008734768752551002689642"
proof -
  have eq: "ln (1 + 1 / 11448) = ln_nat 11449 - ln_nat 11448"
    using ln_nat_succ [of 11448] by simp
  show "0.00008734768752551002689641 \<le> ln_nat 11449 - ln_nat 11448"
    using ln_alt_bounds(1) [of "1 / 11448" 3] unfolding eq
    by (simp add: lessThan_nat_numeral sum.lessThan_Suc power_divide)
  show "ln_nat 11449 - ln_nat 11448 \<le> 0.00008734768752551002689642"
    using ln_alt_bounds(2) [of "1 / 11448" 3] unfolding eq
    by (simp add: lessThan_nat_numeral sum.lessThan_Suc power_divide)
qed

lemma ln_nat_107:
  "4.67282883446190617330439818 \<le> ln_nat 107" "ln_nat 107 \<le> 4.67282883446190617330439922"
proof -
  have sq: "ln_nat 11449 = 2 * ln_nat 107" using ln_nat_mult [of 107 107] by simp
  have pr: "ln_nat 11448 = 3 * ln_nat 2 + 3 * ln_nat 3 + ln_nat 53"
    using ln_nat_mult [of 2 5724] ln_nat_mult [of 2 2862] ln_nat_mult [of 2 1431] ln_nat_mult [of 3 477] ln_nat_mult [of 3 159] ln_nat_mult [of 3 53] by simp
  note facts = ln_ratio_11448 sq pr ln_nat_2_3_5 ln_nat_53
  show "4.67282883446190617330439818 \<le> ln_nat 107" using facts by linarith
  show "ln_nat 107 \<le> 4.67282883446190617330439922" using facts by linarith
qed

lemma ln_ratio_11880:
  "0.00008417154165147965449791 \<le> ln_nat 11881 - ln_nat 11880"
  "ln_nat 11881 - ln_nat 11880 \<le> 0.00008417154165147965449792"
proof -
  have eq: "ln (1 + 1 / 11880) = ln_nat 11881 - ln_nat 11880"
    using ln_nat_succ [of 11880] by simp
  show "0.00008417154165147965449791 \<le> ln_nat 11881 - ln_nat 11880"
    using ln_alt_bounds(1) [of "1 / 11880" 3] unfolding eq
    by (simp add: lessThan_nat_numeral sum.lessThan_Suc power_divide)
  show "ln_nat 11881 - ln_nat 11880 \<le> 0.00008417154165147965449792"
    using ln_alt_bounds(2) [of "1 / 11880" 3] unfolding eq
    by (simp add: lessThan_nat_numeral sum.lessThan_Suc power_divide)
qed

lemma ln_nat_109:
  "4.69134788222914370037731582 \<le> ln_nat 109" "ln_nat 109 \<le> 4.69134788222914370037731686"
proof -
  have sq: "ln_nat 11881 = 2 * ln_nat 109" using ln_nat_mult [of 109 109] by simp
  have pr: "ln_nat 11880 = 3 * ln_nat 2 + 3 * ln_nat 3 + ln_nat 5 + ln_nat 11"
    using ln_nat_mult [of 2 5940] ln_nat_mult [of 2 2970] ln_nat_mult [of 2 1485] ln_nat_mult [of 3 495] ln_nat_mult [of 3 165] ln_nat_mult [of 3 55] ln_nat_mult [of 5 11] by simp
  note facts = ln_ratio_11880 sq pr ln_nat_11 ln_nat_2_3_5
  show "4.69134788222914370037731582 \<le> ln_nat 109" using facts by linarith
  show "ln_nat 109 \<le> 4.69134788222914370037731686" using facts by linarith
qed

lemma ln_ratio_12768:
  "0.00007831773509113356847696 \<le> ln_nat 12769 - ln_nat 12768"
  "ln_nat 12769 - ln_nat 12768 \<le> 0.00007831773509113356847697"
proof -
  have eq: "ln (1 + 1 / 12768) = ln_nat 12769 - ln_nat 12768"
    using ln_nat_succ [of 12768] by simp
  show "0.00007831773509113356847696 \<le> ln_nat 12769 - ln_nat 12768"
    using ln_alt_bounds(1) [of "1 / 12768" 3] unfolding eq
    by (simp add: lessThan_nat_numeral sum.lessThan_Suc power_divide)
  show "ln_nat 12769 - ln_nat 12768 \<le> 0.00007831773509113356847697"
    using ln_alt_bounds(2) [of "1 / 12768" 3] unfolding eq
    by (simp add: lessThan_nat_numeral sum.lessThan_Suc power_divide)
qed

lemma ln_nat_113:
  "4.72738781871234056858213086 \<le> ln_nat 113" "ln_nat 113 \<le> 4.72738781871234056858213190"
proof -
  have sq: "ln_nat 12769 = 2 * ln_nat 113" using ln_nat_mult [of 113 113] by simp
  have pr: "ln_nat 12768 = 5 * ln_nat 2 + ln_nat 3 + ln_nat 7 + ln_nat 19"
    using ln_nat_mult [of 2 6384] ln_nat_mult [of 2 3192] ln_nat_mult [of 2 1596] ln_nat_mult [of 2 798] ln_nat_mult [of 2 399] ln_nat_mult [of 3 133] ln_nat_mult [of 7 19] by simp
  note facts = ln_ratio_12768 sq pr ln_nat_19 ln_nat_2_3_5 ln_nat_7
  show "4.72738781871234056858213086 \<le> ln_nat 113" using facts by linarith
  show "ln_nat 113 \<le> 4.72738781871234056858213190" using facts by linarith
qed

text \<open>
  Enclosures of \<open>ln m\<close> for the composite \<open>m \<le> 125\<close>, each from its smallest prime
  factor and the cofactor.
\<close>

lemma ln_nat_4:
  "1.38629436111989061883446406 \<le> ln_nat 4" "ln_nat 4 \<le> 1.38629436111989061883446436"
  using ln_nat_mult [of 2 2] ln_nat_2_3_5 by simp_all

lemma ln_nat_6:
  "1.79175946922805500081247712 \<le> ln_nat 6" "ln_nat 6 \<le> 1.79175946922805500081247751"
  using ln_nat_mult [of 2 3] ln_nat_2_3_5 by simp_all

lemma ln_nat_8:
  "2.07944154167983592825169609 \<le> ln_nat 8" "ln_nat 8 \<le> 2.07944154167983592825169654"
  using ln_nat_mult [of 2 4] ln_nat_2_3_5 ln_nat_4 by simp_all

lemma ln_nat_9:
  "2.19722457733621938279049018 \<le> ln_nat 9" "ln_nat 9 \<le> 2.19722457733621938279049066"
  using ln_nat_mult [of 3 3] ln_nat_2_3_5 by simp_all

lemma ln_nat_10:
  "2.30258509299404568401799115 \<le> ln_nat 10" "ln_nat 10 \<le> 2.30258509299404568401799165"
  using ln_nat_mult [of 2 5] ln_nat_2_3_5 by simp_all

lemma ln_nat_12:
  "2.48490664978800031022970915 \<le> ln_nat 12" "ln_nat 12 \<le> 2.48490664978800031022970969"
  using ln_nat_mult [of 2 6] ln_nat_2_3_5 ln_nat_6 by simp_all

lemma ln_nat_14:
  "2.63905732961525861452258451 \<le> ln_nat 14" "ln_nat 14 \<le> 2.63905732961525861452258509"
  using ln_nat_mult [of 2 7] ln_nat_2_3_5 ln_nat_7 by simp_all

lemma ln_nat_15:
  "2.70805020110221006599600421 \<le> ln_nat 15" "ln_nat 15 \<le> 2.70805020110221006599600480"
  using ln_nat_mult [of 3 5] ln_nat_2_3_5 by simp_all

lemma ln_nat_16:
  "2.77258872223978123766892812 \<le> ln_nat 16" "ln_nat 16 \<le> 2.77258872223978123766892872"
  using ln_nat_mult [of 2 8] ln_nat_2_3_5 ln_nat_8 by simp_all

lemma ln_nat_18:
  "2.89037175789616469220772221 \<le> ln_nat 18" "ln_nat 18 \<le> 2.89037175789616469220772284"
  using ln_nat_mult [of 2 9] ln_nat_2_3_5 ln_nat_9 by simp_all

lemma ln_nat_20:
  "2.99573227355399099343522318 \<le> ln_nat 20" "ln_nat 20 \<le> 2.99573227355399099343522383"
  using ln_nat_mult [of 2 10] ln_nat_10 ln_nat_2_3_5 by simp_all

lemma ln_nat_21:
  "3.04452243772342299650059757 \<le> ln_nat 21" "ln_nat 21 \<le> 3.04452243772342299650059824"
  using ln_nat_mult [of 3 7] ln_nat_2_3_5 ln_nat_7 by simp_all

lemma ln_nat_22:
  "3.09104245335831585347917529 \<le> ln_nat 22" "ln_nat 22 \<le> 3.09104245335831585347917597"
  using ln_nat_mult [of 2 11] ln_nat_11 ln_nat_2_3_5 by simp_all

lemma ln_nat_24:
  "3.17805383034794561964694118 \<le> ln_nat 24" "ln_nat 24 \<le> 3.17805383034794561964694187"
  using ln_nat_mult [of 2 12] ln_nat_12 ln_nat_2_3_5 by simp_all

lemma ln_nat_25:
  "3.21887582486820074920151824 \<le> ln_nat 25" "ln_nat 25 \<le> 3.21887582486820074920151894"
  using ln_nat_mult [of 5 5] ln_nat_2_3_5 by simp_all

lemma ln_nat_26:
  "3.25809653802148204547071912 \<le> ln_nat 26" "ln_nat 26 \<le> 3.25809653802148204547071984"
  using ln_nat_mult [of 2 13] ln_nat_13 ln_nat_2_3_5 by simp_all

lemma ln_nat_27:
  "3.29583686600432907418573527 \<le> ln_nat 27" "ln_nat 27 \<le> 3.29583686600432907418573599"
  using ln_nat_mult [of 3 9] ln_nat_2_3_5 ln_nat_9 by simp_all

lemma ln_nat_28:
  "3.33220451017520392393981654 \<le> ln_nat 28" "ln_nat 28 \<le> 3.33220451017520392393981727"
  using ln_nat_mult [of 2 14] ln_nat_14 ln_nat_2_3_5 by simp_all

lemma ln_nat_30:
  "3.40119738166215537541323624 \<le> ln_nat 30" "ln_nat 30 \<le> 3.40119738166215537541323698"
  using ln_nat_mult [of 2 15] ln_nat_15 ln_nat_2_3_5 by simp_all

lemma ln_nat_32:
  "3.46573590279972654708616015 \<le> ln_nat 32" "ln_nat 32 \<le> 3.46573590279972654708616090"
  using ln_nat_mult [of 2 16] ln_nat_16 ln_nat_2_3_5 by simp_all

lemma ln_nat_33:
  "3.49650756146648023545718835 \<le> ln_nat 33" "ln_nat 33 \<le> 3.49650756146648023545718912"
  using ln_nat_mult [of 3 11] ln_nat_11 ln_nat_2_3_5 by simp_all

lemma ln_nat_34:
  "3.52636052461616138966676627 \<le> ln_nat 34" "ln_nat 34 \<le> 3.52636052461616138966676704"
  using ln_nat_mult [of 2 17] ln_nat_17 ln_nat_2_3_5 by simp_all

lemma ln_nat_35:
  "3.55534806148941367970611160 \<le> ln_nat 35" "ln_nat 35 \<le> 3.55534806148941367970611238"
  using ln_nat_mult [of 5 7] ln_nat_2_3_5 ln_nat_7 by simp_all

lemma ln_nat_36:
  "3.58351893845611000162495424 \<le> ln_nat 36" "ln_nat 36 \<le> 3.58351893845611000162495502"
  using ln_nat_mult [of 2 18] ln_nat_18 ln_nat_2_3_5 by simp_all

lemma ln_nat_38:
  "3.63758615972638576942625907 \<le> ln_nat 38" "ln_nat 38 \<le> 3.63758615972638576942625987"
  using ln_nat_mult [of 2 19] ln_nat_19 ln_nat_2_3_5 by simp_all

lemma ln_nat_39:
  "3.66356164612964642744873218 \<le> ln_nat 39" "ln_nat 39 \<le> 3.66356164612964642744873299"
  using ln_nat_mult [of 3 13] ln_nat_13 ln_nat_2_3_5 by simp_all

lemma ln_nat_40:
  "3.68887945411393630285245521 \<le> ln_nat 40" "ln_nat 40 \<le> 3.68887945411393630285245601"
  using ln_nat_mult [of 2 20] ln_nat_20 ln_nat_2_3_5 by simp_all

lemma ln_nat_42:
  "3.73766961828336830591782960 \<le> ln_nat 42" "ln_nat 42 \<le> 3.73766961828336830591783042"
  using ln_nat_mult [of 2 21] ln_nat_21 ln_nat_2_3_5 by simp_all

lemma ln_nat_44:
  "3.78418963391826116289640732 \<le> ln_nat 44" "ln_nat 44 \<le> 3.78418963391826116289640815"
  using ln_nat_mult [of 2 22] ln_nat_22 ln_nat_2_3_5 by simp_all

lemma ln_nat_45:
  "3.80666248977031975739124930 \<le> ln_nat 45" "ln_nat 45 \<le> 3.80666248977031975739125013"
  using ln_nat_mult [of 3 15] ln_nat_15 ln_nat_2_3_5 by simp_all

lemma ln_nat_46:
  "3.82864139648909500022398444 \<le> ln_nat 46" "ln_nat 46 \<le> 3.82864139648909500022398529"
  using ln_nat_mult [of 2 23] ln_nat_23 ln_nat_2_3_5 by simp_all

lemma ln_nat_48:
  "3.87120101090789092906417321 \<le> ln_nat 48" "ln_nat 48 \<le> 3.87120101090789092906417405"
  using ln_nat_mult [of 2 24] ln_nat_24 ln_nat_2_3_5 by simp_all

lemma ln_nat_49:
  "3.89182029811062661021070496 \<le> ln_nat 49" "ln_nat 49 \<le> 3.89182029811062661021070582"
  using ln_nat_mult [of 7 7] ln_nat_7 by simp_all

lemma ln_nat_50:
  "3.91202300542814605861875027 \<le> ln_nat 50" "ln_nat 50 \<le> 3.91202300542814605861875112"
  using ln_nat_mult [of 2 25] ln_nat_25 ln_nat_2_3_5 by simp_all

lemma ln_nat_51:
  "3.93182563272432577164477933 \<le> ln_nat 51" "ln_nat 51 \<le> 3.93182563272432577164478019"
  using ln_nat_mult [of 3 17] ln_nat_17 ln_nat_2_3_5 by simp_all

lemma ln_nat_52:
  "3.95124371858142735488795115 \<le> ln_nat 52" "ln_nat 52 \<le> 3.95124371858142735488795202"
  using ln_nat_mult [of 2 26] ln_nat_26 ln_nat_2_3_5 by simp_all

lemma ln_nat_54:
  "3.98898404656427438360296730 \<le> ln_nat 54" "ln_nat 54 \<le> 3.98898404656427438360296817"
  using ln_nat_mult [of 2 27] ln_nat_27 ln_nat_2_3_5 by simp_all

lemma ln_nat_55:
  "4.00733318523247091866270238 \<le> ln_nat 55" "ln_nat 55 \<le> 4.00733318523247091866270326"
  using ln_nat_mult [of 5 11] ln_nat_11 ln_nat_2_3_5 by simp_all

lemma ln_nat_56:
  "4.02535169073514923335704857 \<le> ln_nat 56" "ln_nat 56 \<le> 4.02535169073514923335704945"
  using ln_nat_mult [of 2 28] ln_nat_28 ln_nat_2_3_5 by simp_all

lemma ln_nat_57:
  "4.04305126783455015140427213 \<le> ln_nat 57" "ln_nat 57 \<le> 4.04305126783455015140427302"
  using ln_nat_mult [of 3 19] ln_nat_19 ln_nat_2_3_5 by simp_all

lemma ln_nat_58:
  "4.06044301054641933660050361 \<le> ln_nat 58" "ln_nat 58 \<le> 4.06044301054641933660050450"
  using ln_nat_mult [of 2 29] ln_nat_29 ln_nat_2_3_5 by simp_all

lemma ln_nat_60:
  "4.09434456222210068483046827 \<le> ln_nat 60" "ln_nat 60 \<le> 4.09434456222210068483046916"
  using ln_nat_mult [of 2 30] ln_nat_2_3_5 ln_nat_30 by simp_all

lemma ln_nat_62:
  "4.12713438504509155534639590 \<le> ln_nat 62" "ln_nat 62 \<le> 4.12713438504509155534639680"
  using ln_nat_mult [of 2 31] ln_nat_2_3_5 ln_nat_31 by simp_all

lemma ln_nat_63:
  "4.14313472639153268789584266 \<le> ln_nat 63" "ln_nat 63 \<le> 4.14313472639153268789584357"
  using ln_nat_mult [of 3 21] ln_nat_21 ln_nat_2_3_5 by simp_all

lemma ln_nat_64:
  "4.15888308335967185650339218 \<le> ln_nat 64" "ln_nat 64 \<le> 4.15888308335967185650339308"
  using ln_nat_mult [of 2 32] ln_nat_2_3_5 ln_nat_32 by simp_all

lemma ln_nat_65:
  "4.17438726989563711065424621 \<le> ln_nat 65" "ln_nat 65 \<le> 4.17438726989563711065424713"
  using ln_nat_mult [of 5 13] ln_nat_13 ln_nat_2_3_5 by simp_all

lemma ln_nat_66:
  "4.18965474202642554487442038 \<le> ln_nat 66" "ln_nat 66 \<le> 4.18965474202642554487442130"
  using ln_nat_mult [of 2 33] ln_nat_2_3_5 ln_nat_33 by simp_all

lemma ln_nat_68:
  "4.21950770517610669908399830 \<le> ln_nat 68" "ln_nat 68 \<le> 4.21950770517610669908399922"
  using ln_nat_mult [of 2 34] ln_nat_2_3_5 ln_nat_34 by simp_all

lemma ln_nat_69:
  "4.23410650459725938220199750 \<le> ln_nat 69" "ln_nat 69 \<le> 4.23410650459725938220199844"
  using ln_nat_mult [of 3 23] ln_nat_23 ln_nat_2_3_5 by simp_all

lemma ln_nat_70:
  "4.24849524204935898912334363 \<le> ln_nat 70" "ln_nat 70 \<le> 4.24849524204935898912334456"
  using ln_nat_mult [of 2 35] ln_nat_2_3_5 ln_nat_35 by simp_all

lemma ln_nat_72:
  "4.27666611901605531104218627 \<le> ln_nat 72" "ln_nat 72 \<le> 4.27666611901605531104218720"
  using ln_nat_mult [of 2 36] ln_nat_2_3_5 ln_nat_36 by simp_all

lemma ln_nat_74:
  "4.30406509320416975378532722 \<le> ln_nat 74" "ln_nat 74 \<le> 4.30406509320416975378532817"
  using ln_nat_mult [of 2 37] ln_nat_2_3_5 ln_nat_37 by simp_all

lemma ln_nat_75:
  "4.31748811353631044059676333 \<le> ln_nat 75" "ln_nat 75 \<le> 4.31748811353631044059676427"
  using ln_nat_mult [of 3 25] ln_nat_25 ln_nat_2_3_5 by simp_all

lemma ln_nat_76:
  "4.33073334028633107884349110 \<le> ln_nat 76" "ln_nat 76 \<le> 4.33073334028633107884349205"
  using ln_nat_mult [of 2 38] ln_nat_2_3_5 ln_nat_38 by simp_all

lemma ln_nat_77:
  "4.34380542185368384916729574 \<le> ln_nat 77" "ln_nat 77 \<le> 4.34380542185368384916729670"
  using ln_nat_mult [of 7 11] ln_nat_11 ln_nat_7 by simp_all

lemma ln_nat_78:
  "4.35670882668959173686596421 \<le> ln_nat 78" "ln_nat 78 \<le> 4.35670882668959173686596517"
  using ln_nat_mult [of 2 39] ln_nat_2_3_5 ln_nat_39 by simp_all

lemma ln_nat_80:
  "4.38202663467388161226968724 \<le> ln_nat 80" "ln_nat 80 \<le> 4.38202663467388161226968819"
  using ln_nat_mult [of 2 40] ln_nat_2_3_5 ln_nat_40 by simp_all

lemma ln_nat_81:
  "4.39444915467243876558098036 \<le> ln_nat 81" "ln_nat 81 \<le> 4.39444915467243876558098132"
  using ln_nat_mult [of 3 27] ln_nat_27 ln_nat_2_3_5 by simp_all

lemma ln_nat_82:
  "4.40671924726425311328399490 \<le> ln_nat 82" "ln_nat 82 \<le> 4.40671924726425311328399587"
  using ln_nat_mult [of 2 41] ln_nat_2_3_5 ln_nat_41 by simp_all

lemma ln_nat_84:
  "4.43081679884331361533506163 \<le> ln_nat 84" "ln_nat 84 \<le> 4.43081679884331361533506260"
  using ln_nat_mult [of 2 42] ln_nat_2_3_5 ln_nat_42 by simp_all

lemma ln_nat_85:
  "4.44265125649031645485029336 \<le> ln_nat 85" "ln_nat 85 \<le> 4.44265125649031645485029433"
  using ln_nat_mult [of 5 17] ln_nat_17 ln_nat_2_3_5 by simp_all

lemma ln_nat_86:
  "4.45434729625350773289007404 \<le> ln_nat 86" "ln_nat 86 \<le> 4.45434729625350773289007502"
  using ln_nat_mult [of 2 43] ln_nat_2_3_5 ln_nat_43 by simp_all

lemma ln_nat_87:
  "4.46590811865458371857851667 \<le> ln_nat 87" "ln_nat 87 \<le> 4.46590811865458371857851765"
  using ln_nat_mult [of 3 29] ln_nat_29 ln_nat_2_3_5 by simp_all

lemma ln_nat_88:
  "4.47733681447820647231363935 \<le> ln_nat 88" "ln_nat 88 \<le> 4.47733681447820647231364033"
  using ln_nat_mult [of 2 44] ln_nat_2_3_5 ln_nat_44 by simp_all

lemma ln_nat_90:
  "4.49980967033026506680848133 \<le> ln_nat 90" "ln_nat 90 \<le> 4.49980967033026506680848231"
  using ln_nat_mult [of 2 45] ln_nat_2_3_5 ln_nat_45 by simp_all

lemma ln_nat_91:
  "4.51085950651685004115883957 \<le> ln_nat 91" "ln_nat 91 \<le> 4.51085950651685004115884057"
  using ln_nat_mult [of 7 13] ln_nat_13 ln_nat_7 by simp_all

lemma ln_nat_92:
  "4.52178857704904030964121647 \<le> ln_nat 92" "ln_nat 92 \<le> 4.52178857704904030964121747"
  using ln_nat_mult [of 2 46] ln_nat_2_3_5 ln_nat_46 by simp_all

lemma ln_nat_93:
  "4.53259949315325593732440896 \<le> ln_nat 93" "ln_nat 93 \<le> 4.53259949315325593732440995"
  using ln_nat_mult [of 3 31] ln_nat_2_3_5 ln_nat_31 by simp_all

lemma ln_nat_94:
  "4.54329478227000389623818218 \<le> ln_nat 94" "ln_nat 94 \<le> 4.54329478227000389623818319"
  using ln_nat_mult [of 2 47] ln_nat_2_3_5 ln_nat_47 by simp_all

lemma ln_nat_95:
  "4.55387689160054083460978616 \<le> ln_nat 95" "ln_nat 95 \<le> 4.55387689160054083460978716"
  using ln_nat_mult [of 5 19] ln_nat_19 ln_nat_2_3_5 by simp_all

lemma ln_nat_96:
  "4.56434819146783623848140524 \<le> ln_nat 96" "ln_nat 96 \<le> 4.56434819146783623848140623"
  using ln_nat_mult [of 2 48] ln_nat_2_3_5 ln_nat_48 by simp_all

lemma ln_nat_98:
  "4.58496747867057191962793699 \<le> ln_nat 98" "ln_nat 98 \<le> 4.58496747867057191962793800"
  using ln_nat_mult [of 2 49] ln_nat_2_3_5 ln_nat_49 by simp_all

lemma ln_nat_99:
  "4.59511985013458992685243344 \<le> ln_nat 99" "ln_nat 99 \<le> 4.59511985013458992685243445"
  using ln_nat_mult [of 3 33] ln_nat_2_3_5 ln_nat_33 by simp_all

lemma ln_nat_100:
  "4.60517018598809136803598230 \<le> ln_nat 100" "ln_nat 100 \<le> 4.60517018598809136803598330"
  using ln_nat_mult [of 2 50] ln_nat_2_3_5 ln_nat_50 by simp_all

lemma ln_nat_102:
  "4.62497281328427108106201136 \<le> ln_nat 102" "ln_nat 102 \<le> 4.62497281328427108106201237"
  using ln_nat_mult [of 2 51] ln_nat_2_3_5 ln_nat_51 by simp_all

lemma ln_nat_104:
  "4.64439089914137266430518318 \<le> ln_nat 104" "ln_nat 104 \<le> 4.64439089914137266430518420"
  using ln_nat_mult [of 2 52] ln_nat_2_3_5 ln_nat_52 by simp_all

lemma ln_nat_105:
  "4.65396035015752337110135669 \<le> ln_nat 105" "ln_nat 105 \<le> 4.65396035015752337110135771"
  using ln_nat_mult [of 3 35] ln_nat_2_3_5 ln_nat_35 by simp_all

lemma ln_nat_106:
  "4.66343909411206714356170063 \<le> ln_nat 106" "ln_nat 106 \<le> 4.66343909411206714356170166"
  using ln_nat_mult [of 2 53] ln_nat_2_3_5 ln_nat_53 by simp_all

lemma ln_nat_108:
  "4.68213122712421969302019933 \<le> ln_nat 108" "ln_nat 108 \<le> 4.68213122712421969302020035"
  using ln_nat_mult [of 2 54] ln_nat_2_3_5 ln_nat_54 by simp_all

lemma ln_nat_110:
  "4.70048036579241622807993441 \<le> ln_nat 110" "ln_nat 110 \<le> 4.70048036579241622807993544"
  using ln_nat_mult [of 2 55] ln_nat_2_3_5 ln_nat_55 by simp_all

lemma ln_nat_111:
  "4.70953020131233413576334028 \<le> ln_nat 111" "ln_nat 111 \<le> 4.70953020131233413576334132"
  using ln_nat_mult [of 3 37] ln_nat_2_3_5 ln_nat_37 by simp_all

lemma ln_nat_112:
  "4.71849887129509454277428060 \<le> ln_nat 112" "ln_nat 112 \<le> 4.71849887129509454277428163"
  using ln_nat_mult [of 2 56] ln_nat_2_3_5 ln_nat_56 by simp_all

lemma ln_nat_114:
  "4.73619844839449546082150416 \<le> ln_nat 114" "ln_nat 114 \<le> 4.73619844839449546082150520"
  using ln_nat_mult [of 2 57] ln_nat_2_3_5 ln_nat_57 by simp_all

lemma ln_nat_115:
  "4.74493212836325006540751153 \<le> ln_nat 115" "ln_nat 115 \<le> 4.74493212836325006540751258"
  using ln_nat_mult [of 5 23] ln_nat_23 ln_nat_2_3_5 by simp_all

lemma ln_nat_116:
  "4.75359019110636464601773564 \<le> ln_nat 116" "ln_nat 116 \<le> 4.75359019110636464601773668"
  using ln_nat_mult [of 2 58] ln_nat_2_3_5 ln_nat_58 by simp_all

lemma ln_nat_117:
  "4.76217393479775611884397727 \<le> ln_nat 117" "ln_nat 117 \<le> 4.76217393479775611884397832"
  using ln_nat_mult [of 3 39] ln_nat_2_3_5 ln_nat_39 by simp_all

lemma ln_nat_118:
  "4.77068462446566476003328186 \<le> ln_nat 118" "ln_nat 118 \<le> 4.77068462446566476003328291"
  using ln_nat_mult [of 2 59] ln_nat_2_3_5 ln_nat_59 by simp_all

lemma ln_nat_119:
  "4.77912349311152938535488672 \<le> ln_nat 119" "ln_nat 119 \<le> 4.77912349311152938535488777"
  using ln_nat_mult [of 7 17] ln_nat_17 ln_nat_7 by simp_all

lemma ln_nat_120:
  "4.78749174278204599424770030 \<le> ln_nat 120" "ln_nat 120 \<le> 4.78749174278204599424770134"
  using ln_nat_mult [of 2 60] ln_nat_2_3_5 ln_nat_60 by simp_all

lemma ln_nat_121:
  "4.79579054559674108812388652 \<le> ln_nat 121" "ln_nat 121 \<le> 4.79579054559674108812388758"
  using ln_nat_mult [of 11 11] ln_nat_11 by simp_all

lemma ln_nat_122:
  "4.80402104473325655816862058 \<le> ln_nat 122" "ln_nat 122 \<le> 4.80402104473325655816862164"
  using ln_nat_mult [of 2 61] ln_nat_2_3_5 ln_nat_61 by simp_all

lemma ln_nat_123:
  "4.81218435537241749526200796 \<le> ln_nat 123" "ln_nat 123 \<le> 4.81218435537241749526200902"
  using ln_nat_mult [of 3 41] ln_nat_2_3_5 ln_nat_41 by simp_all

lemma ln_nat_124:
  "4.82028156560503686476362793 \<le> ln_nat 124" "ln_nat 124 \<le> 4.82028156560503686476362898"
  using ln_nat_mult [of 2 62] ln_nat_2_3_5 ln_nat_62 by simp_all

lemma ln_nat_125:
  "4.82831373730230112380227736 \<le> ln_nat 125" "ln_nat 125 \<le> 4.82831373730230112380227841"
  using ln_nat_mult [of 5 25] ln_nat_25 ln_nat_2_3_5 by simp_all

text \<open>Enclosures of \<open>ln (m!)\<close>: each adds \<open>ln m\<close> to the one before.\<close>

lemma ln_fact_1: "ln_fact 1 = 0"
  using ln_fact_step [of 1 0] ln_fact_0 ln_nat_1 by simp

lemma ln_fact_2:
  "0.69314718055994530941723203 \<le> ln_fact 2" "ln_fact 2 \<le> 0.69314718055994530941723218"
  using ln_fact_step [of 2 1] ln_fact_1 ln_nat_2_3_5 by simp_all

lemma ln_fact_3:
  "1.79175946922805500081247712 \<le> ln_fact 3" "ln_fact 3 \<le> 1.79175946922805500081247751"
  using ln_fact_step [of 3 2] ln_fact_2 ln_nat_2_3_5 by simp_all

lemma ln_fact_4:
  "3.17805383034794561964694118 \<le> ln_fact 4" "ln_fact 4 \<le> 3.17805383034794561964694187"
  using ln_fact_step [of 4 3] ln_fact_3 ln_nat_4 by simp_all

lemma ln_fact_5:
  "4.78749174278204599424770030 \<le> ln_fact 5" "ln_fact 5 \<le> 4.78749174278204599424770134"
  using ln_fact_step [of 5 4] ln_fact_4 ln_nat_2_3_5 by simp_all

lemma ln_fact_6:
  "6.57925121201010099506017742 \<le> ln_fact 6" "ln_fact 6 \<le> 6.57925121201010099506017885"
  using ln_fact_step [of 6 5] ln_fact_5 ln_nat_6 by simp_all

lemma ln_fact_7:
  "8.52516136106541430016552990 \<le> ln_fact 7" "ln_fact 7 \<le> 8.52516136106541430016553176"
  using ln_fact_step [of 7 6] ln_fact_6 ln_nat_7 by simp_all

lemma ln_fact_8:
  "10.60460290274525022841722599 \<le> ln_fact 8" "ln_fact 8 \<le> 10.60460290274525022841722830"
  using ln_fact_step [of 8 7] ln_fact_7 ln_nat_8 by simp_all

lemma ln_fact_9:
  "12.80182748008146961120771617 \<le> ln_fact 9" "ln_fact 9 \<le> 12.80182748008146961120771896"
  using ln_fact_step [of 9 8] ln_fact_8 ln_nat_9 by simp_all

lemma ln_fact_10:
  "15.10441257307551529522570732 \<le> ln_fact 10" "ln_fact 10 \<le> 15.10441257307551529522571061"
  using ln_fact_step [of 10 9] ln_fact_9 ln_nat_10 by simp_all

lemma ln_fact_11:
  "17.50230784587388583928765058 \<le> ln_fact 11" "ln_fact 11 \<le> 17.50230784587388583928765440"
  using ln_fact_step [of 11 10] ln_fact_10 ln_nat_11 by simp_all

lemma ln_fact_12:
  "19.98721449566188614951735973 \<le> ln_fact 12" "ln_fact 12 \<le> 19.98721449566188614951736409"
  using ln_fact_step [of 12 11] ln_fact_11 ln_nat_12 by simp_all

lemma ln_fact_13:
  "22.55216385312342288557084682 \<le> ln_fact 13" "ln_fact 13 \<le> 22.55216385312342288557085175"
  using ln_fact_step [of 13 12] ln_fact_12 ln_nat_13 by simp_all

lemma ln_fact_14:
  "25.19122118273868150009343133 \<le> ln_fact 14" "ln_fact 14 \<le> 25.19122118273868150009343684"
  using ln_fact_step [of 14 13] ln_fact_13 ln_nat_14 by simp_all

lemma ln_fact_15:
  "27.89927138384089156608943554 \<le> ln_fact 15" "ln_fact 15 \<le> 27.89927138384089156608944164"
  using ln_fact_step [of 15 14] ln_fact_14 ln_nat_15 by simp_all

lemma ln_fact_16:
  "30.67186010608067280375836366 \<le> ln_fact 16" "ln_fact 16 \<le> 30.67186010608067280375837036"
  using ln_fact_step [of 16 15] ln_fact_15 ln_nat_16 by simp_all

lemma ln_fact_17:
  "33.50507345013688888400789790 \<le> ln_fact 17" "ln_fact 17 \<le> 33.50507345013688888400790522"
  using ln_fact_step [of 17 16] ln_fact_16 ln_nat_17 by simp_all

lemma ln_fact_18:
  "36.39544520803305357621562011 \<le> ln_fact 18" "ln_fact 18 \<le> 36.39544520803305357621562806"
  using ln_fact_step [of 18 17] ln_fact_17 ln_nat_18 by simp_all

lemma ln_fact_19:
  "39.33988418719949403622464715 \<le> ln_fact 19" "ln_fact 19 \<le> 39.33988418719949403622465575"
  using ln_fact_step [of 19 18] ln_fact_18 ln_nat_19 by simp_all

lemma ln_fact_20:
  "42.33561646075348502965987033 \<le> ln_fact 20" "ln_fact 20 \<le> 42.33561646075348502965987958"
  using ln_fact_step [of 20 19] ln_fact_19 ln_nat_20 by simp_all

lemma ln_fact_21:
  "45.38013889847690802616046790 \<le> ln_fact 21" "ln_fact 21 \<le> 45.38013889847690802616047782"
  using ln_fact_step [of 21 20] ln_fact_20 ln_nat_21 by simp_all

lemma ln_fact_22:
  "48.47118135183522387963964319 \<le> ln_fact 22" "ln_fact 22 \<le> 48.47118135183522387963965379"
  using ln_fact_step [of 22 21] ln_fact_21 ln_nat_22 by simp_all

lemma ln_fact_23:
  "51.60667556776437357044639560 \<le> ln_fact 23" "ln_fact 23 \<le> 51.60667556776437357044640690"
  using ln_fact_step [of 23 22] ln_fact_22 ln_nat_23 by simp_all

lemma ln_fact_24:
  "54.78472939811231919009333678 \<le> ln_fact 24" "ln_fact 24 \<le> 54.78472939811231919009334877"
  using ln_fact_step [of 24 23] ln_fact_23 ln_nat_24 by simp_all

lemma ln_fact_25:
  "58.00360522298051993929485502 \<le> ln_fact 25" "ln_fact 25 \<le> 58.00360522298051993929486771"
  using ln_fact_step [of 25 24] ln_fact_24 ln_nat_25 by simp_all

lemma ln_fact_26:
  "61.26170176100200198476557414 \<le> ln_fact 26" "ln_fact 26 \<le> 61.26170176100200198476558755"
  using ln_fact_step [of 26 25] ln_fact_25 ln_nat_26 by simp_all

lemma ln_fact_27:
  "64.55753862700633105895130941 \<le> ln_fact 27" "ln_fact 27 \<le> 64.55753862700633105895132354"
  using ln_fact_step [of 27 26] ln_fact_26 ln_nat_27 by simp_all

lemma ln_fact_28:
  "67.88974313718153498289112595 \<le> ln_fact 28" "ln_fact 28 \<le> 67.88974313718153498289114081"
  using ln_fact_step [of 28 27] ln_fact_27 ln_nat_28 by simp_all

lemma ln_fact_29:
  "71.25703896716800901007439753 \<le> ln_fact 29" "ln_fact 29 \<le> 71.25703896716800901007441313"
  using ln_fact_step [of 29 28] ln_fact_28 ln_nat_29 by simp_all

lemma ln_fact_30:
  "74.65823634883016438548763377 \<le> ln_fact 30" "ln_fact 30 \<le> 74.65823634883016438548765011"
  using ln_fact_step [of 30 29] ln_fact_29 ln_nat_30 by simp_all

lemma ln_fact_31:
  "78.09222355331531063141679764 \<le> ln_fact 31" "ln_fact 31 \<le> 78.09222355331531063141681473"
  using ln_fact_step [of 31 30] ln_fact_30 ln_nat_31 by simp_all

lemma ln_fact_32:
  "81.55795945611503717850295779 \<le> ln_fact 32" "ln_fact 32 \<le> 81.55795945611503717850297563"
  using ln_fact_step [of 32 31] ln_fact_31 ln_nat_32 by simp_all

lemma ln_fact_33:
  "85.05446701758151741396014614 \<le> ln_fact 33" "ln_fact 33 \<le> 85.05446701758151741396016475"
  using ln_fact_step [of 33 32] ln_fact_32 ln_nat_33 by simp_all

lemma ln_fact_34:
  "88.58082754219767880362691241 \<le> ln_fact 34" "ln_fact 34 \<le> 88.58082754219767880362693179"
  using ln_fact_step [of 34 33] ln_fact_33 ln_nat_34 by simp_all

lemma ln_fact_35:
  "92.13617560368709248333302401 \<le> ln_fact 35" "ln_fact 35 \<le> 92.13617560368709248333304417"
  using ln_fact_step [of 35 34] ln_fact_34 ln_nat_35 by simp_all

lemma ln_fact_36:
  "95.71969454214320248495797825 \<le> ln_fact 36" "ln_fact 36 \<le> 95.71969454214320248495799919"
  using ln_fact_step [of 36 35] ln_fact_35 ln_nat_36 by simp_all

lemma ln_fact_37:
  "99.33061245478742692932607344 \<le> ln_fact 37" "ln_fact 37 \<le> 99.33061245478742692932609518"
  using ln_fact_step [of 37 36] ln_fact_36 ln_nat_37 by simp_all

lemma ln_fact_38:
  "102.96819861451381269875233251 \<le> ln_fact 38" "ln_fact 38 \<le> 102.96819861451381269875235505"
  using ln_fact_step [of 38 37] ln_fact_37 ln_nat_38 by simp_all

lemma ln_fact_39:
  "106.63176026064345912620106469 \<le> ln_fact 39" "ln_fact 39 \<le> 106.63176026064345912620108804"
  using ln_fact_step [of 39 38] ln_fact_38 ln_nat_39 by simp_all

lemma ln_fact_40:
  "110.32063971475739542905351990 \<le> ln_fact 40" "ln_fact 40 \<le> 110.32063971475739542905354405"
  using ln_fact_step [of 40 39] ln_fact_39 ln_nat_40 by simp_all

lemma ln_fact_41:
  "114.03421178146170323292028277 \<le> ln_fact 41" "ln_fact 41 \<le> 114.03421178146170323292030774"
  using ln_fact_step [of 41 40] ln_fact_40 ln_nat_41 by simp_all

lemma ln_fact_42:
  "117.77188139974507153883811237 \<le> ln_fact 42" "ln_fact 42 \<le> 117.77188139974507153883813816"
  using ln_fact_step [of 42 41] ln_fact_41 ln_nat_42 by simp_all

lemma ln_fact_43:
  "121.53308151543863396231095438 \<le> ln_fact 43" "ln_fact 43 \<le> 121.53308151543863396231098100"
  using ln_fact_step [of 43 42] ln_fact_42 ln_nat_43 by simp_all

lemma ln_fact_44:
  "125.31727114935689512520736170 \<le> ln_fact 44" "ln_fact 44 \<le> 125.31727114935689512520738915"
  using ln_fact_step [of 44 43] ln_fact_43 ln_nat_44 by simp_all

lemma ln_fact_45:
  "129.12393363912721488259861100 \<le> ln_fact 45" "ln_fact 45 \<le> 129.12393363912721488259863928"
  using ln_fact_step [of 45 44] ln_fact_44 ln_nat_45 by simp_all

lemma ln_fact_46:
  "132.95257503561630988282259544 \<le> ln_fact 46" "ln_fact 46 \<le> 132.95257503561630988282262457"
  using ln_fact_step [of 46 45] ln_fact_45 ln_nat_46 by simp_all

lemma ln_fact_47:
  "136.80272263732636846964354559 \<le> ln_fact 47" "ln_fact 47 \<le> 136.80272263732636846964357558"
  using ln_fact_step [of 47 46] ln_fact_46 ln_nat_47 by simp_all

lemma ln_fact_48:
  "140.67392364823425939870771880 \<le> ln_fact 48" "ln_fact 48 \<le> 140.67392364823425939870774963"
  using ln_fact_step [of 48 47] ln_fact_47 ln_nat_48 by simp_all

lemma ln_fact_49:
  "144.56574394634488600891842376 \<le> ln_fact 49" "ln_fact 49 \<le> 144.56574394634488600891845545"
  using ln_fact_step [of 49 48] ln_fact_48 ln_nat_49 by simp_all

lemma ln_fact_50:
  "148.47776695177303206753717403 \<le> ln_fact 50" "ln_fact 50 \<le> 148.47776695177303206753720657"
  using ln_fact_step [of 50 49] ln_fact_49 ln_nat_50 by simp_all

lemma ln_fact_51:
  "152.40959258449735783918195336 \<le> ln_fact 51" "ln_fact 51 \<le> 152.40959258449735783918198676"
  using ln_fact_step [of 51 50] ln_fact_50 ln_nat_51 by simp_all

lemma ln_fact_52:
  "156.36083630307878519406990451 \<le> ln_fact 52" "ln_fact 52 \<le> 156.36083630307878519406993878"
  using ln_fact_step [of 52 51] ln_fact_51 ln_nat_52 by simp_all

lemma ln_fact_53:
  "160.33112821663090702821437311 \<le> ln_fact 53" "ln_fact 53 \<le> 160.33112821663090702821440826"
  using ln_fact_step [of 53 52] ln_fact_52 ln_nat_53 by simp_all

lemma ln_fact_54:
  "164.32011226319518141181734041 \<le> ln_fact 54" "ln_fact 54 \<le> 164.32011226319518141181737643"
  using ln_fact_step [of 54 53] ln_fact_53 ln_nat_54 by simp_all

lemma ln_fact_55:
  "168.32744544842765233048004279 \<le> ln_fact 55" "ln_fact 55 \<le> 168.32744544842765233048007969"
  using ln_fact_step [of 55 54] ln_fact_54 ln_nat_55 by simp_all

lemma ln_fact_56:
  "172.35279713916280156383709136 \<le> ln_fact 56" "ln_fact 56 \<le> 172.35279713916280156383712914"
  using ln_fact_step [of 56 55] ln_fact_55 ln_nat_56 by simp_all

lemma ln_fact_57:
  "176.39584840699735171524136349 \<le> ln_fact 57" "ln_fact 57 \<le> 176.39584840699735171524140216"
  using ln_fact_step [of 57 56] ln_fact_56 ln_nat_57 by simp_all

lemma ln_fact_58:
  "180.45629141754377105184186710 \<le> ln_fact 58" "ln_fact 58 \<le> 180.45629141754377105184190666"
  using ln_fact_step [of 58 57] ln_fact_57 ln_nat_58 by simp_all

lemma ln_fact_59:
  "184.53382886144949050245791693 \<le> ln_fact 59" "ln_fact 59 \<le> 184.53382886144949050245795739"
  using ln_fact_step [of 59 58] ln_fact_58 ln_nat_59 by simp_all

lemma ln_fact_60:
  "188.62817342367159118728838520 \<le> ln_fact 60" "ln_fact 60 \<le> 188.62817342367159118728842655"
  using ln_fact_step [of 60 59] ln_fact_59 ln_nat_60 by simp_all

lemma ln_fact_61:
  "192.73904728784490243603977375 \<le> ln_fact 61" "ln_fact 61 \<le> 192.73904728784490243603981601"
  using ln_fact_step [of 61 60] ln_fact_60 ln_nat_61 by simp_all

lemma ln_fact_62:
  "196.86618167288999399138616965 \<le> ln_fact 62" "ln_fact 62 \<le> 196.86618167288999399138621281"
  using ln_fact_step [of 62 61] ln_fact_61 ln_nat_62 by simp_all

lemma ln_fact_63:
  "201.00931639928152667928201231 \<le> ln_fact 63" "ln_fact 63 \<le> 201.00931639928152667928205638"
  using ln_fact_step [of 63 62] ln_fact_62 ln_nat_63 by simp_all

lemma ln_fact_64:
  "205.16819948264119853578540449 \<le> ln_fact 64" "ln_fact 64 \<le> 205.16819948264119853578544946"
  using ln_fact_step [of 64 63] ln_fact_63 ln_nat_64 by simp_all

lemma ln_fact_65:
  "209.34258675253683564643965070 \<le> ln_fact 65" "ln_fact 65 \<le> 209.34258675253683564643969659"
  using ln_fact_step [of 65 64] ln_fact_64 ln_nat_65 by simp_all

lemma ln_fact_66:
  "213.53224149456326119131407108 \<le> ln_fact 66" "ln_fact 66 \<le> 213.53224149456326119131411789"
  using ln_fact_step [of 66 65] ln_fact_65 ln_nat_66 by simp_all

lemma ln_fact_67:
  "217.73693411395422725098414251 \<le> ln_fact 67" "ln_fact 67 \<le> 217.73693411395422725098419025"
  using ln_fact_step [of 67 66] ln_fact_66 ln_nat_67 by simp_all

lemma ln_fact_68:
  "221.95644181913033395006814081 \<le> ln_fact 68" "ln_fact 68 \<le> 221.95644181913033395006818947"
  using ln_fact_step [of 68 67] ln_fact_67 ln_nat_68 by simp_all

lemma ln_fact_69:
  "226.19054832372759333227013831 \<le> ln_fact 69" "ln_fact 69 \<le> 226.19054832372759333227018791"
  using ln_fact_step [of 69 68] ln_fact_68 ln_nat_69 by simp_all

lemma ln_fact_70:
  "230.43904356577695232139348194 \<le> ln_fact 70" "ln_fact 70 \<le> 230.43904356577695232139353247"
  using ln_fact_step [of 70 69] ln_fact_69 ln_nat_70 by simp_all

lemma ln_fact_71:
  "234.70172344281826774272293590 \<le> ln_fact 71" "ln_fact 71 \<le> 234.70172344281826774272298737"
  using ln_fact_step [of 71 70] ln_fact_70 ln_nat_71 by simp_all

lemma ln_fact_72:
  "238.97838956183432305376512217 \<le> ln_fact 72" "ln_fact 72 \<le> 238.97838956183432305376517457"
  using ln_fact_step [of 72 71] ln_fact_71 ln_nat_72 by simp_all

lemma ln_fact_73:
  "243.26884900298271418285723045 \<le> ln_fact 73" "ln_fact 73 \<le> 243.26884900298271418285728380"
  using ln_fact_step [of 73 72] ln_fact_72 ln_nat_73 by simp_all

lemma ln_fact_74:
  "247.57291409618688393664255767 \<le> ln_fact 74" "ln_fact 74 \<le> 247.57291409618688393664261197"
  using ln_fact_step [of 74 73] ln_fact_73 ln_nat_74 by simp_all

lemma ln_fact_75:
  "251.89040220972319437723932100 \<le> ln_fact 75" "ln_fact 75 \<le> 251.89040220972319437723937624"
  using ln_fact_step [of 75 74] ln_fact_74 ln_nat_75 by simp_all

lemma ln_fact_76:
  "256.22113555000952545608281210 \<le> ln_fact 76" "ln_fact 76 \<le> 256.22113555000952545608286829"
  using ln_fact_step [of 76 75] ln_fact_75 ln_nat_76 by simp_all

lemma ln_fact_77:
  "260.56494097186320930525010784 \<le> ln_fact 77" "ln_fact 77 \<le> 260.56494097186320930525016499"
  using ln_fact_step [of 77 76] ln_fact_76 ln_nat_77 by simp_all

lemma ln_fact_78:
  "264.92164979855280104211607205 \<le> ln_fact 78" "ln_fact 78 \<le> 264.92164979855280104211613016"
  using ln_fact_step [of 78 77] ln_fact_77 ln_nat_78 by simp_all

lemma ln_fact_79:
  "269.29109765101982253628901700 \<le> ln_fact 79" "ln_fact 79 \<le> 269.29109765101982253628907608"
  using ln_fact_step [of 79 78] ln_fact_78 ln_nat_79 by simp_all

lemma ln_fact_80:
  "273.67312428569370414855870424 \<le> ln_fact 80" "ln_fact 80 \<le> 273.67312428569370414855876427"
  using ln_fact_step [of 80 79] ln_fact_79 ln_nat_80 by simp_all

lemma ln_fact_81:
  "278.06757344036614291413968460 \<le> ln_fact 81" "ln_fact 81 \<le> 278.06757344036614291413974559"
  using ln_fact_step [of 81 80] ln_fact_80 ln_nat_81 by simp_all

lemma ln_fact_82:
  "282.47429268763039602742367950 \<le> ln_fact 82" "ln_fact 82 \<le> 282.47429268763039602742374146"
  using ln_fact_step [of 82 81] ln_fact_81 ln_nat_82 by simp_all

lemma ln_fact_83:
  "286.89313329542699395089915112 \<le> ln_fact 83" "ln_fact 83 \<le> 286.89313329542699395089921406"
  using ln_fact_step [of 83 82] ln_fact_82 ln_nat_83 by simp_all

lemma ln_fact_84:
  "291.32395009427030756623421275 \<le> ln_fact 84" "ln_fact 84 \<le> 291.32395009427030756623427666"
  using ln_fact_step [of 84 83] ln_fact_83 ln_nat_84 by simp_all

lemma ln_fact_85:
  "295.76660135076062402108450611 \<le> ln_fact 85" "ln_fact 85 \<le> 295.76660135076062402108457099"
  using ln_fact_step [of 85 84] ln_fact_84 ln_nat_85 by simp_all

lemma ln_fact_86:
  "300.22094864701413175397458015 \<le> ln_fact 86" "ln_fact 86 \<le> 300.22094864701413175397464601"
  using ln_fact_step [of 86 85] ln_fact_85 ln_nat_86 by simp_all

lemma ln_fact_87:
  "304.68685676566871547255309682 \<le> ln_fact 87" "ln_fact 87 \<le> 304.68685676566871547255316366"
  using ln_fact_step [of 87 86] ln_fact_86 ln_nat_87 by simp_all

lemma ln_fact_88:
  "309.16419358014692194486673617 \<le> ln_fact 88" "ln_fact 88 \<le> 309.16419358014692194486680399"
  using ln_fact_step [of 88 87] ln_fact_87 ln_nat_88 by simp_all

lemma ln_fact_89:
  "313.65282994987906178318455111 \<le> ln_fact 89" "ln_fact 89 \<le> 313.65282994987906178318461992"
  using ln_fact_step [of 89 88] ln_fact_88 ln_nat_89 by simp_all

lemma ln_fact_90:
  "318.15263962020932684999303244 \<le> ln_fact 90" "ln_fact 90 \<le> 318.15263962020932684999310223"
  using ln_fact_step [of 90 89] ln_fact_89 ln_nat_90 by simp_all

lemma ln_fact_91:
  "322.66349912672617689115187201 \<le> ln_fact 91" "ln_fact 91 \<le> 322.66349912672617689115194280"
  using ln_fact_step [of 91 90] ln_fact_90 ln_nat_91 by simp_all

lemma ln_fact_92:
  "327.18528770377521720079308848 \<le> ln_fact 92" "ln_fact 92 \<le> 327.18528770377521720079316027"
  using ln_fact_step [of 92 91] ln_fact_91 ln_nat_92 by simp_all

lemma ln_fact_93:
  "331.71788719692847313811749744 \<le> ln_fact 93" "ln_fact 93 \<le> 331.71788719692847313811757022"
  using ln_fact_step [of 93 92] ln_fact_92 ln_nat_93 by simp_all

lemma ln_fact_94:
  "336.26118197919847703435567962 \<le> ln_fact 94" "ln_fact 94 \<le> 336.26118197919847703435575341"
  using ln_fact_step [of 94 93] ln_fact_93 ln_nat_94 by simp_all

lemma ln_fact_95:
  "340.81505887079901786896546578 \<le> ln_fact 95" "ln_fact 95 \<le> 340.81505887079901786896554057"
  using ln_fact_step [of 95 94] ln_fact_94 ln_nat_95 by simp_all

lemma ln_fact_96:
  "345.37940706226685410744687102 \<le> ln_fact 96" "ln_fact 96 \<le> 345.37940706226685410744694680"
  using ln_fact_step [of 96 95] ln_fact_95 ln_nat_96 by simp_all

lemma ln_fact_97:
  "349.95411804077023692956359203 \<le> ln_fact 97" "ln_fact 97 \<le> 349.95411804077023692956366882"
  using ln_fact_step [of 97 96] ln_fact_96 ln_nat_97 by simp_all

lemma ln_fact_98:
  "354.53908551944080884919152902 \<le> ln_fact 98" "ln_fact 98 \<le> 354.53908551944080884919160682"
  using ln_fact_step [of 98 97] ln_fact_97 ln_nat_98 by simp_all

lemma ln_fact_99:
  "359.13420536957539877604396246 \<le> ln_fact 99" "ln_fact 99 \<le> 359.13420536957539877604404127"
  using ln_fact_step [of 99 98] ln_fact_98 ln_nat_99 by simp_all

lemma ln_fact_100:
  "363.73937555556349014407994476 \<le> ln_fact 100" "ln_fact 100 \<le> 363.73937555556349014408002457"
  using ln_fact_step [of 100 99] ln_fact_99 ln_nat_100 by simp_all

lemma ln_fact_101:
  "368.35449607240474959496414241 \<le> ln_fact 101" "ln_fact 101 \<le> 368.35449607240474959496422323"
  using ln_fact_step [of 101 100] ln_fact_100 ln_nat_101 by simp_all

lemma ln_fact_102:
  "372.97946888568902067602615377 \<le> ln_fact 102" "ln_fact 102 \<le> 372.97946888568902067602623560"
  using ln_fact_step [of 102 101] ln_fact_101 ln_nat_102 by simp_all

lemma ln_fact_103:
  "377.61419787391865644679475546 \<le> ln_fact 103" "ln_fact 103 \<le> 377.61419787391865644679483831"
  using ln_fact_step [of 103 102] ln_fact_102 ln_nat_103 by simp_all

lemma ln_fact_104:
  "382.25858877306002911109993864 \<le> ln_fact 104" "ln_fact 104 \<le> 382.25858877306002911110002251"
  using ln_fact_step [of 104 103] ln_fact_103 ln_nat_104 by simp_all

lemma ln_fact_105:
  "386.91254912321755248220129533 \<le> ln_fact 105" "ln_fact 105 \<le> 386.91254912321755248220138022"
  using ln_fact_step [of 105 104] ln_fact_104 ln_nat_105 by simp_all

lemma ln_fact_106:
  "391.57598821732961962576299596 \<le> ln_fact 106" "ln_fact 106 \<le> 391.57598821732961962576308188"
  using ln_fact_step [of 106 105] ln_fact_105 ln_nat_106 by simp_all

lemma ln_fact_107:
  "396.24881705179152579906739414 \<le> ln_fact 107" "ln_fact 107 \<le> 396.24881705179152579906748110"
  using ln_fact_step [of 107 106] ln_fact_106 ln_nat_107 by simp_all

lemma ln_fact_108:
  "400.93094827891574549208759347 \<le> ln_fact 108" "ln_fact 108 \<le> 400.93094827891574549208768145"
  using ln_fact_step [of 108 107] ln_fact_107 ln_nat_108 by simp_all

lemma ln_fact_109:
  "405.62229616114488919246490929 \<le> ln_fact 109" "ln_fact 109 \<le> 405.62229616114488919246499831"
  using ln_fact_step [of 109 108] ln_fact_108 ln_nat_109 by simp_all

lemma ln_fact_110:
  "410.32277652693730542054484370 \<le> ln_fact 110" "ln_fact 110 \<le> 410.32277652693730542054493375"
  using ln_fact_step [of 110 109] ln_fact_109 ln_nat_110 by simp_all

lemma ln_fact_111:
  "415.03230672824963955630818398 \<le> ln_fact 111" "ln_fact 111 \<le> 415.03230672824963955630827507"
  using ln_fact_step [of 111 110] ln_fact_110 ln_nat_111 by simp_all

lemma ln_fact_112:
  "419.75080559954473409908246458 \<le> ln_fact 112" "ln_fact 112 \<le> 419.75080559954473409908255670"
  using ln_fact_step [of 112 111] ln_fact_111 ln_nat_112 by simp_all

lemma ln_fact_113:
  "424.47819341825707466766459544 \<le> ln_fact 113" "ln_fact 113 \<le> 424.47819341825707466766468860"
  using ln_fact_step [of 113 112] ln_fact_112 ln_nat_113 by simp_all

lemma ln_fact_114:
  "429.21439186665157012848609960 \<le> ln_fact 114" "ln_fact 114 \<le> 429.21439186665157012848619380"
  using ln_fact_step [of 114 113] ln_fact_113 ln_nat_114 by simp_all

lemma ln_fact_115:
  "433.95932399501482019389361113 \<le> ln_fact 115" "ln_fact 115 \<le> 433.95932399501482019389370638"
  using ln_fact_step [of 115 114] ln_fact_114 ln_nat_115 by simp_all

lemma ln_fact_116:
  "438.71291418612118483991134677 \<le> ln_fact 116" "ln_fact 116 \<le> 438.71291418612118483991144306"
  using ln_fact_step [of 116 115] ln_fact_115 ln_nat_116 by simp_all

lemma ln_fact_117:
  "443.47508812091894095875532404 \<le> ln_fact 117" "ln_fact 117 \<le> 443.47508812091894095875542138"
  using ln_fact_step [of 117 116] ln_fact_116 ln_nat_117 by simp_all

lemma ln_fact_118:
  "448.24577274538460571878860590 \<le> ln_fact 118" "ln_fact 118 \<le> 448.24577274538460571878870429"
  using ln_fact_step [of 118 117] ln_fact_117 ln_nat_118 by simp_all

lemma ln_fact_119:
  "453.02489623849613510414349262 \<le> ln_fact 119" "ln_fact 119 \<le> 453.02489623849613510414359206"
  using ln_fact_step [of 119 118] ln_fact_118 ln_nat_119 by simp_all

lemma ln_fact_120:
  "457.81238798127818109839119292 \<le> ln_fact 120" "ln_fact 120 \<le> 457.81238798127818109839129340"
  using ln_fact_step [of 120 119] ln_fact_119 ln_nat_120 by simp_all

lemma ln_fact_121:
  "462.60817852687492218651507944 \<le> ln_fact 121" "ln_fact 121 \<le> 462.60817852687492218651518098"
  using ln_fact_step [of 121 120] ln_fact_120 ln_nat_121 by simp_all

lemma ln_fact_122:
  "467.41219957160817874468370002 \<le> ln_fact 122" "ln_fact 122 \<le> 467.41219957160817874468380262"
  using ln_fact_step [of 122 121] ln_fact_121 ln_nat_122 by simp_all

lemma ln_fact_123:
  "472.22438392698059623994570798 \<le> ln_fact 123" "ln_fact 123 \<le> 472.22438392698059623994581164"
  using ln_fact_step [of 123 122] ln_fact_122 ln_nat_123 by simp_all

lemma ln_fact_124:
  "477.04466549258563310470933591 \<le> ln_fact 124" "ln_fact 124 \<le> 477.04466549258563310470944062"
  using ln_fact_step [of 124 123] ln_fact_123 ln_nat_124 by simp_all

lemma ln_fact_125:
  "481.87297922988793422851161327 \<le> ln_fact 125" "ln_fact 125 \<le> 481.87297922988793422851171903"
  using ln_fact_step [of 125 124] ln_fact_124 ln_nat_125 by simp_all

text \<open>
  Every entry of the table is within a relative error of \<open>DBL_EPSILON\<close> of the
  logarithm of the factorial it stands for.
\<close>

lemma logfactorial_accuracy:
  assumes "j < 126"
  shows "\<bar>logfactorial ! j - ln_fact j\<bar> \<le> DBL_EPSILON * ln_fact j"
proof -
  let ?Q = "\<lambda>j. \<bar>logfactorial ! j - ln_fact j\<bar> \<le> DBL_EPSILON * ln_fact j"
  have step: "\<And>n m. (\<forall>j<n. ?Q j) \<Longrightarrow> ?Q n \<Longrightarrow> m = Suc n \<Longrightarrow> (\<forall>j<m. ?Q j)"
    by (simp add: less_Suc_eq)
  have eps: "DBL_EPSILON = 1 / 4503599627370496" by (simp add: DBL_EPSILON_def)
  have tab: "logfactorial = [
      0, 0, 69314718055994529 / 100000000000000000,
      358351893845611 / 200000000000000, 15890269151739729 / 5000000000000000, 23937458713910229 / 5000000000000000,
      16448128030025253 / 2500000000000000, 85251613610654147 / 10000000000000000, 10604602902745251 / 1000000000000000,
      12801827480081469 / 1000000000000000, 3776103143268879 / 250000000000000, 17502307845873887 / 1000000000000000,
      3997442899132377 / 200000000000000, 902086554124937 / 40000000000000, 629780529568467 / 25000000000000,
      2789927138384089 / 100000000000000, 958495628315021 / 31250000000000, 33505073450136891 / 1000000000000000,
      36395445208033053 / 1000000000000000, 7867976837439899 / 200000000000000, 8467123292150697 / 200000000000000,
      11345034724619227 / 250000000000000, 48471181351835227 / 1000000000000000, 51606675567764377 / 1000000000000000,
      54784729398112319 / 1000000000000000, 29001802611490259 / 500000000000000, 61261701761002001 / 1000000000000000,
      32278769313503169 / 500000000000000, 3394487156859077 / 50000000000000, 14251407793433603 / 200000000000000,
      37329118174415079 / 500000000000000, 78092223553315307 / 1000000000000000, 81557959456115043 / 1000000000000000,
      21263616754395379 / 250000000000000, 44290413771098841 / 500000000000000, 92136175603687093 / 1000000000000000,
      47859847271071601 / 500000000000000, 24832653113696857 / 250000000000000, 10296819861451381 / 100000000000000,
      5331588013032173 / 50000000000000, 11032063971475739 / 100000000000000, 11403421178146171 / 100000000000000,
      11777188139974507 / 100000000000000, 1519163518942983 / 12500000000000, 1253172711493569 / 10000000000000,
      6456196681956361 / 50000000000000, 415476796986301 / 3125000000000, 2736054452746527 / 20000000000000,
      562695694592937 / 4000000000000, 1445657439463449 / 10000000000000, 7423888347588651 / 50000000000000,
      3048191851689947 / 20000000000000, 390902090757697 / 2500000000000, 1603311282166309 / 10000000000000,
      16432011226319517 / 100000000000000, 3366548908968553 / 20000000000000, 17235279713916279 / 100000000000000,
      3527916968139947 / 20000000000000, 9022814570877189 / 50000000000000, 4613345721536237 / 25000000000000,
      471570433559179 / 2500000000000, 1927390472878449 / 10000000000000, 19686618167289001 / 100000000000000,
      2512616454991019 / 12500000000000, 512920498706603 / 2500000000000, 4186851735050737 / 20000000000000,
      21353224149456327 / 100000000000000, 10886846705697711 / 50000000000000, 22195644181913033 / 100000000000000,
      565476370809319 / 2500000000000, 720122011143053 / 3125000000000, 11735086172140913 / 50000000000000,
      2987229869522929 / 12500000000000, 24326884900298271 / 100000000000000, 96708169568823 / 390625000000,
      25189040220972319 / 100000000000000, 12811056777500477 / 50000000000000, 13028247048593161 / 50000000000000,
      13246082489927639 / 50000000000000, 26929109765101981 / 100000000000000, 27367312428569369 / 100000000000000,
      6951689336009153 / 25000000000000, 176546432929769 / 625000000000, 28689313329542699 / 100000000000000,
      29132395009427029 / 100000000000000, 5915332027015213 / 20000000000000, 6004418972940283 / 20000000000000,
      3808585709570859 / 12500000000000, 3091641935801469 / 10000000000000, 6273056598997581 / 20000000000000,
      3181526396202093 / 10000000000000, 6453269982534523 / 20000000000000, 408981609629719 / 1250000000000,
      33171788719692847 / 100000000000000, 6725223639583969 / 20000000000000, 17040752943539951 / 50000000000000,
      17268970353113343 / 50000000000000, 1399816472163081 / 4000000000000, 35453908551944079 / 100000000000000,
      1795671026847877 / 5000000000000, 36373937555556347 / 100000000000000, 18417724803620237 / 50000000000000,
      18648973444284451 / 50000000000000, 37761419787391867 / 100000000000000, 38225858877306001 / 100000000000000,
      9672813728080439 / 25000000000000, 39157598821732961 / 100000000000000, 7924976341035831 / 20000000000000,
      5011636853486447 / 12500000000000, 4056222961611449 / 10000000000000, 41032277652693733 / 100000000000000,
      10375807668206241 / 25000000000000, 5246885069994309 / 12500000000000, 42447819341825709 / 100000000000000,
      42921439186665157 / 100000000000000, 43395932399501481 / 100000000000000, 43871291418612117 / 100000000000000,
      22173754406045947 / 50000000000000, 44824577274538461 / 100000000000000, 45302489623849613 / 100000000000000,
      5722654849765977 / 12500000000000, 46260817852687489 / 100000000000000, 2337060997858041 / 5000000000000,
      23611219196349029 / 50000000000000, 11926116637314641 / 25000000000000, 12046824480747199 / 25000000000000]"
    by (simp add: logfactorial_def)
  have a0: "\<forall>j<(0::nat). ?Q j" by simp
  have "logfactorial ! 0 = 0" unfolding tab by simp
  then have q: "?Q 0" using ln_fact_0 unfolding eps by simp
  have a1: "\<forall>j<(1::nat). ?Q j" by (rule step [OF a0 q]) simp
  have "logfactorial ! 1 = 0" unfolding tab by simp
  then have q: "?Q 1" using ln_fact_1 unfolding eps by simp
  have a2: "\<forall>j<(2::nat). ?Q j" by (rule step [OF a1 q]) simp
  have "logfactorial ! 2 = 69314718055994529 / 100000000000000000" unfolding tab by simp
  then have q: "?Q 2" using ln_fact_2 unfolding eps by simp
  have a3: "\<forall>j<(3::nat). ?Q j" by (rule step [OF a2 q]) simp
  have "logfactorial ! 3 = 358351893845611 / 200000000000000" unfolding tab by simp
  then have q: "?Q 3" using ln_fact_3 unfolding eps by simp
  have a4: "\<forall>j<(4::nat). ?Q j" by (rule step [OF a3 q]) simp
  have "logfactorial ! 4 = 15890269151739729 / 5000000000000000" unfolding tab by simp
  then have q: "?Q 4" using ln_fact_4 unfolding eps by simp
  have a5: "\<forall>j<(5::nat). ?Q j" by (rule step [OF a4 q]) simp
  have "logfactorial ! 5 = 23937458713910229 / 5000000000000000" unfolding tab by simp
  then have q: "?Q 5" using ln_fact_5 unfolding eps by simp
  have a6: "\<forall>j<(6::nat). ?Q j" by (rule step [OF a5 q]) simp
  have "logfactorial ! 6 = 16448128030025253 / 2500000000000000" unfolding tab by simp
  then have q: "?Q 6" using ln_fact_6 unfolding eps by simp
  have a7: "\<forall>j<(7::nat). ?Q j" by (rule step [OF a6 q]) simp
  have "logfactorial ! 7 = 85251613610654147 / 10000000000000000" unfolding tab by simp
  then have q: "?Q 7" using ln_fact_7 unfolding eps by simp
  have a8: "\<forall>j<(8::nat). ?Q j" by (rule step [OF a7 q]) simp
  have "logfactorial ! 8 = 10604602902745251 / 1000000000000000" unfolding tab by simp
  then have q: "?Q 8" using ln_fact_8 unfolding eps by simp
  have a9: "\<forall>j<(9::nat). ?Q j" by (rule step [OF a8 q]) simp
  have "logfactorial ! 9 = 12801827480081469 / 1000000000000000" unfolding tab by simp
  then have q: "?Q 9" using ln_fact_9 unfolding eps by simp
  have a10: "\<forall>j<(10::nat). ?Q j" by (rule step [OF a9 q]) simp
  have "logfactorial ! 10 = 3776103143268879 / 250000000000000" unfolding tab by simp
  then have q: "?Q 10" using ln_fact_10 unfolding eps by simp
  have a11: "\<forall>j<(11::nat). ?Q j" by (rule step [OF a10 q]) simp
  have "logfactorial ! 11 = 17502307845873887 / 1000000000000000" unfolding tab by simp
  then have q: "?Q 11" using ln_fact_11 unfolding eps by simp
  have a12: "\<forall>j<(12::nat). ?Q j" by (rule step [OF a11 q]) simp
  have "logfactorial ! 12 = 3997442899132377 / 200000000000000" unfolding tab by simp
  then have q: "?Q 12" using ln_fact_12 unfolding eps by simp
  have a13: "\<forall>j<(13::nat). ?Q j" by (rule step [OF a12 q]) simp
  have "logfactorial ! 13 = 902086554124937 / 40000000000000" unfolding tab by simp
  then have q: "?Q 13" using ln_fact_13 unfolding eps by simp
  have a14: "\<forall>j<(14::nat). ?Q j" by (rule step [OF a13 q]) simp
  have "logfactorial ! 14 = 629780529568467 / 25000000000000" unfolding tab by simp
  then have q: "?Q 14" using ln_fact_14 unfolding eps by simp
  have a15: "\<forall>j<(15::nat). ?Q j" by (rule step [OF a14 q]) simp
  have "logfactorial ! 15 = 2789927138384089 / 100000000000000" unfolding tab by simp
  then have q: "?Q 15" using ln_fact_15 unfolding eps by simp
  have a16: "\<forall>j<(16::nat). ?Q j" by (rule step [OF a15 q]) simp
  have "logfactorial ! 16 = 958495628315021 / 31250000000000" unfolding tab by simp
  then have q: "?Q 16" using ln_fact_16 unfolding eps by simp
  have a17: "\<forall>j<(17::nat). ?Q j" by (rule step [OF a16 q]) simp
  have "logfactorial ! 17 = 33505073450136891 / 1000000000000000" unfolding tab by simp
  then have q: "?Q 17" using ln_fact_17 unfolding eps by simp
  have a18: "\<forall>j<(18::nat). ?Q j" by (rule step [OF a17 q]) simp
  have "logfactorial ! 18 = 36395445208033053 / 1000000000000000" unfolding tab by simp
  then have q: "?Q 18" using ln_fact_18 unfolding eps by simp
  have a19: "\<forall>j<(19::nat). ?Q j" by (rule step [OF a18 q]) simp
  have "logfactorial ! 19 = 7867976837439899 / 200000000000000" unfolding tab by simp
  then have q: "?Q 19" using ln_fact_19 unfolding eps by simp
  have a20: "\<forall>j<(20::nat). ?Q j" by (rule step [OF a19 q]) simp
  have "logfactorial ! 20 = 8467123292150697 / 200000000000000" unfolding tab by simp
  then have q: "?Q 20" using ln_fact_20 unfolding eps by simp
  have a21: "\<forall>j<(21::nat). ?Q j" by (rule step [OF a20 q]) simp
  have "logfactorial ! 21 = 11345034724619227 / 250000000000000" unfolding tab by simp
  then have q: "?Q 21" using ln_fact_21 unfolding eps by simp
  have a22: "\<forall>j<(22::nat). ?Q j" by (rule step [OF a21 q]) simp
  have "logfactorial ! 22 = 48471181351835227 / 1000000000000000" unfolding tab by simp
  then have q: "?Q 22" using ln_fact_22 unfolding eps by simp
  have a23: "\<forall>j<(23::nat). ?Q j" by (rule step [OF a22 q]) simp
  have "logfactorial ! 23 = 51606675567764377 / 1000000000000000" unfolding tab by simp
  then have q: "?Q 23" using ln_fact_23 unfolding eps by simp
  have a24: "\<forall>j<(24::nat). ?Q j" by (rule step [OF a23 q]) simp
  have "logfactorial ! 24 = 54784729398112319 / 1000000000000000" unfolding tab by simp
  then have q: "?Q 24" using ln_fact_24 unfolding eps by simp
  have a25: "\<forall>j<(25::nat). ?Q j" by (rule step [OF a24 q]) simp
  have "logfactorial ! 25 = 29001802611490259 / 500000000000000" unfolding tab by simp
  then have q: "?Q 25" using ln_fact_25 unfolding eps by simp
  have a26: "\<forall>j<(26::nat). ?Q j" by (rule step [OF a25 q]) simp
  have "logfactorial ! 26 = 61261701761002001 / 1000000000000000" unfolding tab by simp
  then have q: "?Q 26" using ln_fact_26 unfolding eps by simp
  have a27: "\<forall>j<(27::nat). ?Q j" by (rule step [OF a26 q]) simp
  have "logfactorial ! 27 = 32278769313503169 / 500000000000000" unfolding tab by simp
  then have q: "?Q 27" using ln_fact_27 unfolding eps by simp
  have a28: "\<forall>j<(28::nat). ?Q j" by (rule step [OF a27 q]) simp
  have "logfactorial ! 28 = 3394487156859077 / 50000000000000" unfolding tab by simp
  then have q: "?Q 28" using ln_fact_28 unfolding eps by simp
  have a29: "\<forall>j<(29::nat). ?Q j" by (rule step [OF a28 q]) simp
  have "logfactorial ! 29 = 14251407793433603 / 200000000000000" unfolding tab by simp
  then have q: "?Q 29" using ln_fact_29 unfolding eps by simp
  have a30: "\<forall>j<(30::nat). ?Q j" by (rule step [OF a29 q]) simp
  have "logfactorial ! 30 = 37329118174415079 / 500000000000000" unfolding tab by simp
  then have q: "?Q 30" using ln_fact_30 unfolding eps by simp
  have a31: "\<forall>j<(31::nat). ?Q j" by (rule step [OF a30 q]) simp
  have "logfactorial ! 31 = 78092223553315307 / 1000000000000000" unfolding tab by simp
  then have q: "?Q 31" using ln_fact_31 unfolding eps by simp
  have a32: "\<forall>j<(32::nat). ?Q j" by (rule step [OF a31 q]) simp
  have "logfactorial ! 32 = 81557959456115043 / 1000000000000000" unfolding tab by simp
  then have q: "?Q 32" using ln_fact_32 unfolding eps by simp
  have a33: "\<forall>j<(33::nat). ?Q j" by (rule step [OF a32 q]) simp
  have "logfactorial ! 33 = 21263616754395379 / 250000000000000" unfolding tab by simp
  then have q: "?Q 33" using ln_fact_33 unfolding eps by simp
  have a34: "\<forall>j<(34::nat). ?Q j" by (rule step [OF a33 q]) simp
  have "logfactorial ! 34 = 44290413771098841 / 500000000000000" unfolding tab by simp
  then have q: "?Q 34" using ln_fact_34 unfolding eps by simp
  have a35: "\<forall>j<(35::nat). ?Q j" by (rule step [OF a34 q]) simp
  have "logfactorial ! 35 = 92136175603687093 / 1000000000000000" unfolding tab by simp
  then have q: "?Q 35" using ln_fact_35 unfolding eps by simp
  have a36: "\<forall>j<(36::nat). ?Q j" by (rule step [OF a35 q]) simp
  have "logfactorial ! 36 = 47859847271071601 / 500000000000000" unfolding tab by simp
  then have q: "?Q 36" using ln_fact_36 unfolding eps by simp
  have a37: "\<forall>j<(37::nat). ?Q j" by (rule step [OF a36 q]) simp
  have "logfactorial ! 37 = 24832653113696857 / 250000000000000" unfolding tab by simp
  then have q: "?Q 37" using ln_fact_37 unfolding eps by simp
  have a38: "\<forall>j<(38::nat). ?Q j" by (rule step [OF a37 q]) simp
  have "logfactorial ! 38 = 10296819861451381 / 100000000000000" unfolding tab by simp
  then have q: "?Q 38" using ln_fact_38 unfolding eps by simp
  have a39: "\<forall>j<(39::nat). ?Q j" by (rule step [OF a38 q]) simp
  have "logfactorial ! 39 = 5331588013032173 / 50000000000000" unfolding tab by simp
  then have q: "?Q 39" using ln_fact_39 unfolding eps by simp
  have a40: "\<forall>j<(40::nat). ?Q j" by (rule step [OF a39 q]) simp
  have "logfactorial ! 40 = 11032063971475739 / 100000000000000" unfolding tab by simp
  then have q: "?Q 40" using ln_fact_40 unfolding eps by simp
  have a41: "\<forall>j<(41::nat). ?Q j" by (rule step [OF a40 q]) simp
  have "logfactorial ! 41 = 11403421178146171 / 100000000000000" unfolding tab by simp
  then have q: "?Q 41" using ln_fact_41 unfolding eps by simp
  have a42: "\<forall>j<(42::nat). ?Q j" by (rule step [OF a41 q]) simp
  have "logfactorial ! 42 = 11777188139974507 / 100000000000000" unfolding tab by simp
  then have q: "?Q 42" using ln_fact_42 unfolding eps by simp
  have a43: "\<forall>j<(43::nat). ?Q j" by (rule step [OF a42 q]) simp
  have "logfactorial ! 43 = 1519163518942983 / 12500000000000" unfolding tab by simp
  then have q: "?Q 43" using ln_fact_43 unfolding eps by simp
  have a44: "\<forall>j<(44::nat). ?Q j" by (rule step [OF a43 q]) simp
  have "logfactorial ! 44 = 1253172711493569 / 10000000000000" unfolding tab by simp
  then have q: "?Q 44" using ln_fact_44 unfolding eps by simp
  have a45: "\<forall>j<(45::nat). ?Q j" by (rule step [OF a44 q]) simp
  have "logfactorial ! 45 = 6456196681956361 / 50000000000000" unfolding tab by simp
  then have q: "?Q 45" using ln_fact_45 unfolding eps by simp
  have a46: "\<forall>j<(46::nat). ?Q j" by (rule step [OF a45 q]) simp
  have "logfactorial ! 46 = 415476796986301 / 3125000000000" unfolding tab by simp
  then have q: "?Q 46" using ln_fact_46 unfolding eps by simp
  have a47: "\<forall>j<(47::nat). ?Q j" by (rule step [OF a46 q]) simp
  have "logfactorial ! 47 = 2736054452746527 / 20000000000000" unfolding tab by simp
  then have q: "?Q 47" using ln_fact_47 unfolding eps by simp
  have a48: "\<forall>j<(48::nat). ?Q j" by (rule step [OF a47 q]) simp
  have "logfactorial ! 48 = 562695694592937 / 4000000000000" unfolding tab by simp
  then have q: "?Q 48" using ln_fact_48 unfolding eps by simp
  have a49: "\<forall>j<(49::nat). ?Q j" by (rule step [OF a48 q]) simp
  have "logfactorial ! 49 = 1445657439463449 / 10000000000000" unfolding tab by simp
  then have q: "?Q 49" using ln_fact_49 unfolding eps by simp
  have a50: "\<forall>j<(50::nat). ?Q j" by (rule step [OF a49 q]) simp
  have "logfactorial ! 50 = 7423888347588651 / 50000000000000" unfolding tab by simp
  then have q: "?Q 50" using ln_fact_50 unfolding eps by simp
  have a51: "\<forall>j<(51::nat). ?Q j" by (rule step [OF a50 q]) simp
  have "logfactorial ! 51 = 3048191851689947 / 20000000000000" unfolding tab by simp
  then have q: "?Q 51" using ln_fact_51 unfolding eps by simp
  have a52: "\<forall>j<(52::nat). ?Q j" by (rule step [OF a51 q]) simp
  have "logfactorial ! 52 = 390902090757697 / 2500000000000" unfolding tab by simp
  then have q: "?Q 52" using ln_fact_52 unfolding eps by simp
  have a53: "\<forall>j<(53::nat). ?Q j" by (rule step [OF a52 q]) simp
  have "logfactorial ! 53 = 1603311282166309 / 10000000000000" unfolding tab by simp
  then have q: "?Q 53" using ln_fact_53 unfolding eps by simp
  have a54: "\<forall>j<(54::nat). ?Q j" by (rule step [OF a53 q]) simp
  have "logfactorial ! 54 = 16432011226319517 / 100000000000000" unfolding tab by simp
  then have q: "?Q 54" using ln_fact_54 unfolding eps by simp
  have a55: "\<forall>j<(55::nat). ?Q j" by (rule step [OF a54 q]) simp
  have "logfactorial ! 55 = 3366548908968553 / 20000000000000" unfolding tab by simp
  then have q: "?Q 55" using ln_fact_55 unfolding eps by simp
  have a56: "\<forall>j<(56::nat). ?Q j" by (rule step [OF a55 q]) simp
  have "logfactorial ! 56 = 17235279713916279 / 100000000000000" unfolding tab by simp
  then have q: "?Q 56" using ln_fact_56 unfolding eps by simp
  have a57: "\<forall>j<(57::nat). ?Q j" by (rule step [OF a56 q]) simp
  have "logfactorial ! 57 = 3527916968139947 / 20000000000000" unfolding tab by simp
  then have q: "?Q 57" using ln_fact_57 unfolding eps by simp
  have a58: "\<forall>j<(58::nat). ?Q j" by (rule step [OF a57 q]) simp
  have "logfactorial ! 58 = 9022814570877189 / 50000000000000" unfolding tab by simp
  then have q: "?Q 58" using ln_fact_58 unfolding eps by simp
  have a59: "\<forall>j<(59::nat). ?Q j" by (rule step [OF a58 q]) simp
  have "logfactorial ! 59 = 4613345721536237 / 25000000000000" unfolding tab by simp
  then have q: "?Q 59" using ln_fact_59 unfolding eps by simp
  have a60: "\<forall>j<(60::nat). ?Q j" by (rule step [OF a59 q]) simp
  have "logfactorial ! 60 = 471570433559179 / 2500000000000" unfolding tab by simp
  then have q: "?Q 60" using ln_fact_60 unfolding eps by simp
  have a61: "\<forall>j<(61::nat). ?Q j" by (rule step [OF a60 q]) simp
  have "logfactorial ! 61 = 1927390472878449 / 10000000000000" unfolding tab by simp
  then have q: "?Q 61" using ln_fact_61 unfolding eps by simp
  have a62: "\<forall>j<(62::nat). ?Q j" by (rule step [OF a61 q]) simp
  have "logfactorial ! 62 = 19686618167289001 / 100000000000000" unfolding tab by simp
  then have q: "?Q 62" using ln_fact_62 unfolding eps by simp
  have a63: "\<forall>j<(63::nat). ?Q j" by (rule step [OF a62 q]) simp
  have "logfactorial ! 63 = 2512616454991019 / 12500000000000" unfolding tab by simp
  then have q: "?Q 63" using ln_fact_63 unfolding eps by simp
  have a64: "\<forall>j<(64::nat). ?Q j" by (rule step [OF a63 q]) simp
  have "logfactorial ! 64 = 512920498706603 / 2500000000000" unfolding tab by simp
  then have q: "?Q 64" using ln_fact_64 unfolding eps by simp
  have a65: "\<forall>j<(65::nat). ?Q j" by (rule step [OF a64 q]) simp
  have "logfactorial ! 65 = 4186851735050737 / 20000000000000" unfolding tab by simp
  then have q: "?Q 65" using ln_fact_65 unfolding eps by simp
  have a66: "\<forall>j<(66::nat). ?Q j" by (rule step [OF a65 q]) simp
  have "logfactorial ! 66 = 21353224149456327 / 100000000000000" unfolding tab by simp
  then have q: "?Q 66" using ln_fact_66 unfolding eps by simp
  have a67: "\<forall>j<(67::nat). ?Q j" by (rule step [OF a66 q]) simp
  have "logfactorial ! 67 = 10886846705697711 / 50000000000000" unfolding tab by simp
  then have q: "?Q 67" using ln_fact_67 unfolding eps by simp
  have a68: "\<forall>j<(68::nat). ?Q j" by (rule step [OF a67 q]) simp
  have "logfactorial ! 68 = 22195644181913033 / 100000000000000" unfolding tab by simp
  then have q: "?Q 68" using ln_fact_68 unfolding eps by simp
  have a69: "\<forall>j<(69::nat). ?Q j" by (rule step [OF a68 q]) simp
  have "logfactorial ! 69 = 565476370809319 / 2500000000000" unfolding tab by simp
  then have q: "?Q 69" using ln_fact_69 unfolding eps by simp
  have a70: "\<forall>j<(70::nat). ?Q j" by (rule step [OF a69 q]) simp
  have "logfactorial ! 70 = 720122011143053 / 3125000000000" unfolding tab by simp
  then have q: "?Q 70" using ln_fact_70 unfolding eps by simp
  have a71: "\<forall>j<(71::nat). ?Q j" by (rule step [OF a70 q]) simp
  have "logfactorial ! 71 = 11735086172140913 / 50000000000000" unfolding tab by simp
  then have q: "?Q 71" using ln_fact_71 unfolding eps by simp
  have a72: "\<forall>j<(72::nat). ?Q j" by (rule step [OF a71 q]) simp
  have "logfactorial ! 72 = 2987229869522929 / 12500000000000" unfolding tab by simp
  then have q: "?Q 72" using ln_fact_72 unfolding eps by simp
  have a73: "\<forall>j<(73::nat). ?Q j" by (rule step [OF a72 q]) simp
  have "logfactorial ! 73 = 24326884900298271 / 100000000000000" unfolding tab by simp
  then have q: "?Q 73" using ln_fact_73 unfolding eps by simp
  have a74: "\<forall>j<(74::nat). ?Q j" by (rule step [OF a73 q]) simp
  have "logfactorial ! 74 = 96708169568823 / 390625000000" unfolding tab by simp
  then have q: "?Q 74" using ln_fact_74 unfolding eps by simp
  have a75: "\<forall>j<(75::nat). ?Q j" by (rule step [OF a74 q]) simp
  have "logfactorial ! 75 = 25189040220972319 / 100000000000000" unfolding tab by simp
  then have q: "?Q 75" using ln_fact_75 unfolding eps by simp
  have a76: "\<forall>j<(76::nat). ?Q j" by (rule step [OF a75 q]) simp
  have "logfactorial ! 76 = 12811056777500477 / 50000000000000" unfolding tab by simp
  then have q: "?Q 76" using ln_fact_76 unfolding eps by simp
  have a77: "\<forall>j<(77::nat). ?Q j" by (rule step [OF a76 q]) simp
  have "logfactorial ! 77 = 13028247048593161 / 50000000000000" unfolding tab by simp
  then have q: "?Q 77" using ln_fact_77 unfolding eps by simp
  have a78: "\<forall>j<(78::nat). ?Q j" by (rule step [OF a77 q]) simp
  have "logfactorial ! 78 = 13246082489927639 / 50000000000000" unfolding tab by simp
  then have q: "?Q 78" using ln_fact_78 unfolding eps by simp
  have a79: "\<forall>j<(79::nat). ?Q j" by (rule step [OF a78 q]) simp
  have "logfactorial ! 79 = 26929109765101981 / 100000000000000" unfolding tab by simp
  then have q: "?Q 79" using ln_fact_79 unfolding eps by simp
  have a80: "\<forall>j<(80::nat). ?Q j" by (rule step [OF a79 q]) simp
  have "logfactorial ! 80 = 27367312428569369 / 100000000000000" unfolding tab by simp
  then have q: "?Q 80" using ln_fact_80 unfolding eps by simp
  have a81: "\<forall>j<(81::nat). ?Q j" by (rule step [OF a80 q]) simp
  have "logfactorial ! 81 = 6951689336009153 / 25000000000000" unfolding tab by simp
  then have q: "?Q 81" using ln_fact_81 unfolding eps by simp
  have a82: "\<forall>j<(82::nat). ?Q j" by (rule step [OF a81 q]) simp
  have "logfactorial ! 82 = 176546432929769 / 625000000000" unfolding tab by simp
  then have q: "?Q 82" using ln_fact_82 unfolding eps by simp
  have a83: "\<forall>j<(83::nat). ?Q j" by (rule step [OF a82 q]) simp
  have "logfactorial ! 83 = 28689313329542699 / 100000000000000" unfolding tab by simp
  then have q: "?Q 83" using ln_fact_83 unfolding eps by simp
  have a84: "\<forall>j<(84::nat). ?Q j" by (rule step [OF a83 q]) simp
  have "logfactorial ! 84 = 29132395009427029 / 100000000000000" unfolding tab by simp
  then have q: "?Q 84" using ln_fact_84 unfolding eps by simp
  have a85: "\<forall>j<(85::nat). ?Q j" by (rule step [OF a84 q]) simp
  have "logfactorial ! 85 = 5915332027015213 / 20000000000000" unfolding tab by simp
  then have q: "?Q 85" using ln_fact_85 unfolding eps by simp
  have a86: "\<forall>j<(86::nat). ?Q j" by (rule step [OF a85 q]) simp
  have "logfactorial ! 86 = 6004418972940283 / 20000000000000" unfolding tab by simp
  then have q: "?Q 86" using ln_fact_86 unfolding eps by simp
  have a87: "\<forall>j<(87::nat). ?Q j" by (rule step [OF a86 q]) simp
  have "logfactorial ! 87 = 3808585709570859 / 12500000000000" unfolding tab by simp
  then have q: "?Q 87" using ln_fact_87 unfolding eps by simp
  have a88: "\<forall>j<(88::nat). ?Q j" by (rule step [OF a87 q]) simp
  have "logfactorial ! 88 = 3091641935801469 / 10000000000000" unfolding tab by simp
  then have q: "?Q 88" using ln_fact_88 unfolding eps by simp
  have a89: "\<forall>j<(89::nat). ?Q j" by (rule step [OF a88 q]) simp
  have "logfactorial ! 89 = 6273056598997581 / 20000000000000" unfolding tab by simp
  then have q: "?Q 89" using ln_fact_89 unfolding eps by simp
  have a90: "\<forall>j<(90::nat). ?Q j" by (rule step [OF a89 q]) simp
  have "logfactorial ! 90 = 3181526396202093 / 10000000000000" unfolding tab by simp
  then have q: "?Q 90" using ln_fact_90 unfolding eps by simp
  have a91: "\<forall>j<(91::nat). ?Q j" by (rule step [OF a90 q]) simp
  have "logfactorial ! 91 = 6453269982534523 / 20000000000000" unfolding tab by simp
  then have q: "?Q 91" using ln_fact_91 unfolding eps by simp
  have a92: "\<forall>j<(92::nat). ?Q j" by (rule step [OF a91 q]) simp
  have "logfactorial ! 92 = 408981609629719 / 1250000000000" unfolding tab by simp
  then have q: "?Q 92" using ln_fact_92 unfolding eps by simp
  have a93: "\<forall>j<(93::nat). ?Q j" by (rule step [OF a92 q]) simp
  have "logfactorial ! 93 = 33171788719692847 / 100000000000000" unfolding tab by simp
  then have q: "?Q 93" using ln_fact_93 unfolding eps by simp
  have a94: "\<forall>j<(94::nat). ?Q j" by (rule step [OF a93 q]) simp
  have "logfactorial ! 94 = 6725223639583969 / 20000000000000" unfolding tab by simp
  then have q: "?Q 94" using ln_fact_94 unfolding eps by simp
  have a95: "\<forall>j<(95::nat). ?Q j" by (rule step [OF a94 q]) simp
  have "logfactorial ! 95 = 17040752943539951 / 50000000000000" unfolding tab by simp
  then have q: "?Q 95" using ln_fact_95 unfolding eps by simp
  have a96: "\<forall>j<(96::nat). ?Q j" by (rule step [OF a95 q]) simp
  have "logfactorial ! 96 = 17268970353113343 / 50000000000000" unfolding tab by simp
  then have q: "?Q 96" using ln_fact_96 unfolding eps by simp
  have a97: "\<forall>j<(97::nat). ?Q j" by (rule step [OF a96 q]) simp
  have "logfactorial ! 97 = 1399816472163081 / 4000000000000" unfolding tab by simp
  then have q: "?Q 97" using ln_fact_97 unfolding eps by simp
  have a98: "\<forall>j<(98::nat). ?Q j" by (rule step [OF a97 q]) simp
  have "logfactorial ! 98 = 35453908551944079 / 100000000000000" unfolding tab by simp
  then have q: "?Q 98" using ln_fact_98 unfolding eps by simp
  have a99: "\<forall>j<(99::nat). ?Q j" by (rule step [OF a98 q]) simp
  have "logfactorial ! 99 = 1795671026847877 / 5000000000000" unfolding tab by simp
  then have q: "?Q 99" using ln_fact_99 unfolding eps by simp
  have a100: "\<forall>j<(100::nat). ?Q j" by (rule step [OF a99 q]) simp
  have "logfactorial ! 100 = 36373937555556347 / 100000000000000" unfolding tab by simp
  then have q: "?Q 100" using ln_fact_100 unfolding eps by simp
  have a101: "\<forall>j<(101::nat). ?Q j" by (rule step [OF a100 q]) simp
  have "logfactorial ! 101 = 18417724803620237 / 50000000000000" unfolding tab by simp
  then have q: "?Q 101" using ln_fact_101 unfolding eps by simp
  have a102: "\<forall>j<(102::nat). ?Q j" by (rule step [OF a101 q]) simp
  have "logfactorial ! 102 = 18648973444284451 / 50000000000000" unfolding tab by simp
  then have q: "?Q 102" using ln_fact_102 unfolding eps by simp
  have a103: "\<forall>j<(103::nat). ?Q j" by (rule step [OF a102 q]) simp
  have "logfactorial ! 103 = 37761419787391867 / 100000000000000" unfolding tab by simp
  then have q: "?Q 103" using ln_fact_103 unfolding eps by simp
  have a104: "\<forall>j<(104::nat). ?Q j" by (rule step [OF a103 q]) simp
  have "logfactorial ! 104 = 38225858877306001 / 100000000000000" unfolding tab by simp
  then have q: "?Q 104" using ln_fact_104 unfolding eps by simp
  have a105: "\<forall>j<(105::nat). ?Q j" by (rule step [OF a104 q]) simp
  have "logfactorial ! 105 = 9672813728080439 / 25000000000000" unfolding tab by simp
  then have q: "?Q 105" using ln_fact_105 unfolding eps by simp
  have a106: "\<forall>j<(106::nat). ?Q j" by (rule step [OF a105 q]) simp
  have "logfactorial ! 106 = 39157598821732961 / 100000000000000" unfolding tab by simp
  then have q: "?Q 106" using ln_fact_106 unfolding eps by simp
  have a107: "\<forall>j<(107::nat). ?Q j" by (rule step [OF a106 q]) simp
  have "logfactorial ! 107 = 7924976341035831 / 20000000000000" unfolding tab by simp
  then have q: "?Q 107" using ln_fact_107 unfolding eps by simp
  have a108: "\<forall>j<(108::nat). ?Q j" by (rule step [OF a107 q]) simp
  have "logfactorial ! 108 = 5011636853486447 / 12500000000000" unfolding tab by simp
  then have q: "?Q 108" using ln_fact_108 unfolding eps by simp
  have a109: "\<forall>j<(109::nat). ?Q j" by (rule step [OF a108 q]) simp
  have "logfactorial ! 109 = 4056222961611449 / 10000000000000" unfolding tab by simp
  then have q: "?Q 109" using ln_fact_109 unfolding eps by simp
  have a110: "\<forall>j<(110::nat). ?Q j" by (rule step [OF a109 q]) simp
  have "logfactorial ! 110 = 41032277652693733 / 100000000000000" unfolding tab by simp
  then have q: "?Q 110" using ln_fact_110 unfolding eps by simp
  have a111: "\<forall>j<(111::nat). ?Q j" by (rule step [OF a110 q]) simp
  have "logfactorial ! 111 = 10375807668206241 / 25000000000000" unfolding tab by simp
  then have q: "?Q 111" using ln_fact_111 unfolding eps by simp
  have a112: "\<forall>j<(112::nat). ?Q j" by (rule step [OF a111 q]) simp
  have "logfactorial ! 112 = 5246885069994309 / 12500000000000" unfolding tab by simp
  then have q: "?Q 112" using ln_fact_112 unfolding eps by simp
  have a113: "\<forall>j<(113::nat). ?Q j" by (rule step [OF a112 q]) simp
  have "logfactorial ! 113 = 42447819341825709 / 100000000000000" unfolding tab by simp
  then have q: "?Q 113" using ln_fact_113 unfolding eps by simp
  have a114: "\<forall>j<(114::nat). ?Q j" by (rule step [OF a113 q]) simp
  have "logfactorial ! 114 = 42921439186665157 / 100000000000000" unfolding tab by simp
  then have q: "?Q 114" using ln_fact_114 unfolding eps by simp
  have a115: "\<forall>j<(115::nat). ?Q j" by (rule step [OF a114 q]) simp
  have "logfactorial ! 115 = 43395932399501481 / 100000000000000" unfolding tab by simp
  then have q: "?Q 115" using ln_fact_115 unfolding eps by simp
  have a116: "\<forall>j<(116::nat). ?Q j" by (rule step [OF a115 q]) simp
  have "logfactorial ! 116 = 43871291418612117 / 100000000000000" unfolding tab by simp
  then have q: "?Q 116" using ln_fact_116 unfolding eps by simp
  have a117: "\<forall>j<(117::nat). ?Q j" by (rule step [OF a116 q]) simp
  have "logfactorial ! 117 = 22173754406045947 / 50000000000000" unfolding tab by simp
  then have q: "?Q 117" using ln_fact_117 unfolding eps by simp
  have a118: "\<forall>j<(118::nat). ?Q j" by (rule step [OF a117 q]) simp
  have "logfactorial ! 118 = 44824577274538461 / 100000000000000" unfolding tab by simp
  then have q: "?Q 118" using ln_fact_118 unfolding eps by simp
  have a119: "\<forall>j<(119::nat). ?Q j" by (rule step [OF a118 q]) simp
  have "logfactorial ! 119 = 45302489623849613 / 100000000000000" unfolding tab by simp
  then have q: "?Q 119" using ln_fact_119 unfolding eps by simp
  have a120: "\<forall>j<(120::nat). ?Q j" by (rule step [OF a119 q]) simp
  have "logfactorial ! 120 = 5722654849765977 / 12500000000000" unfolding tab by simp
  then have q: "?Q 120" using ln_fact_120 unfolding eps by simp
  have a121: "\<forall>j<(121::nat). ?Q j" by (rule step [OF a120 q]) simp
  have "logfactorial ! 121 = 46260817852687489 / 100000000000000" unfolding tab by simp
  then have q: "?Q 121" using ln_fact_121 unfolding eps by simp
  have a122: "\<forall>j<(122::nat). ?Q j" by (rule step [OF a121 q]) simp
  have "logfactorial ! 122 = 2337060997858041 / 5000000000000" unfolding tab by simp
  then have q: "?Q 122" using ln_fact_122 unfolding eps by simp
  have a123: "\<forall>j<(123::nat). ?Q j" by (rule step [OF a122 q]) simp
  have "logfactorial ! 123 = 23611219196349029 / 50000000000000" unfolding tab by simp
  then have q: "?Q 123" using ln_fact_123 unfolding eps by simp
  have a124: "\<forall>j<(124::nat). ?Q j" by (rule step [OF a123 q]) simp
  have "logfactorial ! 124 = 11926116637314641 / 25000000000000" unfolding tab by simp
  then have q: "?Q 124" using ln_fact_124 unfolding eps by simp
  have a125: "\<forall>j<(125::nat). ?Q j" by (rule step [OF a124 q]) simp
  have "logfactorial ! 125 = 12046824480747199 / 25000000000000" unfolding tab by simp
  then have q: "?Q 125" using ln_fact_125 unfolding eps by simp
  have a126: "\<forall>j<(126::nat). ?Q j" by (rule step [OF a125 q]) simp
  from a126 assms show ?thesis by blast
qed


text \<open>
  C8. For every integer \<open>k\<close> with \<open>1 \<le> k \<le> 126\<close>, \<open>pgm_lgamma k\<close> is the entry \<open>k - 1\<close>
  of the table \<open>logfactorial\<close>, and that entry equals \<open>ln ((k - 1)!)\<close> to machine
  precision: the relative error is at most \<open>DBL_EPSILON\<close> (the entries for \<open>k = 1\<close> and
  \<open>k = 2\<close> are exactly \<open>0\<close>).
\<close>

theorem lgamma_lookup_log_factorial:
  assumes "1 \<le> k" "k \<le> 126"
  shows "pgm_lgamma (real k) = Some (logfactorial ! (k - 1)) \<and>
    \<bar>logfactorial ! (k - 1) - ln (fact (k - 1))\<bar> \<le> DBL_EPSILON * ln (fact (k - 1))"
  using lgamma_lookup [OF assms] logfactorial_accuracy [of "k - 1"] assms
  by (simp add: ln_fact_def)

theorem lgamma_lookup_log_factorial_witness:
  "(1::nat) \<le> 3 \<and> (3::nat) \<le> 126 \<and> pgm_lgamma 3 = Some 0.69314718055994529 \<and>
   \<bar>0.69314718055994529 - ln 2\<bar> \<le> DBL_EPSILON * ln 2"
  using lgamma_lookup_log_factorial [of 3] by (simp add: logfactorial_def)

subsection \<open>\<open>pgm_gammaq\<close>\<close>

lemma gammaq_int_loop_at_0: "gammaq_int_loop k ss 0 a acc = acc"
  by (induction k ss "0::real" a acc rule: gammaq_int_loop.induct)
     (subst gammaq_int_loop.simps, simp add: Let_def)

lemma gammaq_half_loop_at_0: "gammaq_half_loop k ss 0 a acc = acc"
  by (induction k ss "0::real" a acc rule: gammaq_half_loop.induct)
     (subst gammaq_half_loop.simps, simp add: Let_def)

text \<open>At \<open>x = 0\<close> the integer branch returns 1, and so the claim holds there.\<close>

lemma gammaq_integer_at_0:
  assumes "n < 30"
  shows "pgm_gammaq kf (real n) 0 = Some 1"
proof -
  have "size_t_of_double (real n) = Some n"
    using assms by (intro size_t_of_double_nat) simp
  then show ?thesis
    using assms by (simp add: pgm_gammaq_def gammaq_int_loop_at_0)
qed

text \<open>
  In the half-integer branch the sum is \<open>0\<close> at \<open>x = 0\<close> (\<open>gammaq_half_loop_at_0\<close>) and
  so is \<open>sqrt x\<close>: the source computes \<open>1 + 0.0 / 0.0\<close>, which is NaN, for every
  half-integer \<open>s < 30\<close>.
\<close>

lemma gammaq_half_integer_at_0:
  assumes "n < 30"
  shows "pgm_gammaq kf (real n + 1 / 2) 0 = None"
proof -
  have "size_t_of_double (real n + 1 / 2) = Some n"
    using assms by (intro size_t_of_double_half) simp
  then show ?thesis
    using assms by (simp add: pgm_gammaq_def)
qed

text \<open>
  C2. \<open>pgm_gammaq s 0\<close> is 1 for the integers \<open>s < 30\<close> (\<open>gammaq_integer_at_0\<close>), but
  not for the half-integers: at \<open>s = 0.5\<close>, \<open>x = 0\<close> the source divides \<open>0.0\<close> by
  \<open>sqrt(0.0)\<close> and returns NaN, which is \<open>None\<close> here.
\<close>

theorem gammaq_half_at_0_is_nan: "pgm_gammaq kf (1 / 2) 0 = None"
  using gammaq_half_integer_at_0 [of 0 kf] by simp

section \<open>Properties of the truncated samplers\<close>

subsection \<open>Engines\<close>

lemma const_engine_sel [simp]:
  "uniforms (const_engine u e) = sconst u" "exponentials (const_engine u e) = sconst e"
  by (simp_all add: const_engine_def)

lemma const_engine_step [simp]:
  "(const_engine u e)\<lparr>exponentials := sconst e, uniforms := sconst u\<rparr> = const_engine u e"
  "(const_engine u e)\<lparr>exponentials := sconst e\<rparr> = const_engine u e"
  "(const_engine u e)\<lparr>uniforms := sconst u\<rparr> = const_engine u e"
  by (simp_all add: const_engine_def)

lemma exponentials_positive_shd: "exponentials_positive g \<Longrightarrow> 0 < shd (exponentials g)"
  unfolding exponentials_positive_def by (metis snth.simps(1))

lemma exponentials_positive_step:
  "exponentials_positive g \<Longrightarrow>
   exponentials_positive (g\<lparr>exponentials := stl (exponentials g), uniforms := us\<rparr>)"
  unfolding exponentials_positive_def by (simp add: snth.simps(2) [symmetric] del: snth.simps)

lemma exponentials_positive_stl:
  "exponentials_positive g \<Longrightarrow> exponentials_positive (g\<lparr>exponentials := stl (exponentials g)\<rparr>)"
  unfolding exponentials_positive_def by (simp add: snth.simps(2) [symmetric] del: snth.simps)

lemma exponentials_positive_uniforms:
  "exponentials_positive g \<Longrightarrow> exponentials_positive (g\<lparr>uniforms := us\<rparr>)"
  unfolding exponentials_positive_def by simp

subsection \<open>\<open>random_left_bounded_gamma\<close>: the \<open>a > 1\<close> branch\<close>

text \<open>One round of the rejection loop, read off the source.\<close>

lemma lbg_gt1_unfold:
  assumes "a > 1"
  shows "random_left_bounded_gamma g a b t =
     (let b' = t * b;
          c0 = 0.5 * ((b' - a) + sqrt ((b' - a)\<^sup>2 + 4 * b')) / b';
          x = b' + shd (exponentials g) / c0;
          u = shd (uniforms g);
          g' = g\<lparr>exponentials := stl (exponentials g), uniforms := stl (uniforms g)\<rparr>
      in if ln (1 - u) \<le> (a - 1) * ln x - x * (1 - c0) - ((a - 1) * ln ((a - 1) / (1 - c0)) - (a - 1))
         then Some (t * x / b', g')
         else random_left_bounded_gamma g' a b t)"
proof -
  define b' where "b' = t * b"
  define c0 where "c0 = 0.5 * ((b' - a) + sqrt ((b' - a) * (b' - a) + 4 * b')) / b'"
  define g' where "g' = g\<lparr>exponentials := stl (exponentials g), uniforms := stl (uniforms g)\<rparr>"
  define x where "x = b' + shd (exponentials g) / c0"
  have loop: "lbg_loop_gt1 g (a - 1) b' c0 (1 - c0) =
      (if ln (1 - shd (uniforms g)) > (a - 1) * ln x - x * (1 - c0) - ((a - 1) * ln ((a - 1) / (1 - c0)) - (a - 1))
       then lbg_loop_gt1 g' (a - 1) b' c0 (1 - c0) else Some (x, g'))"
    by (subst lbg_loop_gt1.simps)
       (simp add: random_standard_exponential_def random_standard_uniform_def next_double_def
          Let_def x_def g'_def)
  have L: "random_left_bounded_gamma g a b t =
      map_option (\<lambda>(x, g'). (t * (x / b'), g')) (lbg_loop_gt1 g (a - 1) b' c0 (1 - c0))"
    using assms by (simp add: random_left_bounded_gamma_def Let_def b'_def c0_def)
  have R: "random_left_bounded_gamma g' a b t =
      map_option (\<lambda>(x, g'). (t * (x / b'), g')) (lbg_loop_gt1 g' (a - 1) b' c0 (1 - c0))"
    using assms by (simp add: random_left_bounded_gamma_def Let_def b'_def c0_def)
  show ?thesis
    unfolding Let_def power2_eq_square b'_def [symmetric] c0_def [symmetric]
      x_def [symmetric] g'_def [symmetric] R
    unfolding L loop
    by (simp add: not_less)
qed

lemma sqrt_9: "sqrt 9 = 3"
  by (rule real_sqrt_unique) simp_all

lemma ln_4: "ln (4::real) = 2 * ln 2"
  using ln_realpow [of "2::real" 2] by simp

lemma ln_half: "ln (1 / 2 :: real) = - ln 2"
  by (simp add: ln_div)

lemma ln_2_le_1: "ln (2::real) \<le> 1"
  using ln_add_one_self_le_self [of "1::real"] by simp

lemma lbg_gt1_run_e1:
  assumes "shd (exponentials g) = 1" "shd (uniforms g) = 0 \<or> shd (uniforms g) = 1 / 2"
  shows "random_left_bounded_gamma g 3 2 1 =
     Some (2, g\<lparr>exponentials := stl (exponentials g), uniforms := stl (uniforms g)\<rparr>)"
proof -
  have "ln (1 - shd (uniforms g)) \<le> 0"
    using assms(2) by (auto simp: ln_half)
  then show ?thesis
    by (subst lbg_gt1_unfold) (simp_all add: Let_def sqrt_9 assms(1))
qed

lemma lbg_gt1_run_e0:
  assumes "shd (exponentials g) = 0" "shd (uniforms g) = 1 / 2"
  shows "random_left_bounded_gamma g 3 2 1 =
     Some (1, g\<lparr>exponentials := stl (exponentials g), uniforms := stl (uniforms g)\<rparr>)"
  using ln_2_le_1
  by (subst lbg_gt1_unfold) (simp_all add: Let_def sqrt_9 assms ln_4 ln_half)

text \<open>
  C1, as amended. For \<open>a > 1\<close>, \<open>b > 0\<close>, \<open>t > 0\<close> the sampler rescales the rate to
  \<open>b' = t * b\<close>, takes the envelope rate
  \<open>c0 = 0.5 * ((b' - a) + sqrt ((b' - a)^2 + 4 * b')) / b'\<close> (with \<open>b' - a\<close>, not
  \<open>b' - a + 1\<close>), proposes \<open>x = b' + Exp / c0\<close>, accepts exactly when
  \<open>log (1 - U) \<le> (a - 1) * log x - x * (1 - c0) - ((a - 1) * log ((a - 1) / (1 - c0)) - (a - 1))\<close>,
  returns \<open>t * x / b'\<close> on acceptance, and otherwise repeats with the next draws.
\<close>

theorem lbg_gt1_algorithm:
  assumes "a > 1" "b > 0" "t > 0"
  shows "random_left_bounded_gamma g a b t =
     (let b' = t * b;
          c0 = 0.5 * ((b' - a) + sqrt ((b' - a)\<^sup>2 + 4 * b')) / b';
          x = b' + shd (exponentials g) / c0;
          u = shd (uniforms g);
          g' = g\<lparr>exponentials := stl (exponentials g), uniforms := stl (uniforms g)\<rparr>
      in if ln (1 - u) \<le> (a - 1) * ln x - x * (1 - c0) - ((a - 1) * ln ((a - 1) / (1 - c0)) - (a - 1))
         then Some (t * x / b', g')
         else random_left_bounded_gamma g' a b t)"
  using assms(1) by (rule lbg_gt1_unfold)

theorem lbg_gt1_algorithm_witness:
  "(3::real) > 1 \<and> (2::real) > 0 \<and> (1::real) > 0 \<and>
   random_left_bounded_gamma (const_engine 0 1) 3 2 1 = Some (2, const_engine 0 1)"
  using lbg_gt1_algorithm [of 3 2 1 "const_engine 0 1"]
  by (simp add: Let_def sqrt_9)

text \<open>
  C1 as stated fails. With \<open>a = 3\<close>, \<open>b = 2\<close>, \<open>t = 1\<close>, the exponential draws
  \<open>1, 0, 0, \<dots>\<close> and the uniform draws all \<open>1/2\<close>, the source has \<open>c0 = 1/2\<close>, proposes
  \<open>x = 4\<close>, accepts and returns \<open>2\<close>. The claimed rate is \<open>sqrt 8 / 4\<close>: the claimed
  round returns \<open>1 + 2 / sqrt 8\<close> if it accepts, and if it rejects the next round
  (exponential draw \<open>0\<close>) returns \<open>1\<close>; neither is \<open>2\<close>.
\<close>

theorem lbg_gt1_claimed_c0_counterexample:
  "random_left_bounded_gamma ((const_engine (1 / 2) 0)\<lparr>exponentials := 1 ## sconst 0\<rparr>) 3 2 1
   \<noteq> lbg_gt1_round_claimed ((const_engine (1 / 2) 0)\<lparr>exponentials := 1 ## sconst 0\<rparr>) 3 2 1"
proof -
  let ?g = "(const_engine (1 / 2) 0)\<lparr>exponentials := 1 ## sconst 0\<rparr>"
  have code: "random_left_bounded_gamma ?g 3 2 1 = Some (2, const_engine (1 / 2) 0)"
    by (subst lbg_gt1_run_e1) simp_all
  have retry: "random_left_bounded_gamma (const_engine (1 / 2) 0) 3 2 1
      = Some (1, const_engine (1 / 2) 0)"
    by (subst lbg_gt1_run_e0) simp_all
  have "sqrt 8 \<noteq> 2"
  proof
    assume "sqrt 8 = 2"
    then have "(sqrt 8)\<^sup>2 = 2\<^sup>2" by simp
    then show False by simp
  qed
  then have differs: "(2 + 1 / (sqrt 8 / 4)) / 2 \<noteq> 2"
    by (simp add: field_simps)
  show ?thesis
    unfolding code lbg_gt1_round_claimed_def using differs by (simp add: Let_def retry)
qed

subsection \<open>\<open>random_left_bounded_gamma\<close>: the lower bound \<open>t\<close>\<close>

lemma lbg_eq1_run:
  "random_left_bounded_gamma g 1 b t =
     Some (t + shd (exponentials g) / b, g\<lparr>exponentials := stl (exponentials g)\<rparr>)"
  by (simp add: random_left_bounded_gamma_def random_standard_exponential_def)

lemma lbg_lt1_run_e0:
  assumes "a < 1" "shd (exponentials g) = 0" "shd (uniforms g) = 1 / 2"
  shows "random_left_bounded_gamma g a b t =
     Some (t, g\<lparr>exponentials := stl (exponentials g), uniforms := stl (uniforms g)\<rparr>)"
proof -
  have "lbg_loop_lt1 g a b t =
      Some (1, g\<lparr>exponentials := stl (exponentials g), uniforms := stl (uniforms g)\<rparr>)"
    by (subst lbg_loop_lt1.simps)
       (simp add: random_standard_exponential_def random_standard_uniform_def next_double_def
          Let_def assms ln_half)
  then show ?thesis
    using assms(1) by (simp add: random_left_bounded_gamma_def)
qed

text \<open>
  C5. The source documents the sampler as truncated to \<open>{x | x > t}\<close>, but an
  exponential draw of \<open>0\<close> makes every branch return \<open>t\<close> itself. With \<open>b = 2\<close>,
  \<open>t = 1\<close>, first exponential draw \<open>0\<close> and uniform draw \<open>1/2\<close>: for \<open>a = 3\<close> the
  proposal is \<open>x = b'\<close> and is accepted, so \<open>t * (x / b') = t\<close>; for \<open>a = 1\<close> the result
  is \<open>t + 0 / b\<close>; for \<open>a = 1/2\<close> the proposal is \<open>x = 1\<close> and is accepted, so
  \<open>t * x = t\<close>.
\<close>

theorem lbg_zero_draw_returns_t:
  "random_left_bounded_gamma ((const_engine (1 / 2) 1)\<lparr>exponentials := 0 ## sconst 1\<rparr>) 3 2 1
     = Some (1, const_engine (1 / 2) 1)
   \<and> random_left_bounded_gamma ((const_engine (1 / 2) 1)\<lparr>exponentials := 0 ## sconst 1\<rparr>) 1 2 1
     = Some (1, const_engine (1 / 2) 1)
   \<and> random_left_bounded_gamma ((const_engine (1 / 2) 1)\<lparr>exponentials := 0 ## sconst 1\<rparr>) (1 / 2) 2 1
     = Some (1, const_engine (1 / 2) 1)"
proof -
  let ?g = "(const_engine (1 / 2) 1)\<lparr>exponentials := 0 ## sconst 1\<rparr>"
  have first: "shd (exponentials ?g) = 0" and unif: "shd (uniforms ?g) = 1 / 2"
    by simp_all
  have gt1: "random_left_bounded_gamma ?g 3 2 1 = Some (1, const_engine (1 / 2) 1)"
    using lbg_gt1_run_e0 [OF first unif] by (simp add: const_engine_def)
  have eq1: "random_left_bounded_gamma ?g 1 2 1 = Some (1, const_engine (1 / 2) 1)"
    using lbg_eq1_run [of ?g 2 1] by (simp add: const_engine_def)
  have "(1 / 2 :: real) < 1" by simp
  from lbg_lt1_run_e0 [OF this first unif]
  have lt1: "random_left_bounded_gamma ?g (1 / 2) 2 1 = Some (1, const_engine (1 / 2) 1)"
    by (simp add: const_engine_def)
  from gt1 eq1 lt1 show ?thesis by blast
qed

text \<open>
  What does hold: when no exponential draw is \<open>0\<close>, every value the sampler returns is
  strictly above \<open>t\<close>, in all three branches (in exact arithmetic).
\<close>

lemma lbg_c0_pos:
  fixes a b :: real
  assumes "0 < b"
  shows "0 < 0.5 * ((b - a) + sqrt ((b - a) * (b - a) + 4 * b)) / b"
proof -
  have "\<bar>b - a\<bar> < sqrt ((b - a) * (b - a) + 4 * b)"
    by (rule real_less_rsqrt) (use assms in \<open>simp add: power2_eq_square\<close>)
  then have "0 < (b - a) + sqrt ((b - a) * (b - a) + 4 * b)" by linarith
  then show ?thesis using assms by simp
qed

lemma lbg_loop_gt1_above:
  assumes "lbg_loop_gt1 g am1 b c0 omc = Some r" "exponentials_positive g" "0 < c0"
  shows "b < fst r"
proof -
  have "exponentials_positive g \<longrightarrow> 0 < c0 \<longrightarrow> b < fst r"
  proof (rule lbg_loop_gt1.raw_induct
      [where P = "\<lambda>g am1 b c0 omc r. exponentials_positive g \<longrightarrow> 0 < c0 \<longrightarrow> b < fst r",
       OF _ assms(1)])
    fix loop g am1 b c0 omc and r :: "real \<times> bitgen"
    assume IH: "\<And>g am1 b c0 omc y. loop g am1 b c0 omc = Some y \<Longrightarrow>
        exponentials_positive g \<longrightarrow> 0 < c0 \<longrightarrow> b < fst y"
      and body: "(let (e, g1) = random_standard_exponential g;
                      x = b + e / c0;
                      log_rho = am1 * ln x - x * omc;
                      log_m = am1 * ln (am1 / omc) - am1;
                      (u, g2) = random_standard_uniform g1
                  in if ln (1 - u) > log_rho - log_m then loop g2 am1 b c0 omc
                     else Some (x, g2)) = Some r"
    let ?g2 = "g\<lparr>exponentials := stl (exponentials g), uniforms := stl (uniforms g)\<rparr>"
    let ?x = "b + shd (exponentials g) / c0"
    show "exponentials_positive g \<longrightarrow> 0 < c0 \<longrightarrow> b < fst r"
    proof (intro impI)
      assume pos: "exponentials_positive g" and c0: "0 < c0"
      from body have "loop ?g2 am1 b c0 omc = Some r \<or> r = (?x, ?g2)"
        by (auto simp: random_standard_exponential_def random_standard_uniform_def
            next_double_def Let_def split: if_splits)
      then show "b < fst r"
      proof
        assume "loop ?g2 am1 b c0 omc = Some r"
        then show ?thesis
          using IH exponentials_positive_step [OF pos] c0 by blast
      next
        assume "r = (?x, ?g2)"
        then show ?thesis
          using exponentials_positive_shd [OF pos] c0 by simp
      qed
    qed
  qed
  then show ?thesis using assms by blast
qed

lemma lbg_loop_lt1_above:
  assumes "lbg_loop_lt1 g a b t = Some r" "exponentials_positive g" "0 < t * b"
  shows "1 < fst r"
proof -
  have "exponentials_positive g \<longrightarrow> 0 < t * b \<longrightarrow> 1 < fst r"
  proof (rule lbg_loop_lt1.raw_induct
      [where P = "\<lambda>g a b t r. exponentials_positive g \<longrightarrow> 0 < t * b \<longrightarrow> 1 < fst r",
       OF _ assms(1)])
    fix loop g a b t and r :: "real \<times> bitgen"
    assume IH: "\<And>g a b t y. loop g a b t = Some y \<Longrightarrow>
        exponentials_positive g \<longrightarrow> 0 < t * b \<longrightarrow> 1 < fst y"
      and body: "(let (e, g1) = random_standard_exponential g;
                      x = 1 + e / (t * b);
                      (u, g2) = random_standard_uniform g1
                  in if ln (1 - u) > (a - 1) * ln x then loop g2 a b t
                     else Some (x, g2)) = Some r"
    let ?g2 = "g\<lparr>exponentials := stl (exponentials g), uniforms := stl (uniforms g)\<rparr>"
    let ?x = "1 + shd (exponentials g) / (t * b)"
    show "exponentials_positive g \<longrightarrow> 0 < t * b \<longrightarrow> 1 < fst r"
    proof (intro impI)
      assume pos: "exponentials_positive g" and tb: "0 < t * b"
      from body have "loop ?g2 a b t = Some r \<or> r = (?x, ?g2)"
        by (auto simp: random_standard_exponential_def random_standard_uniform_def
            next_double_def Let_def split: if_splits)
      then show "1 < fst r"
      proof
        assume "loop ?g2 a b t = Some r"
        then show ?thesis
          using IH exponentials_positive_step [OF pos] tb by blast
      next
        assume "r = (?x, ?g2)"
        then show ?thesis
          using exponentials_positive_shd [OF pos] tb by simp
      qed
    qed
  qed
  then show ?thesis using assms by blast
qed

lemma lbg_above_t_if_draws_positive:
  assumes "random_left_bounded_gamma g a b t = Some (v, g')"
    and "0 < b" "0 < t" "exponentials_positive g"
  shows "t < v"
proof -
  have tb: "0 < t * b" using assms by simp
  consider "a > 1" | "a = 1" | "a < 1" by linarith
  then show ?thesis
  proof cases
    case 1
    let ?c0 = "0.5 * ((t * b - a) + sqrt ((t * b - a) * (t * b - a) + 4 * (t * b))) / (t * b)"
    from assms(1) 1 obtain r where
      r: "lbg_loop_gt1 g (a - 1) (t * b) ?c0 (1 - ?c0) = Some r" and v: "v = t * (fst r / (t * b))"
      by (auto simp: random_left_bounded_gamma_def Let_def)
    have "t * b < fst r"
      using r assms(4) lbg_c0_pos [OF tb] by (rule lbg_loop_gt1_above)
    then have "1 < fst r / (t * b)" using tb by simp
    then have "t * 1 < t * (fst r / (t * b))"
      using assms(3) by (simp only: mult_less_cancel_left_pos)
    then show ?thesis unfolding v by simp
  next
    case 2
    with assms(1) have "v = t + shd (exponentials g) / b"
      by (auto simp: random_left_bounded_gamma_def random_standard_exponential_def)
    then show ?thesis
      using exponentials_positive_shd [OF assms(4)] assms(2) by simp
  next
    case 3
    from assms(1) 3 obtain r where
      r: "lbg_loop_lt1 g a b t = Some r" and v: "v = t * fst r"
      by (auto simp: random_left_bounded_gamma_def)
    have "1 < fst r" using r assms(4) tb by (rule lbg_loop_lt1_above)
    then have "t * 1 < t * fst r"
      using assms(3) by (simp only: mult_less_cancel_left_pos)
    then show ?thesis unfolding v by simp
  qed
qed

subsection \<open>\<open>random_right_bounded_inverse_gaussian\<close>: the upper bound \<open>t\<close>\<close>

lemma ln_2_ge_quarter: "1 / 4 \<le> ln (2::real)"
proof -
  have "1 / 2 - (1 / 2)\<^sup>2 \<le> ln (1 + 1 / 2 :: real)"
    by (rule ln_one_plus_pos_lower_bound) simp_all
  also have "\<dots> \<le> ln 2" by simp
  finally show ?thesis by (simp add: power2_eq_square)
qed

text \<open>
  C4. The source documents the sampler as truncated to \<open>{x | x < t}\<close>, and its
  \<open>t \<ge> mu\<close> branch rejects every \<open>x \<ge> t\<close>. The \<open>t < mu\<close> branch does not: with
  \<open>mu = 2\<close>, \<open>lambda = 1\<close>, \<open>t = 1\<close>, the exponential draws \<open>e1 = 0\<close>, \<open>e2 = 1\<close> and the
  uniform draw \<open>1/2\<close>, the pair passes the inner test (\<open>0 > 2\<close> is false), the proposal
  is \<open>x = t / (1 + t * 0)^2 = t\<close>, the loop ends since \<open>log (1/2) < - 1/8\<close>, and \<open>t\<close>
  itself is returned.
\<close>

theorem rbig_zero_draw_returns_t:
  "random_right_bounded_inverse_gaussian
     ((const_engine (1 / 2) 1)\<lparr>exponentials := 0 ## sconst 1\<rparr>) 2 1 1
   = Some (1, const_engine (1 / 2) 1)"
proof -
  let ?g = "(const_engine (1 / 2) 1)\<lparr>exponentials := 0 ## sconst 1\<rparr>"
  have pair: "rbig_pair_loop ?g 1 = Some (0, const_engine (1 / 2) 1)"
    by (subst rbig_pair_loop.simps)
       (simp add: random_standard_exponential_def Let_def const_engine_def)
  have accept: "\<not> ln (1 - 1 / 2 :: real) \<ge> - 0.5 * 1 * (1 / 4) * 1"
    using ln_2_ge_quarter by (simp add: ln_half)
  have "rbig_loop ?g (1 / (2 * 2)) (- 0.5 * 1) 1 = Some (1, const_engine (1 / 2) 1)"
    using accept
    by (subst rbig_loop.simps)
       (simp add: pair random_standard_uniform_def next_double_def Let_def)
  then show ?thesis
    by (simp add: random_right_bounded_inverse_gaussian_def Let_def)
qed

text \<open>
  What does hold: the \<open>t \<ge> mu\<close> branch always returns a value below \<open>t\<close>, and so does
  the \<open>t < mu\<close> branch when \<open>t > 0\<close> and no exponential draw is \<open>0\<close> (in exact
  arithmetic).
\<close>

lemma rbig_pair_loop_positive:
  assumes "rbig_pair_loop g t = Some r" "exponentials_positive g"
  shows "0 < fst r \<and> exponentials_positive (snd r)"
proof -
  have "exponentials_positive g \<longrightarrow> 0 < fst r \<and> exponentials_positive (snd r)"
  proof (rule rbig_pair_loop.raw_induct
      [where P = "\<lambda>g t r. exponentials_positive g \<longrightarrow> 0 < fst r \<and> exponentials_positive (snd r)",
       OF _ assms(1)])
    fix loop g t and r :: "real \<times> bitgen"
    assume IH: "\<And>g t y. loop g t = Some y \<Longrightarrow>
        exponentials_positive g \<longrightarrow> 0 < fst y \<and> exponentials_positive (snd y)"
      and body: "(let (e1, g1) = random_standard_exponential g;
                      (e2, g2) = random_standard_exponential g1
                  in if e1 * e1 > 2 * e2 / t then loop g2 t else Some (e1, g2)) = Some r"
    let ?g1 = "g\<lparr>exponentials := stl (exponentials g)\<rparr>"
    let ?g2 = "?g1\<lparr>exponentials := stl (exponentials ?g1)\<rparr>"
    show "exponentials_positive g \<longrightarrow> 0 < fst r \<and> exponentials_positive (snd r)"
    proof (intro impI)
      assume pos: "exponentials_positive g"
      have pos2: "exponentials_positive ?g2"
        by (intro exponentials_positive_stl pos)
      from body have "loop ?g2 t = Some r \<or> r = (shd (exponentials g), ?g2)"
        by (auto simp: random_standard_exponential_def Let_def split: if_splits)
      then show "0 < fst r \<and> exponentials_positive (snd r)"
      proof
        assume "loop ?g2 t = Some r"
        then show ?thesis using IH pos2 by blast
      next
        assume "r = (shd (exponentials g), ?g2)"
        then show ?thesis
          using exponentials_positive_shd [OF pos] pos2 by simp
      qed
    qed
  qed
  then show ?thesis using assms by blast
qed

lemma rbig_proposal_below:
  fixes t e1 :: real
  assumes "0 < t" "0 < e1"
  shows "t / ((1 + t * e1) * (1 + t * e1)) < t"
proof -
  have "1 < 1 + t * e1" using assms by simp
  then have "1 * 1 < (1 + t * e1) * (1 + t * e1)"
    by (intro mult_strict_mono) simp_all
  then have y: "1 < (1 + t * e1) * (1 + t * e1)" by simp
  have "t / ((1 + t * e1) * (1 + t * e1)) < t / 1"
    using y assms(1) by (intro divide_strict_left_mono) simp_all
  then show ?thesis by simp
qed

lemma rbig_loop_below:
  assumes "rbig_loop g a half_lambda t = Some r" "exponentials_positive g" "0 < t"
  shows "fst r < t"
proof -
  have "exponentials_positive g \<longrightarrow> 0 < t \<longrightarrow> fst r < t"
  proof (rule rbig_loop.raw_induct
      [where P = "\<lambda>g a half_lambda t r. exponentials_positive g \<longrightarrow> 0 < t \<longrightarrow> fst r < t",
       OF _ assms(1)])
    fix loop g a half_lambda t and r :: "real \<times> bitgen"
    assume IH: "\<And>g a half_lambda t y. loop g a half_lambda t = Some y \<Longrightarrow>
        exponentials_positive g \<longrightarrow> 0 < t \<longrightarrow> fst y < t"
      and body: "(case rbig_pair_loop g t of
          None \<Rightarrow> None
        | Some (e1, g1) \<Rightarrow>
            (let x0 = 1 + t * e1;
                 x = t / (x0 * x0)
             in if a > 0 then
                  (let (u, g2) = random_standard_uniform g1
                   in if ln (1 - u) \<ge> half_lambda * a * x then loop g2 a half_lambda t
                      else Some (x, g2))
                else Some (x, g1))) = Some r"
    show "exponentials_positive g \<longrightarrow> 0 < t \<longrightarrow> fst r < t"
    proof (intro impI)
      assume pos: "exponentials_positive g" and t: "0 < t"
      from body obtain e1 g1 where pair: "rbig_pair_loop g t = Some (e1, g1)"
        by (auto split: option.splits)
      from rbig_pair_loop_positive [OF pair pos]
      have e1: "0 < e1" and pos1: "exponentials_positive g1" by simp_all
      let ?x = "t / ((1 + t * e1) * (1 + t * e1))"
      let ?g2 = "g1\<lparr>uniforms := stl (uniforms g1)\<rparr>"
      from body pair have "loop ?g2 a half_lambda t = Some r \<or> fst r = ?x"
        by (auto simp: random_standard_uniform_def next_double_def Let_def split: if_splits)
      then show "fst r < t"
      proof
        assume "loop ?g2 a half_lambda t = Some r"
        then show ?thesis
          using IH exponentials_positive_uniforms [OF pos1] t by blast
      next
        assume "fst r = ?x"
        then show ?thesis using rbig_proposal_below [OF t e1] by simp
      qed
    qed
  qed
  then show ?thesis using assms by blast
qed

lemma rbig_wald_loop_below:
  assumes "rbig_wald_loop g mu lambda t = Some r"
  shows "fst r < t"
proof (rule rbig_wald_loop.raw_induct [where P = "\<lambda>g mu lambda t r. fst r < t", OF _ assms])
  fix loop g mu lambda t and r :: "real \<times> bitgen"
  assume IH: "\<And>g mu lambda t y. loop g mu lambda t = Some y \<Longrightarrow> fst y < t"
    and body: "(let (x, g1) = random_wald g mu lambda
                in if t \<le> x then loop g1 mu lambda t else Some (x, g1)) = Some r"
  show "fst r < t"
  proof (cases "t \<le> fst (random_wald g mu lambda)")
    case True
    with body have "loop (snd (random_wald g mu lambda)) mu lambda t = Some r"
      by (simp add: Let_def split_beta)
    then show ?thesis by (rule IH)
  next
    case False
    with body show ?thesis by (auto simp: Let_def split_beta)
  qed
qed

lemma rbig_below_t_if_draws_positive:
  assumes "random_right_bounded_inverse_gaussian g mu lambda t = Some (v, g')"
    and "0 < t" "exponentials_positive g"
  shows "v < t"
proof (cases "t < mu")
  case True
  with assms(1) have "rbig_loop g (1 / (mu * mu)) (- 0.5 * lambda) t = Some (v, g')"
    by (simp add: random_right_bounded_inverse_gaussian_def Let_def)
  from rbig_loop_below [OF this assms(3) assms(2)] show ?thesis by simp
next
  case False
  with assms(1) have "rbig_wald_loop g mu lambda t = Some (v, g')"
    by (simp add: random_right_bounded_inverse_gaussian_def)
  from rbig_wald_loop_below [OF this] show ?thesis by simp
qed

lemma rbig_regime_ge_below_t:
  assumes "random_right_bounded_inverse_gaussian g mu lambda t = Some (v, g')" "mu \<le> t"
  shows "v < t"
proof -
  from assms have "rbig_wald_loop g mu lambda t = Some (v, g')"
    by (simp add: random_right_bounded_inverse_gaussian_def)
  from rbig_wald_loop_below [OF this] show ?thesis by simp
qed

section \<open>Properties of the gamma convolution sampler\<close>

lemma gamma_conv_loop_eq:
  "gamma_conv_loop n g h z2 out =
     (out + (\<Sum>i<n. (gammas g !! (n - 1 - i)) / (PGM_PI2 * (real i + 0.5) * (real i + 0.5) + z2)),
      g\<lparr>gammas := sdrop n (gammas g), gamma_log := replicate n h @ gamma_log g\<rparr>)"
proof (induction n arbitrary: g out)
  case 0
  show ?case by simp
next
  case (Suc n)
  let ?g' = "g\<lparr>gammas := stl (gammas g), gamma_log := h # gamma_log g\<rparr>"
  let ?d = "\<lambda>i::nat. PGM_PI2 * (real i + 0.5) * (real i + 0.5) + z2"
  have step: "gamma_conv_loop (Suc n) g h z2 out =
      gamma_conv_loop n ?g' h z2 (out + shd (gammas g) / ?d n)"
    by (simp add: random_standard_gamma_def Let_def)
  have "(\<Sum>i<n. (stl (gammas g) !! (n - 1 - i)) / ?d i) = (\<Sum>i<n. (gammas g !! (n - i)) / ?d i)"
  proof (rule sum.cong [OF refl])
    fix i assume "i \<in> {..<n}"
    then have "Suc (n - 1 - i) = n - i" by auto
    then have "stl (gammas g) !! (n - 1 - i) = gammas g !! (n - i)"
      by (metis snth.simps(2))
    then show "(stl (gammas g) !! (n - 1 - i)) / ?d i = (gammas g !! (n - i)) / ?d i"
      by simp
  qed
  then have sum_shift: "(\<Sum>i<Suc n. (gammas g !! (Suc n - 1 - i)) / ?d i)
      = shd (gammas g) / ?d n + (\<Sum>i<n. (stl (gammas g) !! (n - 1 - i)) / ?d i)"
    by simp
  have log_shift: "replicate n h @ h # gamma_log g = replicate (Suc n) h @ gamma_log g"
    by (simp add: replicate_app_Cons_same)
  have "gamma_conv_loop (Suc n) g h z2 out =
      (out + shd (gammas g) / ?d n + (\<Sum>i<n. (stl (gammas g) !! (n - 1 - i)) / ?d i),
       ?g'\<lparr>gammas := sdrop n (gammas ?g'), gamma_log := replicate n h @ gamma_log ?g'\<rparr>)"
    unfolding step by (simp add: Suc.IH)
  also have "\<dots> = (out + (\<Sum>i<Suc n. (gammas g !! (Suc n - 1 - i)) / ?d i),
       g\<lparr>gammas := sdrop (Suc n) (gammas g), gamma_log := replicate (Suc n) h @ gamma_log g\<rparr>)"
    unfolding sum_shift using log_shift by (simp del: replicate_Suc)
  finally show ?case .
qed

text \<open>
  C6. For every shape \<open>h\<close> and every \<open>z\<close>, \<open>random_polyagamma_gamma_conv\<close> is a total
  function of the engine (it has no rejection loop): it makes exactly 200 calls of
  \<open>random_standard_gamma\<close>, each with shape \<open>h\<close>, and no other draw, and returns 0.5 times
  the sum over \<open>n = 0..199\<close> of \<open>G n / (PGM_PI2 * (n + 0.5)^2 + z^2)\<close>, where \<open>PGM_PI2\<close> is
  the source's constant for \<open>pi^2\<close> and \<open>G n\<close> is the gamma draw paired with index \<open>n\<close>
  (the draws are paired with \<open>n = 199\<close> down to \<open>0\<close>, so \<open>G n\<close> is draw number \<open>199 - n\<close>).
\<close>

theorem gamma_conv_200_draws:
  "random_polyagamma_gamma_conv g h z =
     (0.5 * (\<Sum>n<200. (gammas g !! (199 - n)) / (PGM_PI2 * (real n + 0.5)\<^sup>2 + z\<^sup>2)),
      g\<lparr>gammas := sdrop 200 (gammas g), gamma_log := replicate 200 h @ gamma_log g\<rparr>)"
proof -
  have "(\<Sum>i<200. (gammas g !! (200 - 1 - i)) / (PGM_PI2 * (real i + 0.5) * (real i + 0.5) + z * z))
      = (\<Sum>n<200. (gammas g !! (199 - n)) / (PGM_PI2 * (real n + 0.5)\<^sup>2 + z\<^sup>2))"
    by (rule sum.cong [OF refl]) (simp add: power2_eq_square mult.assoc)
  then show ?thesis
    by (simp add: random_polyagamma_gamma_conv_def PGM_GAMMA_LIMIT_def gamma_conv_loop_eq)
qed

section \<open>Properties of the Devroye sampler\<close>

lemma component_draws_length:
  "component_draws f m g cfg = Some (vs, g') \<Longrightarrow> length vs = m"
  by (induction m arbitrary: g cfg vs) (auto split: option.splits)

lemma devroye_loop_0_steps:
  "unat (n - 1) = m \<Longrightarrow>
   devroye_loop_0 g cfg n out =
     map_option (\<lambda>(vs, g'). (out + sum_list vs, g'))
       (component_draws random_jacobi_0 (Suc m) g cfg)"
proof (induction m arbitrary: n g cfg out)
  case 0
  then have "n - 1 = 0" by (simp add: unat_eq_0)
  then show ?case
    by (subst devroye_loop_0.simps) (simp split: option.splits)
next
  case (Suc m)
  define n' where "n' = n - 1"
  have un: "unat n' = Suc m" using Suc.prems by (simp add: n'_def)
  then have n'nz: "n' \<noteq> 0" by (metis unat_0 nat.distinct(1))
  have "unat (n' - 1) = m" using unat_minus_one [OF n'nz] un by simp
  note IH = Suc.IH [OF this]
  have unfold: "devroye_loop_0 g cfg n out =
      (case random_jacobi_0 g cfg of None \<Rightarrow> None
       | Some (v, cfg', g') \<Rightarrow> devroye_loop_0 g' cfg' n' (out + v))"
    by (subst devroye_loop_0.simps)
       (simp add: n'_def [symmetric] n'nz Let_def split: option.splits)
  show ?case
    unfolding unfold by (simp add: IH add.assoc split: option.splits)
qed

lemma devroye_loop_steps:
  "unat (n - 1) = m \<Longrightarrow>
   devroye_loop g cfg n out =
     map_option (\<lambda>(vs, g'). (out + sum_list vs, g'))
       (component_draws random_jacobi (Suc m) g cfg)"
proof (induction m arbitrary: n g cfg out)
  case 0
  then have "n - 1 = 0" by (simp add: unat_eq_0)
  then show ?case
    by (subst devroye_loop.simps) (simp split: option.splits)
next
  case (Suc m)
  define n' where "n' = n - 1"
  have un: "unat n' = Suc m" using Suc.prems by (simp add: n'_def)
  then have n'nz: "n' \<noteq> 0" by (metis unat_0 nat.distinct(1))
  have "unat (n' - 1) = m" using unat_minus_one [OF n'nz] un by simp
  note IH = Suc.IH [OF this]
  have unfold: "devroye_loop g cfg n out =
      (case random_jacobi g cfg of None \<Rightarrow> None
       | Some (v, cfg', g') \<Rightarrow> devroye_loop g' cfg' n' (out + v))"
    by (subst devroye_loop.simps)
       (simp add: n'_def [symmetric] n'nz Let_def split: option.splits)
  show ?case
    unfolding unfold by (simp add: IH add.assoc split: option.splits)
qed

lemma map_option_quarter:
  "map_option (\<lambda>(out, g'). (0.25 * out, g')) (map_option (\<lambda>(vs, g'). (0 + sum_list vs, g')) r)
     = map_option (\<lambda>(vs, g'). (0.25 * sum_list vs, g')) r"
  by (cases r) auto

text \<open>
  One accepted candidate of \<open>random_jacobi_0\<close>, traced by hand: the first uniform
  \<open>0.9\<close> is not below \<open>ratio\<close>, so the exponential branch proposes
  \<open>x = T + 8 * e / PGM_PI2 = T + 1\<close>; the second uniform \<open>0\<close> gives \<open>u = 0\<close>, and
  the first odd partial sum \<open>a 0 - a 1\<close> is positive, so \<open>x\<close> is returned at \<open>i = 1\<close>.
\<close>

lemma piecewise_coef_first_two:
  assumes "cfg_x cfg > T"
  shows "piecewise_coef 1 cfg < piecewise_coef 0 cfg"
proof -
  let ?x = "cfg_x cfg"
  have Tpos: "T > 0" by (simp add: T_def NPY_2_PI_def)
  have "2 * pi = T * pi\<^sup>2" by (simp add: T_def NPY_2_PI_def power2_eq_square)
  also have "\<dots> < ?x * pi\<^sup>2" using assms by simp
  finally have big: "2 * pi < ?x * pi\<^sup>2" .
  have "3 < 1 + 2 * pi" using pi_ge_two by simp
  also have "\<dots> < 1 + ?x * pi\<^sup>2" using big by simp
  also have "\<dots> \<le> exp (?x * pi\<^sup>2)" by (rule exp_ge_add_one_self)
  finally have three: "3 < exp (?x * pi\<^sup>2)" .
  let ?A1 = "- 0.5 * ?x * (pi * (3/2)) * (pi * (3/2))"
  let ?A0 = "- 0.5 * ?x * (pi * (1/2)) * (pi * (1/2))"
  have "?A0 = ?A1 + ?x * pi\<^sup>2" by (simp add: power2_eq_square algebra_simps)
  then have "exp ?A0 = exp ?A1 * exp (?x * pi\<^sup>2)" by (simp only: exp_add)
  then have "3 * exp ?A1 < exp ?A0" using three by simp
  then have "pi * (3/2) * exp ?A1 < pi * (1/2) * exp ?A0"
    using pi_gt_zero by simp
  then show ?thesis
    using assms by (simp add: piecewise_coef_def NPY_PI_def Let_def)
qed


lemma jacobi_0_ratio_less: "jacobi_0_ratio < 9 / 10"
  by (simp add: jacobi_0_ratio_def Let_def)

lemma random_jacobi_0_accept:
  assumes u1: "shd (uniforms g) = 9 / 10"
    and u2: "shd (stl (uniforms g)) = 0"
    and e: "shd (exponentials g) = PGM_PI2 / 8"
  shows "random_jacobi_0 g cfg =
     Some (T + 1, cfg\<lparr>cfg_x := T + 1, cfg_logx := ln (T + 1)\<rparr>,
           g\<lparr>uniforms := stl (stl (uniforms g)), exponentials := stl (exponentials g)\<rparr>)"
proof -
  let ?cfg3 = "cfg\<lparr>cfg_x := T + 1, cfg_logx := ln (T + 1)\<rparr>"
  have x: "PGM_PI2 \<noteq> 0"
    by (simp add: PGM_PI2_def)
  have "piecewise_coef 1 ?cfg3 < piecewise_coef 0 ?cfg3"
    by (rule piecewise_coef_first_two) simp
  then have series: "jacobi_0_series 1 (piecewise_coef 0 ?cfg3) 0 ?cfg3 = Some True"
    by (subst jacobi_0_series.simps) (simp add: Let_def)
  show ?thesis
    using jacobi_0_ratio_less
    by (subst random_jacobi_0.simps)
       (simp add: next_double_def random_standard_exponential_def Let_def u1 u2 e x series)
qed

text \<open>
  C7. For every \<open>n \<ge> 1\<close> and every \<open>z\<close>, \<open>random_polyagamma_devroye\<close> is the component
  sampler run exactly \<open>n\<close> times in sequence (\<open>random_jacobi_0\<close> when \<open>z = 0\<close>,
  \<open>random_jacobi\<close> on the configuration computed from \<open>z\<close> otherwise), and its value is
  0.25 times the sum of the \<open>n\<close> component draws. It returns exactly when all \<open>n\<close>
  component draws return.
\<close>

theorem devroye_n_components:
  "n \<noteq> 0 \<Longrightarrow>
   random_polyagamma_devroye g n z =
     map_option (\<lambda>(vs, g'). (0.25 * sum_list vs, g'))
       (if z = 0 then component_draws random_jacobi_0 (unat n) g config_uninit
        else component_draws random_jacobi (unat n) g (devroye_config z))"
proof -
  assume "n \<noteq> 0"
  then have S: "Suc (unat (n - 1)) = unat n"
    by (simp add: unat_minus_one unat_gt_0)
  show ?thesis
    unfolding random_polyagamma_devroye_def
      devroye_loop_0_steps [OF refl] devroye_loop_steps [OF refl] map_option_quarter S
    by simp
qed

theorem devroye_n_components_witness:
  "(2 :: 64 word) \<noteq> 0 \<and>
   random_polyagamma_devroye
     ((const_engine 0 (PGM_PI2 / 8))\<lparr>uniforms := (9 / 10) ## 0 ## (9 / 10) ## 0 ## sconst 0\<rparr>) 2 0
   = Some (0.25 * sum_list [T + 1, T + 1], const_engine 0 (PGM_PI2 / 8))"
proof -
  let ?G = "(const_engine 0 (PGM_PI2 / 8))\<lparr>uniforms := (9 / 10) ## 0 ## (9 / 10) ## 0 ## sconst 0\<rparr>"
  have nz: "(2 :: 64 word) \<noteq> 0" by simp
  have u: "unat (2 :: 64 word) = Suc (Suc 0)" by simp
  have cd: "component_draws random_jacobi_0 (unat (2 :: 64 word)) ?G config_uninit
      = Some ([T + 1, T + 1], const_engine 0 (PGM_PI2 / 8))"
    unfolding u by (simp add: random_jacobi_0_accept const_engine_def)
  show ?thesis
    using nz devroye_n_components [OF nz, of ?G 0] unfolding cd by simp
qed

text \<open>
  C10. With \<open>n = 0\<close> the do-while loop does not return after zero draws: the body runs,
  the counter wraps to \<open>2^64 - 1\<close>, and the call is the component sampler run
  \<open>2^64\<close> times. So the count of iterations is \<open>n\<close> only for \<open>n \<ge> 1\<close>.
\<close>

theorem devroye_zero_count_wraps:
  "random_polyagamma_devroye g 0 z =
     map_option (\<lambda>(vs, g'). (0.25 * sum_list vs, g'))
       (if z = 0 then component_draws random_jacobi_0 (2 ^ 64) g config_uninit
        else component_draws random_jacobi (2 ^ 64) g (devroye_config z))"
proof -
  have S: "Suc (unat (0 - 1 :: 64 word)) = 2 ^ 64"
    by (simp add: unsigned_minus_1_eq_mask mask_eq_exp_minus_1)
  show ?thesis
    unfolding random_polyagamma_devroye_def
      devroye_loop_0_steps [OF refl] devroye_loop_steps [OF refl] map_option_quarter S
    by simp
qed

end
